theory Spec2Isabelle
  imports Complex_Main "HOL-Library.Word"
begin

section \<open>Office Management API: the CRUD routers over a document store\<close>

text \<open>
  The repository is six FastAPI routers (\<^verbatim>\<open>app/chat\<close>, \<^verbatim>\<open>app/document\<close>,
  \<^verbatim>\<open>app/employee\<close>, \<^verbatim>\<open>app/expense\<close>, \<^verbatim>\<open>app/meeting\<close>, \<^verbatim>\<open>app/project\<close>), each
  with the handlers create, list, search, update and delete over one MongoDB
  collection. The handlers are embedded one to one. What they call but the repository
  does not contain (the values a document holds, \<^verbatim>\<open>bson.ObjectId\<close>, the pymongo
  collection methods, pydantic's model constructors) is modelled in the first
  subsections, each with the behaviour of the library it stands for.
\<close>

subsection \<open>Values and Python dictionaries\<close>

type_synonym byte = "8 word"

type_synonym oid = "byte list"

text \<open>
  The values the routers store: strings, floats (a finite float is embedded as the real
  number it denotes; the routers never do arithmetic on one), lists of strings,
  \<^verbatim>\<open>None\<close> and ObjectIds. An ObjectId is the byte string it holds: twelve bytes
  when the driver generates it, and whatever \<^verbatim>\<open>bytes.fromhex\<close> made of the text when
  it is built from a string.
\<close>

datatype bson = VStr string | VNum real | VList "string list" | VNone | VOid oid

type_synonym dict = "string \<rightharpoonup> bson"

subsection \<open>Exceptions\<close>

text \<open>
  \<^verbatim>\<open>HTTPException(status_code, detail)\<close> is what a handler raises for the client;
  the others are raised by the libraries. The handlers build a detail with
  \<^verbatim>\<open>str(e)\<close> of a caught exception; its text depends on the library version, so the
  model keeps the exception itself (\<open>Str e\<close>).
\<close>

datatype exn =
    HTTPException nat msg
  | InvalidId string
  | ValidationError string
  | TypeError string
  | DuplicateKeyError oid
  | OperationFailure string
and msg = Detail string | Str exn

text \<open>
  \<^verbatim>\<open>try: ... except Exception as e: raise HTTPException(status_code=500, detail=str(e))\<close>.
  \<^verbatim>\<open>HTTPException\<close> is itself a subclass of \<^verbatim>\<open>Exception\<close>, so the clause catches
  every exception of the body, the body's own \<^verbatim>\<open>HTTPException\<close>s included.
\<close>

definition except_Exception :: "exn + 'a \<Rightarrow> exn + 'a" where
  "except_Exception r = (case r of Inl e \<Rightarrow> Inl (HTTPException 500 (Str e)) | Inr x \<Rightarrow> Inr x)"

text \<open>
  The status of the HTTP response: the handler's declared status on a return, the
  status of a raised \<^verbatim>\<open>HTTPException\<close>, and 500 for any other exception
  (\<^verbatim>\<open>custom_exception_handler\<close> of \<^verbatim>\<open>app/main.py\<close>).
\<close>

definition http_status :: "nat \<Rightarrow> exn + 'a \<Rightarrow> nat" where
  "http_status declared r =
     (case r of
        Inr x \<Rightarrow> declared
      | Inl e \<Rightarrow> (case e of HTTPException code m \<Rightarrow> code | _ \<Rightarrow> 500))"

text \<open>A list comprehension whose element expression may raise: the first exception ends it.\<close>

fun collect :: "('a \<Rightarrow> exn + 'b) \<Rightarrow> 'a list \<Rightarrow> exn + 'b list" where
  "collect f [] = Inr []"
| "collect f (x # xs) =
     (case f x of
        Inl e \<Rightarrow> Inl e
      | Inr y \<Rightarrow> (case collect f xs of Inl e \<Rightarrow> Inl e | Inr ys \<Rightarrow> Inr (y # ys)))"

subsection \<open>ObjectId\<close>

text \<open>
  \<^verbatim>\<open>ObjectId(s)\<close> of a string (\<^verbatim>\<open>bson/objectid.py\<close>): a string of length 24 is
  handed to \<^verbatim>\<open>bytes.fromhex\<close>, and the bytes it returns are the identifier; a
  \<^verbatim>\<open>ValueError\<close> of the conversion and every other length raise \<^verbatim>\<open>InvalidId\<close>.
  \<^verbatim>\<open>bytes.fromhex\<close> reads pairs of hexadecimal digits of either case and skips ASCII
  whitespace (tab, line feed, vertical tab, form feed, carriage return, space) in front
  of a pair and at the end, not between the two digits of a pair. So twenty-four
  hexadecimal digits give twelve bytes, and a string of length 24 with whitespace
  between its pairs gives fewer. \<^verbatim>\<open>str(oid)\<close> is two lower-case hexadecimal digits for
  each byte.
\<close>

definition hex_value :: "char \<Rightarrow> nat option" where
  "hex_value c =
     (let n = (of_char c :: nat) in
      if 48 \<le> n \<and> n \<le> 57 then Some (n - 48)
      else if 97 \<le> n \<and> n \<le> 102 then Some (n - 87)
      else if 65 \<le> n \<and> n \<le> 70 then Some (n - 55)
      else None)"

definition is_space :: "char \<Rightarrow> bool" where
  "is_space c = ((of_char c :: nat) \<in> set [9, 10, 11, 12, 13, 32])"

fun fromhex :: "string \<Rightarrow> byte list option" where
  "fromhex [] = Some []"
| "fromhex [c] = (if is_space c then Some [] else None)"
| "fromhex (c # d # cs) =
     (if is_space c then fromhex (d # cs)
      else (case hex_value c of
              None \<Rightarrow> None
            | Some h \<Rightarrow>
                (case hex_value d of
                   None \<Rightarrow> None
                 | Some l \<Rightarrow>
                     (case fromhex cs of
                        None \<Rightarrow> None
                      | Some bs \<Rightarrow> Some (word_of_nat (16 * h + l) # bs)))))"

definition ObjectId :: "string \<Rightarrow> exn + oid" where
  "ObjectId s =
     (if length s = 24
      then (case fromhex s of None \<Rightarrow> Inl (InvalidId s) | Some bs \<Rightarrow> Inr bs)
      else Inl (InvalidId s))"

definition hex_digit :: "nat \<Rightarrow> char" where
  "hex_digit n = ''0123456789abcdef'' ! n"

definition str_oid :: "oid \<Rightarrow> string" where
  "str_oid x = concat (map (\<lambda>b. [hex_digit (unat b div 16), hex_digit (unat b mod 16)]) x)"

text \<open>Two identifiers as the driver generates them, for the examples.\<close>

abbreviation oid_1 :: oid where
  "oid_1 \<equiv> [0, 0, 0, 0, 0, 0, 0, 0, 0, 0, 0, 1]"

abbreviation oid_2 :: oid where
  "oid_2 \<equiv> [0, 0, 0, 0, 0, 0, 0, 0, 0, 0, 0, 2]"

subsection \<open>Queries of the document store\<close>

text \<open>
  A query is a Python dict from field names to criteria. The routers use two criteria:
  a plain value (equality) and \<^verbatim>\<open>{"$regex": p, "$options": "i"}\<close>.
\<close>

datatype criterion = Eq bson | Regex_i string

type_synonym query = "(string \<times> criterion) list"

text \<open>
  The regular-expression engine (PCRE) belongs to the store. The model has the part of
  the pattern language that the examples need. A character is \<open>plain\<close> when it is an
  ASCII character other than NUL and not a metacharacter of the pattern language
  (\<^verbatim>\<open>\ ^ $ . | ? * + ( ) [ ] { }\<close>). A pattern of the fragment is a sequence of
  items, each a plain character, alone or followed by one of the quantifiers
  \<^verbatim>\<open>*\<close> (any number of times), \<^verbatim>\<open>+\<close> (at least once) and \<^verbatim>\<open>?\<close> (at most once).
  Under option \<^verbatim>\<open>i\<close> a character of the pattern matches a character of the string
  up to the case of ASCII letters, and \<^verbatim>\<open>$regex\<close> asks for a match anywhere in the
  string. For every pattern outside the fragment the engine is a parameter \<open>pcre\<close>
  of the model: \<open>pcre p\<close> is \<open>None\<close> when the store rejects the pattern and the
  matching predicate otherwise.
\<close>

definition lower :: "char \<Rightarrow> char" where
  "lower c =
     (case map_of (zip ''ABCDEFGHIJKLMNOPQRSTUVWXYZ'' ''abcdefghijklmnopqrstuvwxyz'') c of
        Some l \<Rightarrow> l
      | None \<Rightarrow> c)"

text \<open>
  \<open>icontains p s\<close>: the string \<open>s\<close> contains \<open>p\<close> up to the case of ASCII letters.
  It is what the claims call a case-insensitive substring match.
\<close>

fun starts_with :: "string \<Rightarrow> string \<Rightarrow> bool" where
  "starts_with [] s = True"
| "starts_with (p # ps) [] = False"
| "starts_with (p # ps) (c # cs) = (p = c \<and> starts_with ps cs)"

fun contains :: "string \<Rightarrow> string \<Rightarrow> bool" where
  "contains p [] = (p = [])"
| "contains p (c # cs) = (starts_with p (c # cs) \<or> contains p cs)"

definition icontains :: "string \<Rightarrow> string \<Rightarrow> bool" where
  "icontains p s = contains (map lower p) (map lower s)"

definition plain_char :: "char \<Rightarrow> bool" where
  "plain_char c =
     (let n = (of_char c :: nat) in
      1 \<le> n \<and> n \<le> 127 \<and>
      n \<notin> set [92, 94, 36, 46, 124, 63, 42, 43, 40, 41, 91, 93, 123, 125])"

definition plain :: "string \<Rightarrow> bool" where
  "plain p = list_all plain_char p"

datatype item = One char | Star char | Plus char | Opt char

fun parse_pattern :: "string \<Rightarrow> item list option" where
  "parse_pattern [] = Some []"
| "parse_pattern [c] = (if plain_char c then Some [One c] else None)"
| "parse_pattern (c # q # cs) =
     (if plain_char c
      then (if q = CHR ''*'' then map_option ((#) (Star c)) (parse_pattern cs)
            else if q = CHR ''+'' then map_option ((#) (Plus c)) (parse_pattern cs)
            else if q = CHR ''?'' then map_option ((#) (Opt c)) (parse_pattern cs)
            else map_option ((#) (One c)) (parse_pattern (q # cs)))
      else None)"

text \<open>\<open>matches_at items s\<close>: the items match a prefix of \<open>s\<close>.\<close>

fun matches_at :: "item list \<Rightarrow> string \<Rightarrow> bool" where
  "matches_at [] s = True"
| "matches_at (One a # r) [] = False"
| "matches_at (One a # r) (c # cs) = (lower a = lower c \<and> matches_at r cs)"
| "matches_at (Opt a # r) [] = matches_at r []"
| "matches_at (Opt a # r) (c # cs) =
     (matches_at r (c # cs) \<or> lower a = lower c \<and> matches_at r cs)"
| "matches_at (Star a # r) [] = matches_at r []"
| "matches_at (Star a # r) (c # cs) =
     (matches_at r (c # cs) \<or> lower a = lower c \<and> matches_at (Star a # r) cs)"
| "matches_at (Plus a # r) [] = False"
| "matches_at (Plus a # r) (c # cs) = (lower a = lower c \<and> matches_at (Star a # r) cs)"

fun found_in :: "item list \<Rightarrow> string \<Rightarrow> bool" where
  "found_in items [] = matches_at items []"
| "found_in items (c # cs) = (matches_at items (c # cs) \<or> found_in items cs)"

type_synonym pcre = "string \<Rightarrow> (string \<Rightarrow> bool) option"

definition regex_i :: "pcre \<Rightarrow> string \<Rightarrow> (string \<Rightarrow> bool) option" where
  "regex_i pcre p =
     (case parse_pattern p of Some items \<Rightarrow> Some (found_in items) | None \<Rightarrow> pcre p)"

text \<open>
  A criterion as a predicate on the field's value in a document (\<open>None\<close>: the field
  is missing). The fields the routers query hold scalars, so the store's matching of
  array elements does not arise.
\<close>

definition compile :: "pcre \<Rightarrow> criterion \<Rightarrow> (bson option \<Rightarrow> bool) option" where
  "compile pcre cr =
     (case cr of
        Eq v \<Rightarrow> Some (\<lambda>x. x = Some v)
      | Regex_i p \<Rightarrow>
          (case regex_i pcre p of
             None \<Rightarrow> None
           | Some m \<Rightarrow> Some (\<lambda>x. case x of Some (VStr s) \<Rightarrow> m s | _ \<Rightarrow> False)))"

fun query_pred :: "pcre \<Rightarrow> query \<Rightarrow> (dict \<Rightarrow> bool) option" where
  "query_pred pcre [] = Some (\<lambda>d. True)"
| "query_pred pcre ((k, cr) # q) =
     (case compile pcre cr of
        None \<Rightarrow> None
      | Some P \<Rightarrow>
          (case query_pred pcre q of
             None \<Rightarrow> None
           | Some Q \<Rightarrow> Some (\<lambda>d. P (d k) \<and> Q d)))"

subsection \<open>Collections\<close>

text \<open>
  A collection is the list of its documents in the store's order, each with its
  \<^verbatim>\<open>_id\<close> (an ObjectId: the routers never supply an identifier of their own) and
  its other fields. \<open>as_dict\<close> is the document as the driver hands it to Python.
\<close>

type_synonym document = "oid \<times> dict"

type_synonym collection = "document list"

definition as_dict :: "document \<Rightarrow> dict" where
  "as_dict doc = (snd doc)(''_id'' \<mapsto> VOid (fst doc))"

text \<open>\<^verbatim>\<open>collection.find(query)\<close>; \<^verbatim>\<open>find()\<close> is the empty query.\<close>

definition find_all :: "pcre \<Rightarrow> collection \<Rightarrow> query \<Rightarrow> exn + document list" where
  "find_all pcre c q =
     (case query_pred pcre q of
        None \<Rightarrow> Inl (OperationFailure ''$regex'')
      | Some P \<Rightarrow> Inr (filter (\<lambda>doc. P (as_dict doc)) c))"

text \<open>\<^verbatim>\<open>collection.find_one(filter)\<close> with a filter of plain values.\<close>

definition find_one :: "collection \<Rightarrow> (string \<times> bson) list \<Rightarrow> document option" where
  "find_one c flt =
     (case filter (\<lambda>doc. list_all (\<lambda>(k, v). as_dict doc k = Some v) flt) c of
        [] \<Rightarrow> None
      | doc # rest \<Rightarrow> Some doc)"

text \<open>
  \<^verbatim>\<open>collection.insert_one(d)\<close>. The driver generates the new document's ObjectId;
  the model takes it as the argument \<open>new_id\<close>. The store keeps \<^verbatim>\<open>_id\<close> unique and
  rejects an identifier it already holds.
\<close>

definition insert_one :: "collection \<Rightarrow> oid \<Rightarrow> dict \<Rightarrow> exn + collection" where
  "insert_one c new_id d =
     (if new_id \<in> set (map fst c) then Inl (DuplicateKeyError new_id)
      else Inr (c @ [(new_id, d)]))"

text \<open>
  \<^verbatim>\<open>collection.update_one({"_id": i}, {"$set": upd})\<close>: the first document with that
  identifier gets the fields of \<open>upd\<close>; the result is \<^verbatim>\<open>matched_count\<close> and the
  collection afterwards.
\<close>

fun update_one :: "collection \<Rightarrow> oid \<Rightarrow> dict \<Rightarrow> nat \<times> collection" where
  "update_one [] i upd = (0, [])"
| "update_one (doc # c) i upd =
     (if fst doc = i then (1, (fst doc, snd doc ++ upd) # c)
      else (case update_one c i upd of (n, c') \<Rightarrow> (n, doc # c')))"

text \<open>\<^verbatim>\<open>collection.delete_one({"_id": i})\<close>: \<^verbatim>\<open>deleted_count\<close> and the collection afterwards.\<close>

fun delete_one :: "collection \<Rightarrow> oid \<Rightarrow> nat \<times> collection" where
  "delete_one [] i = (0, [])"
| "delete_one (doc # c) i =
     (if fst doc = i then (1, c)
      else (case delete_one c i of (n, c') \<Rightarrow> (n, doc # c')))"

subsection \<open>Reading the arguments of a pydantic model\<close>

text \<open>
  A model constructor is called with keyword arguments, here a dict. A required field
  must be present with a value of its type; arguments that name no field are ignored.
  A \<^verbatim>\<open>float\<close> field takes a number as it is, and in pydantic's default (lax) mode it
  also takes a string that spells a number, such as \<^verbatim>\<open>"420"\<close>. Which strings do is
  pydantic's own: the model takes the conversion as the parameter \<open>fl\<close>, with
  \<open>fl s = None\<close> for a string that is rejected.
\<close>

definition get_str :: "dict \<Rightarrow> string \<Rightarrow> string option" where
  "get_str kw k = (case kw k of Some (VStr s) \<Rightarrow> Some s | _ \<Rightarrow> None)"

type_synonym to_float = "string \<Rightarrow> real option"

definition get_float :: "to_float \<Rightarrow> dict \<Rightarrow> string \<Rightarrow> real option" where
  "get_float fl kw k =
     (case kw k of Some (VNum x) \<Rightarrow> Some x | Some (VStr s) \<Rightarrow> fl s | _ \<Rightarrow> None)"

definition get_list :: "dict \<Rightarrow> string \<Rightarrow> string list option" where
  "get_list kw k = (case kw k of Some (VList xs) \<Rightarrow> Some xs | _ \<Rightarrow> None)"

text \<open>\<^verbatim>\<open>Optional[str] = Field(None)\<close>: absent and \<^verbatim>\<open>None\<close> both give \<^verbatim>\<open>None\<close>.\<close>

definition get_opt_str :: "dict \<Rightarrow> string \<Rightarrow> string option option" where
  "get_opt_str kw k =
     (case kw k of
        None \<Rightarrow> Some None
      | Some VNone \<Rightarrow> Some None
      | Some (VStr s) \<Rightarrow> Some (Some s)
      | _ \<Rightarrow> None)"

text \<open>The response envelope (\<^verbatim>\<open>detail: str\<close>, \<^verbatim>\<open>data: Optional[...] = None\<close>) of every router.\<close>

record 'a Response =
  detail :: string
  data :: "'a option"

subsection \<open>Query parameters of the search handlers\<close>

text \<open>
  Every search handler builds its query by \<^verbatim>\<open>if v: query[k] = ...\<close>. A parameter is
  \<^verbatim>\<open>None\<close> when the request does not give it. Python's truth value of a string is
  that it is not empty, of a float that it is not zero.
\<close>

definition id_filter :: "string option \<Rightarrow> exn + query" where
  "id_filter v =
     (case v of
        None \<Rightarrow> Inr []
      | Some s \<Rightarrow>
          if s = [] then Inr []
          else (case ObjectId s of
                  Inl e \<Rightarrow> Inl e
                | Inr i \<Rightarrow> Inr [(''_id'', Eq (VOid i))]))"

definition regex_filter :: "string \<Rightarrow> string option \<Rightarrow> query" where
  "regex_filter k v =
     (case v of None \<Rightarrow> [] | Some s \<Rightarrow> if s = [] then [] else [(k, Regex_i s)])"

definition exact_filter :: "string \<Rightarrow> string option \<Rightarrow> query" where
  "exact_filter k v =
     (case v of None \<Rightarrow> [] | Some s \<Rightarrow> if s = [] then [] else [(k, Eq (VStr s))])"

definition float_filter :: "string \<Rightarrow> real option \<Rightarrow> query" where
  "float_filter k v =
     (case v of None \<Rightarrow> [] | Some x \<Rightarrow> if x = 0 then [] else [(k, Eq (VNum x))])"

text \<open>The body of every search handler after its query is built: find, then convert.\<close>

definition run_search ::
  "pcre \<Rightarrow> collection \<Rightarrow> (document \<Rightarrow> exn + 'a) \<Rightarrow> exn + query \<Rightarrow> exn + 'a list" where
  "run_search pcre c conv q =
     (case q of
        Inl e \<Rightarrow> Inl e
      | Inr query \<Rightarrow>
          (case find_all pcre c query of
             Inl e \<Rightarrow> Inl e
           | Inr found \<Rightarrow> collect conv found))"

subsection \<open>Chats (\<^verbatim>\<open>app/chat/routers.py\<close>)\<close>

record ChatCreate =
  chat_message :: string
  chat_sender :: string
  chat_timestamp :: string

record ChatResponse =
  resp_id :: string
  resp_message :: string
  resp_sender :: string
  resp_timestamp :: string

definition ChatCreate_dict :: "ChatCreate \<Rightarrow> dict" where
  "ChatCreate_dict chat =
     [''message'' \<mapsto> VStr (chat_message chat),
      ''sender'' \<mapsto> VStr (chat_sender chat),
      ''timestamp'' \<mapsto> VStr (chat_timestamp chat)]"

definition ChatResponse_init :: "dict \<Rightarrow> exn + ChatResponse" where
  "ChatResponse_init kw =
     (case (get_str kw ''id'', get_str kw ''message'', get_str kw ''sender'',
            get_str kw ''timestamp'') of
        (Some i, Some m, Some s, Some t) \<Rightarrow>
          Inr \<lparr>resp_id = i, resp_message = m, resp_sender = s, resp_timestamp = t\<rparr>
      | _ \<Rightarrow> Inl (ValidationError ''ChatResponse''))"

text \<open>
  \<^verbatim>\<open>ChatResponse(id=i, **kw)\<close>: Python raises \<^verbatim>\<open>TypeError\<close> when \<open>kw\<close> has the
  key \<^verbatim>\<open>id\<close> too.
\<close>

definition ChatResponse_id :: "string \<Rightarrow> dict \<Rightarrow> exn + ChatResponse" where
  "ChatResponse_id i kw =
     (if kw ''id'' = None then ChatResponse_init (kw(''id'' \<mapsto> VStr i))
      else Inl (TypeError ''id''))"

definition create_chat ::
  "collection \<Rightarrow> oid \<Rightarrow> ChatCreate \<Rightarrow> (exn + ChatResponse Response) \<times> collection" where
  "create_chat chats new_id chat =
     (let chat_dict = ChatCreate_dict chat in
      apfst except_Exception
        (case insert_one chats new_id chat_dict of
           Inl e \<Rightarrow> (Inl e, chats)
         | Inr chats' \<Rightarrow>
             (let chat_dict = chat_dict(''_id'' \<mapsto> VStr (str_oid new_id)) in
              case ChatResponse_id (str_oid new_id) chat_dict of
                Inl e \<Rightarrow> (Inl e, chats')
              | Inr response_data \<Rightarrow>
                  (Inr \<lparr>detail = ''Chat created successfully.'', data = Some response_data\<rparr>,
                   chats'))))"

definition chat_response :: "document \<Rightarrow> exn + ChatResponse" where
  "chat_response chat = ChatResponse_id (str_oid (fst chat)) (as_dict chat)"

definition get_chats :: "collection \<Rightarrow> exn + ChatResponse list" where
  "get_chats chats = except_Exception (collect chat_response chats)"

definition search_chats_query :: "string option \<Rightarrow> string option \<Rightarrow> string option \<Rightarrow> query" where
  "search_chats_query message sender timestamp =
     regex_filter ''message'' message @ exact_filter ''sender'' sender
       @ exact_filter ''timestamp'' timestamp"

definition search_chats ::
  "pcre \<Rightarrow> collection \<Rightarrow> string option \<Rightarrow> string option \<Rightarrow> string option
     \<Rightarrow> exn + ChatResponse list" where
  "search_chats pcre chats message sender timestamp =
     (let query = search_chats_query message sender timestamp in
      except_Exception (run_search pcre chats chat_response (Inr query)))"

definition update_chat ::
  "collection \<Rightarrow> string \<Rightarrow> ChatCreate \<Rightarrow> (exn + ChatResponse Response) \<times> collection" where
  "update_chat chats chat_id chat =
     (let chat_dict = ChatCreate_dict chat in
      apfst except_Exception
        (case ObjectId chat_id of
           Inl e \<Rightarrow> (Inl e, chats)
         | Inr i \<Rightarrow>
             (case update_one chats i chat_dict of
                (matched_count, chats') \<Rightarrow>
                  if matched_count = 0
                  then (Inl (HTTPException 404 (Detail ''Chat not found'')), chats')
                  else (let chat_dict = chat_dict(''_id'' \<mapsto> VStr chat_id) in
                        case ChatResponse_id chat_id chat_dict of
                          Inl e \<Rightarrow> (Inl e, chats')
                        | Inr response_data \<Rightarrow>
                            (Inr \<lparr>detail = ''Chat updated successfully.'',
                                  data = Some response_data\<rparr>, chats')))))"

text \<open>
  The delete handlers share one body; they differ in the name in the detail and in
  what they return (nothing for chats, a detail for the others).
\<close>

definition delete_by_id ::
  "string \<Rightarrow> 'a \<Rightarrow> collection \<Rightarrow> string \<Rightarrow> (exn + 'a) \<times> collection" where
  "delete_by_id not_found ok c ident =
     apfst except_Exception
       (case ObjectId ident of
          Inl e \<Rightarrow> (Inl e, c)
        | Inr i \<Rightarrow>
            (case delete_one c i of
               (deleted_count, c') \<Rightarrow>
                 if deleted_count = 0
                 then (Inl (HTTPException 404 (Detail not_found)), c')
                 else (Inr ok, c')))"

definition delete_chat :: "collection \<Rightarrow> string \<Rightarrow> (exn + unit) \<times> collection" where
  "delete_chat chats chat_id = delete_by_id ''Chat not found'' () chats chat_id"

subsection \<open>Documents (\<^verbatim>\<open>app/document/routers.py\<close>)\<close>

record DocumentBase =
  doc_title :: string
  doc_description :: string
  doc_uploaded_by :: string

record Document = DocumentBase +
  doc_id :: string

definition DocumentBase_dict :: "DocumentBase \<Rightarrow> dict" where
  "DocumentBase_dict document =
     [''title'' \<mapsto> VStr (doc_title document),
      ''description'' \<mapsto> VStr (doc_description document),
      ''uploaded_by'' \<mapsto> VStr (doc_uploaded_by document)]"

definition Document_init :: "dict \<Rightarrow> exn + Document" where
  "Document_init kw =
     (case (get_str kw ''title'', get_str kw ''description'', get_str kw ''uploaded_by'',
            get_str kw ''id'') of
        (Some t, Some d, Some u, Some i) \<Rightarrow>
          Inr \<lparr>doc_title = t, doc_description = d, doc_uploaded_by = u, doc_id = i\<rparr>
      | _ \<Rightarrow> Inl (ValidationError ''Document''))"

definition create_document ::
  "collection \<Rightarrow> oid \<Rightarrow> DocumentBase \<Rightarrow> (exn + Document Response) \<times> collection" where
  "create_document documents new_id document =
     (case find_one documents [(''title'', VStr (doc_title document))] of
        Some existing_document \<Rightarrow>
          (Inl (HTTPException 400 (Detail ''Document with this title already exists'')),
           documents)
      | None \<Rightarrow>
          (let document_dict = DocumentBase_dict document in
           case insert_one documents new_id document_dict of
             Inl e \<Rightarrow> (Inl e, documents)
           | Inr documents' \<Rightarrow>
               (let document_dict = document_dict(''_id'' \<mapsto> VStr (str_oid new_id)) in
                case Document_init (document_dict(''id'' \<mapsto> VStr (str_oid new_id))) of
                  Inl e \<Rightarrow> (Inl e, documents')
                | Inr d \<Rightarrow>
                    (Inr \<lparr>detail = ''Document created successfully.'', data = Some d\<rparr>,
                     documents'))))"

text \<open>
  \<^verbatim>\<open>doc["_id"] = str(doc["_id"])\<close>, then \<^verbatim>\<open>Document(**{**doc, "id": str(doc["_id"])})\<close>.
\<close>

definition document_record :: "document \<Rightarrow> exn + Document" where
  "document_record doc =
     (let s = str_oid (fst doc) in
      Document_init ((as_dict doc)(''_id'' \<mapsto> VStr s, ''id'' \<mapsto> VStr s)))"

definition get_documents :: "collection \<Rightarrow> exn + Document list" where
  "get_documents documents = except_Exception (collect document_record documents)"

definition search_documents_query ::
  "string option \<Rightarrow> string option \<Rightarrow> string option \<Rightarrow> exn + query" where
  "search_documents_query ident title uploaded_by =
     (case id_filter ident of
        Inl e \<Rightarrow> Inl e
      | Inr q \<Rightarrow>
          Inr (q @ regex_filter ''title'' title @ regex_filter ''uploaded_by'' uploaded_by))"

definition search_documents ::
  "pcre \<Rightarrow> collection \<Rightarrow> string option \<Rightarrow> string option \<Rightarrow> string option
     \<Rightarrow> exn + Document list" where
  "search_documents pcre documents ident title uploaded_by =
     except_Exception
       (run_search pcre documents document_record
          (search_documents_query ident title uploaded_by))"

definition update_document ::
  "collection \<Rightarrow> string \<Rightarrow> DocumentBase \<Rightarrow> (exn + Document Response) \<times> collection" where
  "update_document documents document_id document =
     apfst except_Exception
       (let document_dict = DocumentBase_dict document in
        case ObjectId document_id of
          Inl e \<Rightarrow> (Inl e, documents)
        | Inr i \<Rightarrow>
            (case update_one documents i document_dict of
               (matched_count, documents') \<Rightarrow>
                 if matched_count = 0
                 then (Inl (HTTPException 404 (Detail ''Document not found'')), documents')
                 else (let document_dict = document_dict(''_id'' \<mapsto> VStr document_id) in
                       case Document_init (document_dict(''id'' \<mapsto> VStr document_id)) of
                         Inl e \<Rightarrow> (Inl e, documents')
                       | Inr d \<Rightarrow>
                           (Inr \<lparr>detail = ''Document updated successfully.'',
                                 data = Some d\<rparr>, documents'))))"

definition delete_document :: "collection \<Rightarrow> string \<Rightarrow> (exn + string) \<times> collection" where
  "delete_document documents document_id =
     delete_by_id ''Document not found'' ''Document deleted successfully.'' documents document_id"

subsection \<open>Employees (\<^verbatim>\<open>app/employee/routers.py\<close>)\<close>

record EmployeeBase =
  emp_name :: string
  emp_position :: string
  emp_salary :: real

record Employee = EmployeeBase +
  emp_id :: string

definition EmployeeBase_dict :: "EmployeeBase \<Rightarrow> dict" where
  "EmployeeBase_dict employee =
     [''name'' \<mapsto> VStr (emp_name employee),
      ''position'' \<mapsto> VStr (emp_position employee),
      ''salary'' \<mapsto> VNum (emp_salary employee)]"

definition Employee_init :: "to_float \<Rightarrow> dict \<Rightarrow> exn + Employee" where
  "Employee_init fl kw =
     (case (get_str kw ''name'', get_str kw ''position'', get_float fl kw ''salary'',
            get_str kw ''id'') of
        (Some n, Some p, Some s, Some i) \<Rightarrow>
          Inr \<lparr>emp_name = n, emp_position = p, emp_salary = s, emp_id = i\<rparr>
      | _ \<Rightarrow> Inl (ValidationError ''Employee''))"

text \<open>
  The employee router passes the dict with the key \<^verbatim>\<open>_id\<close> as it is:
  \<^verbatim>\<open>Employee(**employee_dict)\<close>, \<^verbatim>\<open>Employee(**emp)\<close>.
\<close>

definition create_employee ::
  "to_float \<Rightarrow> collection \<Rightarrow> oid \<Rightarrow> EmployeeBase
     \<Rightarrow> (exn + Employee Response) \<times> collection" where
  "create_employee fl employees new_id employee =
     apfst except_Exception
       (case find_one employees [(''name'', VStr (emp_name employee))] of
          Some existing_employee \<Rightarrow>
            (Inl (HTTPException 400 (Detail ''Employee with this name already exists'')),
             employees)
        | None \<Rightarrow>
            (let employee_dict = EmployeeBase_dict employee in
             case insert_one employees new_id employee_dict of
               Inl e \<Rightarrow> (Inl e, employees)
             | Inr employees' \<Rightarrow>
                 (let employee_dict = employee_dict(''_id'' \<mapsto> VStr (str_oid new_id)) in
                  case Employee_init fl employee_dict of
                    Inl e \<Rightarrow> (Inl e, employees')
                  | Inr d \<Rightarrow>
                      (Inr \<lparr>detail = ''Employee created successfully.'', data = Some d\<rparr>,
                       employees'))))"

definition employee_record :: "to_float \<Rightarrow> document \<Rightarrow> exn + Employee" where
  "employee_record fl emp =
     Employee_init fl ((as_dict emp)(''_id'' \<mapsto> VStr (str_oid (fst emp))))"

definition get_employees :: "to_float \<Rightarrow> collection \<Rightarrow> exn + Employee list" where
  "get_employees fl employees = except_Exception (collect (employee_record fl) employees)"

definition search_employees_query ::
  "string option \<Rightarrow> string option \<Rightarrow> string option \<Rightarrow> real option \<Rightarrow> exn + query" where
  "search_employees_query ident name position salary =
     (case id_filter ident of
        Inl e \<Rightarrow> Inl e
      | Inr q \<Rightarrow>
          Inr (q @ regex_filter ''name'' name @ exact_filter ''position'' position
                 @ float_filter ''salary'' salary))"

definition search_employees ::
  "to_float \<Rightarrow> pcre \<Rightarrow> collection
     \<Rightarrow> string option \<Rightarrow> string option \<Rightarrow> string option \<Rightarrow> real option
     \<Rightarrow> exn + Employee list" where
  "search_employees fl pcre employees ident name position salary =
     except_Exception
       (run_search pcre employees (employee_record fl)
          (search_employees_query ident name position salary))"

definition update_employee ::
  "to_float \<Rightarrow> collection \<Rightarrow> string \<Rightarrow> EmployeeBase
     \<Rightarrow> (exn + Employee Response) \<times> collection" where
  "update_employee fl employees employee_id employee =
     apfst except_Exception
       (let employee_dict = EmployeeBase_dict employee in
        case ObjectId employee_id of
          Inl e \<Rightarrow> (Inl e, employees)
        | Inr i \<Rightarrow>
            (case update_one employees i employee_dict of
               (matched_count, employees') \<Rightarrow>
                 if matched_count = 0
                 then (Inl (HTTPException 404 (Detail ''Employee not found'')), employees')
                 else (let employee_dict = employee_dict(''_id'' \<mapsto> VStr employee_id) in
                       case Employee_init fl employee_dict of
                         Inl e \<Rightarrow> (Inl e, employees')
                       | Inr d \<Rightarrow>
                           (Inr \<lparr>detail = ''Employee updated successfully.'',
                                 data = Some d\<rparr>, employees'))))"

definition delete_employee :: "collection \<Rightarrow> string \<Rightarrow> (exn + string) \<times> collection" where
  "delete_employee employees employee_id =
     delete_by_id ''Employee not found'' ''Employee deleted successfully.'' employees employee_id"

subsection \<open>Expenses (\<^verbatim>\<open>app/expense/routers.py\<close>)\<close>

record ExpenseBase =
  exp_title :: string
  exp_amount :: real
  exp_category :: string
  exp_incurred_by :: string
  exp_date :: string

record Expense = ExpenseBase +
  exp_id :: string

definition ExpenseBase_dict :: "ExpenseBase \<Rightarrow> dict" where
  "ExpenseBase_dict expense =
     [''title'' \<mapsto> VStr (exp_title expense),
      ''amount'' \<mapsto> VNum (exp_amount expense),
      ''category'' \<mapsto> VStr (exp_category expense),
      ''incurred_by'' \<mapsto> VStr (exp_incurred_by expense),
      ''date'' \<mapsto> VStr (exp_date expense)]"

definition Expense_init :: "to_float \<Rightarrow> dict \<Rightarrow> exn + Expense" where
  "Expense_init fl kw =
     (case (get_str kw ''title'', get_float fl kw ''amount'', get_str kw ''category'',
            get_str kw ''incurred_by'', get_str kw ''date'', get_str kw ''id'') of
        (Some t, Some a, Some c, Some b, Some d, Some i) \<Rightarrow>
          Inr \<lparr>exp_title = t, exp_amount = a, exp_category = c, exp_incurred_by = b,
               exp_date = d, exp_id = i\<rparr>
      | _ \<Rightarrow> Inl (ValidationError ''Expense''))"

definition create_expense ::
  "to_float \<Rightarrow> collection \<Rightarrow> oid \<Rightarrow> ExpenseBase
     \<Rightarrow> (exn + Expense Response) \<times> collection" where
  "create_expense fl expenses new_id expense =
     (let expense_dict = ExpenseBase_dict expense in
      case insert_one expenses new_id expense_dict of
        Inl e \<Rightarrow> (Inl e, expenses)
      | Inr expenses' \<Rightarrow>
          (let expense_dict = expense_dict(''_id'' \<mapsto> VStr (str_oid new_id)) in
           case Expense_init fl (expense_dict(''id'' \<mapsto> VStr (str_oid new_id))) of
             Inl e \<Rightarrow> (Inl e, expenses')
           | Inr d \<Rightarrow>
               (Inr \<lparr>detail = ''Expense created successfully.'', data = Some d\<rparr>,
                expenses')))"

definition expense_record :: "to_float \<Rightarrow> document \<Rightarrow> exn + Expense" where
  "expense_record fl expense =
     (let s = str_oid (fst expense) in
      Expense_init fl ((as_dict expense)(''_id'' \<mapsto> VStr s, ''id'' \<mapsto> VStr s)))"

definition get_expenses :: "to_float \<Rightarrow> collection \<Rightarrow> exn + Expense list" where
  "get_expenses fl expenses = except_Exception (collect (expense_record fl) expenses)"

definition search_expenses_query ::
  "string option \<Rightarrow> string option \<Rightarrow> string option \<Rightarrow> string option \<Rightarrow> exn + query" where
  "search_expenses_query ident title category incurred_by =
     (case id_filter ident of
        Inl e \<Rightarrow> Inl e
      | Inr q \<Rightarrow>
          Inr (q @ regex_filter ''title'' title @ regex_filter ''category'' category
                 @ regex_filter ''incurred_by'' incurred_by))"

definition search_expenses ::
  "to_float \<Rightarrow> pcre \<Rightarrow> collection
     \<Rightarrow> string option \<Rightarrow> string option \<Rightarrow> string option \<Rightarrow> string option
     \<Rightarrow> exn + Expense list" where
  "search_expenses fl pcre expenses ident title category incurred_by =
     except_Exception
       (run_search pcre expenses (expense_record fl)
          (search_expenses_query ident title category incurred_by))"

definition update_expense ::
  "to_float \<Rightarrow> collection \<Rightarrow> string \<Rightarrow> ExpenseBase
     \<Rightarrow> (exn + Expense Response) \<times> collection" where
  "update_expense fl expenses expense_id expense =
     apfst except_Exception
       (let expense_dict = ExpenseBase_dict expense in
        case ObjectId expense_id of
          Inl e \<Rightarrow> (Inl e, expenses)
        | Inr i \<Rightarrow>
            (case update_one expenses i expense_dict of
               (matched_count, expenses') \<Rightarrow>
                 if matched_count = 0
                 then (Inl (HTTPException 404 (Detail ''Expense not found'')), expenses')
                 else (let expense_dict = expense_dict(''_id'' \<mapsto> VStr expense_id) in
                       case Expense_init fl (expense_dict(''id'' \<mapsto> VStr expense_id)) of
                         Inl e \<Rightarrow> (Inl e, expenses')
                       | Inr d \<Rightarrow>
                           (Inr \<lparr>detail = ''Expense updated successfully.'',
                                 data = Some d\<rparr>, expenses'))))"

definition delete_expense :: "collection \<Rightarrow> string \<Rightarrow> (exn + string) \<times> collection" where
  "delete_expense expenses expense_id =
     delete_by_id ''Expense not found'' ''Expense deleted successfully.'' expenses expense_id"

subsection \<open>Meetings (\<^verbatim>\<open>app/meeting/routers.py\<close>)\<close>

record MeetingBase =
  mtg_title :: string
  mtg_description :: string
  mtg_organizer :: string
  mtg_date :: string
  mtg_start_time :: string
  mtg_end_time :: string
  mtg_attendees :: "string list"

record Meeting = MeetingBase +
  mtg_id :: string

definition MeetingBase_dict :: "MeetingBase \<Rightarrow> dict" where
  "MeetingBase_dict meeting =
     [''title'' \<mapsto> VStr (mtg_title meeting),
      ''description'' \<mapsto> VStr (mtg_description meeting),
      ''organizer'' \<mapsto> VStr (mtg_organizer meeting),
      ''date'' \<mapsto> VStr (mtg_date meeting),
      ''start_time'' \<mapsto> VStr (mtg_start_time meeting),
      ''end_time'' \<mapsto> VStr (mtg_end_time meeting),
      ''attendees'' \<mapsto> VList (mtg_attendees meeting)]"

definition Meeting_init :: "dict \<Rightarrow> exn + Meeting" where
  "Meeting_init kw =
     (case (get_str kw ''title'', get_str kw ''description'', get_str kw ''organizer'',
            get_str kw ''date'', get_str kw ''start_time'', get_str kw ''end_time'',
            get_list kw ''attendees'', get_str kw ''id'') of
        (Some t, Some d, Some g, Some dt, Some st, Some et, Some a, Some i) \<Rightarrow>
          Inr \<lparr>mtg_title = t, mtg_description = d, mtg_organizer = g, mtg_date = dt,
               mtg_start_time = st, mtg_end_time = et, mtg_attendees = a, mtg_id = i\<rparr>
      | _ \<Rightarrow> Inl (ValidationError ''Meeting''))"

definition create_meeting ::
  "collection \<Rightarrow> oid \<Rightarrow> MeetingBase \<Rightarrow> (exn + Meeting Response) \<times> collection" where
  "create_meeting meetings new_id meeting =
     (case find_one meetings
             [(''title'', VStr (mtg_title meeting)), (''date'', VStr (mtg_date meeting))] of
        Some existing_meeting \<Rightarrow>
          (Inl (HTTPException 400
                  (Detail ''Meeting with this title on the same date already exists'')),
           meetings)
      | None \<Rightarrow>
          (let meeting_dict = MeetingBase_dict meeting in
           case insert_one meetings new_id meeting_dict of
             Inl e \<Rightarrow> (Inl e, meetings)
           | Inr meetings' \<Rightarrow>
               (let meeting_dict = meeting_dict(''_id'' \<mapsto> VStr (str_oid new_id)) in
                case Meeting_init (meeting_dict(''id'' \<mapsto> VStr (str_oid new_id))) of
                  Inl e \<Rightarrow> (Inl e, meetings')
                | Inr d \<Rightarrow>
                    (Inr \<lparr>detail = ''Meeting created successfully.'', data = Some d\<rparr>,
                     meetings'))))"

definition meeting_record :: "document \<Rightarrow> exn + Meeting" where
  "meeting_record meeting =
     (let s = str_oid (fst meeting) in
      Meeting_init ((as_dict meeting)(''_id'' \<mapsto> VStr s, ''id'' \<mapsto> VStr s)))"

definition get_meetings :: "collection \<Rightarrow> exn + Meeting list" where
  "get_meetings meetings = except_Exception (collect meeting_record meetings)"

definition search_meetings_query ::
  "string option \<Rightarrow> string option \<Rightarrow> string option \<Rightarrow> string option \<Rightarrow> exn + query" where
  "search_meetings_query ident title organizer date =
     (case id_filter ident of
        Inl e \<Rightarrow> Inl e
      | Inr q \<Rightarrow>
          Inr (q @ regex_filter ''title'' title @ regex_filter ''organizer'' organizer
                 @ exact_filter ''date'' date))"

definition search_meetings ::
  "pcre \<Rightarrow> collection \<Rightarrow> string option \<Rightarrow> string option \<Rightarrow> string option \<Rightarrow> string option
     \<Rightarrow> exn + Meeting list" where
  "search_meetings pcre meetings ident title organizer date =
     except_Exception
       (run_search pcre meetings meeting_record
          (search_meetings_query ident title organizer date))"

definition update_meeting ::
  "collection \<Rightarrow> string \<Rightarrow> MeetingBase \<Rightarrow> (exn + Meeting Response) \<times> collection" where
  "update_meeting meetings meeting_id meeting =
     apfst except_Exception
       (let meeting_dict = MeetingBase_dict meeting in
        case ObjectId meeting_id of
          Inl e \<Rightarrow> (Inl e, meetings)
        | Inr i \<Rightarrow>
            (case update_one meetings i meeting_dict of
               (matched_count, meetings') \<Rightarrow>
                 if matched_count = 0
                 then (Inl (HTTPException 404 (Detail ''Meeting not found'')), meetings')
                 else (let meeting_dict = meeting_dict(''_id'' \<mapsto> VStr meeting_id) in
                       case Meeting_init (meeting_dict(''id'' \<mapsto> VStr meeting_id)) of
                         Inl e \<Rightarrow> (Inl e, meetings')
                       | Inr d \<Rightarrow>
                           (Inr \<lparr>detail = ''Meeting updated successfully.'',
                                 data = Some d\<rparr>, meetings'))))"

definition delete_meeting :: "collection \<Rightarrow> string \<Rightarrow> (exn + string) \<times> collection" where
  "delete_meeting meetings meeting_id =
     delete_by_id ''Meeting not found'' ''Meeting deleted successfully.'' meetings meeting_id"

subsection \<open>Projects (\<^verbatim>\<open>app/project/routers.py\<close>)\<close>

record ProjectBase =
  prj_name :: string
  prj_description :: string
  prj_start_date :: string
  prj_end_date :: "string option"
  prj_status :: string
  prj_members :: "string list"

record Project = ProjectBase +
  prj_id :: string

definition ProjectBase_dict :: "ProjectBase \<Rightarrow> dict" where
  "ProjectBase_dict project =
     [''name'' \<mapsto> VStr (prj_name project),
      ''description'' \<mapsto> VStr (prj_description project),
      ''start_date'' \<mapsto> VStr (prj_start_date project),
      ''end_date'' \<mapsto> (case prj_end_date project of None \<Rightarrow> VNone | Some s \<Rightarrow> VStr s),
      ''status'' \<mapsto> VStr (prj_status project),
      ''members'' \<mapsto> VList (prj_members project)]"

definition Project_init :: "dict \<Rightarrow> exn + Project" where
  "Project_init kw =
     (case (get_str kw ''name'', get_str kw ''description'', get_str kw ''start_date'',
            get_opt_str kw ''end_date'', get_str kw ''status'', get_list kw ''members'',
            get_str kw ''id'') of
        (Some n, Some d, Some sd, Some ed, Some st, Some m, Some i) \<Rightarrow>
          Inr \<lparr>prj_name = n, prj_description = d, prj_start_date = sd, prj_end_date = ed,
               prj_status = st, prj_members = m, prj_id = i\<rparr>
      | _ \<Rightarrow> Inl (ValidationError ''Project''))"

definition create_project ::
  "collection \<Rightarrow> oid \<Rightarrow> ProjectBase \<Rightarrow> (exn + Project Response) \<times> collection" where
  "create_project projects new_id project =
     (case find_one projects [(''name'', VStr (prj_name project))] of
        Some existing_project \<Rightarrow>
          (Inl (HTTPException 400 (Detail ''Project with this name already exists'')),
           projects)
      | None \<Rightarrow>
          (let project_dict = ProjectBase_dict project in
           case insert_one projects new_id project_dict of
             Inl e \<Rightarrow> (Inl e, projects)
           | Inr projects' \<Rightarrow>
               (let project_dict = project_dict(''_id'' \<mapsto> VStr (str_oid new_id)) in
                case Project_init (project_dict(''id'' \<mapsto> VStr (str_oid new_id))) of
                  Inl e \<Rightarrow> (Inl e, projects')
                | Inr d \<Rightarrow>
                    (Inr \<lparr>detail = ''Project created successfully.'', data = Some d\<rparr>,
                     projects'))))"

definition project_record :: "document \<Rightarrow> exn + Project" where
  "project_record project =
     (let s = str_oid (fst project) in
      Project_init ((as_dict project)(''_id'' \<mapsto> VStr s, ''id'' \<mapsto> VStr s)))"

definition get_projects :: "collection \<Rightarrow> exn + Project list" where
  "get_projects projects = except_Exception (collect project_record projects)"

definition search_projects_query ::
  "string option \<Rightarrow> string option \<Rightarrow> string option \<Rightarrow> exn + query" where
  "search_projects_query ident name status =
     (case id_filter ident of
        Inl e \<Rightarrow> Inl e
      | Inr q \<Rightarrow> Inr (q @ regex_filter ''name'' name @ regex_filter ''status'' status))"

definition search_projects ::
  "pcre \<Rightarrow> collection \<Rightarrow> string option \<Rightarrow> string option \<Rightarrow> string option
     \<Rightarrow> exn + Project list" where
  "search_projects pcre projects ident name status =
     except_Exception
       (run_search pcre projects project_record (search_projects_query ident name status))"

definition update_project ::
  "collection \<Rightarrow> string \<Rightarrow> ProjectBase \<Rightarrow> (exn + Project Response) \<times> collection" where
  "update_project projects project_id project =
     apfst except_Exception
       (let project_dict = ProjectBase_dict project in
        case ObjectId project_id of
          Inl e \<Rightarrow> (Inl e, projects)
        | Inr i \<Rightarrow>
            (case update_one projects i project_dict of
               (matched_count, projects') \<Rightarrow>
                 if matched_count = 0
                 then (Inl (HTTPException 404 (Detail ''Project not found'')), projects')
                 else (let project_dict = project_dict(''_id'' \<mapsto> VStr project_id) in
                       case Project_init (project_dict(''id'' \<mapsto> VStr project_id)) of
                         Inl e \<Rightarrow> (Inl e, projects')
                       | Inr d \<Rightarrow>
                           (Inr \<lparr>detail = ''Project updated successfully.'',
                                 data = Some d\<rparr>, projects'))))"

definition delete_project :: "collection \<Rightarrow> string \<Rightarrow> (exn + string) \<times> collection" where
  "delete_project projects project_id =
     delete_by_id ''Project not found'' ''Project deleted successfully.'' projects project_id"

subsection \<open>Records composed of a payload and an identifier\<close>

text \<open>
  What the claims call the Record of a stored payload: the payload's fields with the
  text of the identifier it is stored under. \<open>stored to_dict ps\<close> is the collection
  that holds the payloads \<open>ps\<close>, each under its identifier and with exactly the
  fields that create and update of the router write.
\<close>

definition stored :: "('p \<Rightarrow> dict) \<Rightarrow> (oid \<times> 'p) list \<Rightarrow> collection" where
  "stored to_dict ps = map (\<lambda>s. (fst s, to_dict (snd s))) ps"

definition Chat_of :: "oid \<times> ChatCreate \<Rightarrow> ChatResponse" where
  "Chat_of s =
     \<lparr>resp_id = str_oid (fst s), resp_message = chat_message (snd s),
      resp_sender = chat_sender (snd s), resp_timestamp = chat_timestamp (snd s)\<rparr>"

definition Document_of :: "oid \<times> DocumentBase \<Rightarrow> Document" where
  "Document_of s =
     \<lparr>doc_title = doc_title (snd s), doc_description = doc_description (snd s),
      doc_uploaded_by = doc_uploaded_by (snd s), doc_id = str_oid (fst s)\<rparr>"

definition Expense_of :: "oid \<times> ExpenseBase \<Rightarrow> Expense" where
  "Expense_of s =
     \<lparr>exp_title = exp_title (snd s), exp_amount = exp_amount (snd s),
      exp_category = exp_category (snd s), exp_incurred_by = exp_incurred_by (snd s),
      exp_date = exp_date (snd s), exp_id = str_oid (fst s)\<rparr>"

definition Meeting_of :: "oid \<times> MeetingBase \<Rightarrow> Meeting" where
  "Meeting_of s =
     \<lparr>mtg_title = mtg_title (snd s), mtg_description = mtg_description (snd s),
      mtg_organizer = mtg_organizer (snd s), mtg_date = mtg_date (snd s),
      mtg_start_time = mtg_start_time (snd s), mtg_end_time = mtg_end_time (snd s),
      mtg_attendees = mtg_attendees (snd s), mtg_id = str_oid (fst s)\<rparr>"

definition Project_of :: "oid \<times> ProjectBase \<Rightarrow> Project" where
  "Project_of s =
     \<lparr>prj_name = prj_name (snd s), prj_description = prj_description (snd s),
      prj_start_date = prj_start_date (snd s), prj_end_date = prj_end_date (snd s),
      prj_status = prj_status (snd s), prj_members = prj_members (snd s),
      prj_id = str_oid (fst s)\<rparr>"

section \<open>Properties of the store and of the handlers\<close>

subsection \<open>Exceptions, identifiers and the collection methods\<close>

lemma except_Exception_simps [simp]:
  "except_Exception (Inl e) = Inl (HTTPException 500 (Str e))"
  "except_Exception (Inr x) = Inr x"
  by (simp_all add: except_Exception_def)

lemma except_Exception_Inr_iff [simp]: "except_Exception r = Inr x \<longleftrightarrow> r = Inr x"
  by (cases r) simp_all

lemma ObjectId_Inl: "ObjectId s = Inl e \<Longrightarrow> e = InvalidId s"
  by (auto simp: ObjectId_def split: if_splits option.splits)

lemma ObjectId_Inr_length: "ObjectId s = Inr i \<Longrightarrow> length s = 24"
  by (auto simp: ObjectId_def split: if_splits option.splits)

lemma length_str_oid [simp]: "length (str_oid i) = 2 * length i"
  by (induction i) (simp_all add: str_oid_def)

lemma str_oid_empty_iff [simp]: "str_oid i = [] \<longleftrightarrow> i = []"
  using length_str_oid [of i] by (cases i) (simp_all add: str_oid_def)

lemma fromhex_length: "fromhex s = Some bs \<Longrightarrow> 2 * length bs \<le> length s"
  by (induction s arbitrary: bs rule: fromhex.induct)
    (auto split: if_splits option.splits)

lemma ObjectId_Inr_bytes: "ObjectId s = Inr i \<Longrightarrow> length i \<le> 12"
  using fromhex_length [of s i] by (auto simp: ObjectId_def split: if_splits option.splits)

lemma update_one_unmatched: "i \<notin> fst ` set c \<Longrightarrow> update_one c i u = (0, c)"
  by (induction c) auto

lemma update_one_matched:
  "i \<in> fst ` set c \<Longrightarrow>
   \<exists>k < length c. fst (c ! k) = i \<and> (\<forall>j < k. fst (c ! j) \<noteq> i) \<and>
      update_one c i u = (1, c[k := (i, snd (c ! k) ++ u)])"
proof (induction c)
  case Nil
  then show ?case by simp
next
  case (Cons doc c)
  show ?case
  proof (cases "fst doc = i")
    case True
    then have "0 < length (doc # c) \<and> fst ((doc # c) ! 0) = i \<and> (\<forall>j < 0. fst ((doc # c) ! j) \<noteq> i)
       \<and> update_one (doc # c) i u = (1, (doc # c)[0 := (i, snd ((doc # c) ! 0) ++ u)])"
      by simp
    then show ?thesis by blast
  next
    case False
    with Cons.prems have "i \<in> fst ` set c" by auto
    from Cons.IH [OF this] obtain k where k: "k < length c" "fst (c ! k) = i"
      "\<forall>j < k. fst (c ! j) \<noteq> i" "update_one c i u = (1, c[k := (i, snd (c ! k) ++ u)])"
      by blast
    have "\<forall>j < Suc k. fst ((doc # c) ! j) \<noteq> i"
      using False k(3) by (auto simp: nth_Cons split: nat.splits)
    with k False have "Suc k < length (doc # c) \<and> fst ((doc # c) ! Suc k) = i \<and>
       (\<forall>j < Suc k. fst ((doc # c) ! j) \<noteq> i) \<and>
       update_one (doc # c) i u = (1, (doc # c)[Suc k := (i, snd ((doc # c) ! Suc k) ++ u)])"
      by simp
    then show ?thesis by blast
  qed
qed

lemma delete_one_unmatched: "i \<notin> fst ` set c \<Longrightarrow> delete_one c i = (0, c)"
  by (induction c) auto

lemma delete_one_matched:
  "i \<in> fst ` set c \<Longrightarrow> \<exists>c'. delete_one c i = (1, c') \<and> length c' < length c"
proof (induction c)
  case Nil
  then show ?case by simp
next
  case (Cons doc c)
  show ?case
  proof (cases "fst doc = i")
    case True
    then show ?thesis by simp
  next
    case False
    with Cons.prems have "i \<in> fst ` set c" by auto
    from Cons.IH [OF this] obtain c' where "delete_one c i = (1, c')" "length c' < length c"
      by blast
    with False show ?thesis by simp
  qed
qed

lemma collect_Inr_map: "collect f xs = Inr ys \<Longrightarrow> map f xs = map Inr ys"
  by (induction xs arbitrary: ys) (auto split: sum.splits)

lemma map_Inr_collect: "map f xs = map Inr ys \<Longrightarrow> collect f xs = Inr ys"
  by (induction xs arbitrary: ys) auto

lemma collect_Inr_iff: "collect f xs = Inr ys \<longleftrightarrow> map f xs = map Inr ys"
  using collect_Inr_map map_Inr_collect by blast

lemma collect_Inr_mem:
  "collect f xs = Inr ys \<Longrightarrow> x \<in> set xs \<Longrightarrow> \<exists>y \<in> set ys. f x = Inr y"
proof -
  assume a: "collect f xs = Inr ys" and x: "x \<in> set xs"
  from a have "map f xs = map Inr ys" by (simp add: collect_Inr_iff)
  moreover from x have "f x \<in> set (map f xs)" by simp
  ultimately have "f x \<in> set (map Inr ys)" by simp
  then show ?thesis by auto
qed

lemma collect_Inr_from:
  "collect f xs = Inr ys \<Longrightarrow> y \<in> set ys \<Longrightarrow> \<exists>x \<in> set xs. f x = Inr y"
proof -
  assume a: "collect f xs = Inr ys" and y: "y \<in> set ys"
  from a have "map f xs = map Inr ys" by (simp add: collect_Inr_iff)
  moreover from y have "Inr y \<in> set (map Inr ys)" by simp
  ultimately have "Inr y \<in> set (map f xs)" by simp
  then show ?thesis by auto
qed

lemma as_dict_id [simp]: "as_dict doc ''_id'' = Some (VOid (fst doc))"
  by (simp add: as_dict_def)

lemma as_dict_other: "k \<noteq> ''_id'' \<Longrightarrow> as_dict doc k = snd doc k"
  by (simp add: as_dict_def)

lemma find_all_empty [simp]: "find_all pcre c [] = Inr c"
  by (simp add: find_all_def)

lemma find_all_Eq: "find_all pcre c [(k, Eq v)] = Inr (filter (\<lambda>doc. as_dict doc k = Some v) c)"
  by (simp add: find_all_def compile_def)

lemma plain_char_not_quantifier:
  "plain_char c \<Longrightarrow> c \<noteq> CHR ''*'' \<and> c \<noteq> CHR ''+'' \<and> c \<noteq> CHR ''?''"
  by (auto simp: plain_char_def)

lemma parse_pattern_plain: "plain p \<Longrightarrow> parse_pattern p = Some (map One p)"
proof (induction p rule: parse_pattern.induct)
  case 1
  then show ?case by simp
next
  case (2 c)
  then show ?case by (simp add: plain_def)
next
  case (3 c q cs)
  from "3.prems" have c: "plain_char c" and q: "plain_char q" and rest: "plain (q # cs)"
    by (simp_all add: plain_def)
  from plain_char_not_quantifier [OF q] "3.IH"(4) [OF c _ _ _ rest] c show ?case
    by simp
qed

lemma matches_at_One: "matches_at (map One p) s = starts_with (map lower p) (map lower s)"
proof (induction p arbitrary: s)
  case Nil
  then show ?case by simp
next
  case (Cons a p)
  then show ?case by (cases s) simp_all
qed

lemma found_in_One: "found_in (map One p) s = icontains p s"
proof (induction s)
  case Nil
  then show ?case by (cases p) (simp_all add: icontains_def)
next
  case (Cons c s)
  then show ?case by (simp add: icontains_def matches_at_One)
qed

lemma regex_i_plain: "plain p \<Longrightarrow> regex_i pcre p = Some (icontains p)"
  by (simp add: regex_i_def parse_pattern_plain found_in_One [abs_def])

lemma find_all_Regex_plain:
  "plain p \<Longrightarrow> find_all pcre c [(k, Regex_i p)] =
     Inr (filter (\<lambda>doc. case as_dict doc k of Some (VStr s) \<Rightarrow> icontains p s | _ \<Rightarrow> False) c)"
  by (simp add: find_all_def compile_def regex_i_plain)

lemma find_one_None_iff:
  "find_one c flt = None \<longleftrightarrow> \<not> (\<exists>doc \<in> set c. list_all (\<lambda>(k, v). as_dict doc k = Some v) flt)"
proof -
  have "find_one c flt = None \<longleftrightarrow>
      filter (\<lambda>doc. list_all (\<lambda>(k, v). as_dict doc k = Some v) flt) c = []"
    by (simp add: find_one_def split: list.splits)
  then show ?thesis by (simp add: filter_empty_conv)
qed

lemma delete_by_id_invalid:
  "ObjectId ident = Inl e \<Longrightarrow>
   delete_by_id nf ok c ident = (Inl (HTTPException 500 (Str (InvalidId ident))), c)"
  by (frule ObjectId_Inl) (simp add: delete_by_id_def)

lemma delete_by_id_missing:
  "ObjectId ident = Inr i \<Longrightarrow> i \<notin> fst ` set c \<Longrightarrow>
   delete_by_id nf ok c ident =
     (Inl (HTTPException 500 (Str (HTTPException 404 (Detail nf)))), c)"
  by (simp add: delete_by_id_def delete_one_unmatched)

lemma id_filter_simps:
  "id_filter None = Inr []"
  "id_filter (Some []) = Inr []"
  "ObjectId s = Inr i \<Longrightarrow> id_filter (Some s) = Inr [(''_id'', Eq (VOid i))]"
  "s \<noteq> [] \<Longrightarrow> ObjectId s = Inl e \<Longrightarrow> id_filter (Some s) = Inl (InvalidId s)"
  by (auto simp: id_filter_def ObjectId_def split: if_splits option.splits)

lemma filter_simps:
  "regex_filter k None = []" "regex_filter k (Some []) = []"
  "s \<noteq> [] \<Longrightarrow> regex_filter k (Some s) = [(k, Regex_i s)]"
  "exact_filter k None = []" "exact_filter k (Some []) = []"
  "s \<noteq> [] \<Longrightarrow> exact_filter k (Some s) = [(k, Eq (VStr s))]"
  "float_filter k None = []" "float_filter k (Some 0) = []"
  "x \<noteq> 0 \<Longrightarrow> float_filter k (Some x) = [(k, Eq (VNum x))]"
  by (simp_all add: regex_filter_def exact_filter_def float_filter_def)

lemma str_oid_1: "str_oid oid_1 = ''000000000000000000000001''"
  by (simp add: str_oid_def hex_digit_def)

lemma str_oid_2: "str_oid oid_2 = ''000000000000000000000002''"
  by (simp add: str_oid_def hex_digit_def)

lemma ObjectId_1: "ObjectId ''000000000000000000000001'' = Inr oid_1"
  by (simp add: ObjectId_def hex_value_def is_space_def)

lemma ObjectId_2: "ObjectId ''000000000000000000000002'' = Inr oid_2"
  by (simp add: ObjectId_def hex_value_def is_space_def)

lemma ObjectId_skips_whitespace:
  "ObjectId ''0000000000000000000001  '' = Inr [0, 0, 0, 0, 0, 0, 0, 0, 0, 0, 1]"
  by (simp add: ObjectId_def hex_value_def is_space_def)

lemma insert_one_distinct:
  "insert_one c n d = Inr c' \<Longrightarrow> distinct (map fst c) \<Longrightarrow> distinct (map fst c')"
  by (auto simp: insert_one_def split: if_splits)

lemma update_one_ids [simp]: "map fst (snd (update_one c i u)) = map fst c"
  by (induction c) (auto split: prod.splits)

lemma delete_one_subset: "set (snd (delete_one c i)) \<subseteq> set c"
  by (induction c) (auto split: prod.splits)

lemma delete_one_distinct:
  "distinct (map fst c) \<Longrightarrow> distinct (map fst (snd (delete_one c i)))"
proof (induction c)
  case Nil
  then show ?case by simp
next
  case (Cons doc c)
  obtain k c' where d: "delete_one c i = (k, c')"
    by (cases "delete_one c i")
  with delete_one_subset [of c i] have "set c' \<subseteq> set c"
    by simp
  then have "fst ` set c' \<subseteq> fst ` set c"
    by (rule image_mono)
  moreover from Cons.prems have "fst doc \<notin> fst ` set c" "distinct (map fst c)"
    by simp_all
  ultimately show ?case
    using Cons.IH d by auto
qed

subsection \<open>Collections that hold payloads\<close>

lemma stored_simps [simp]:
  "stored D [] = []"
  "stored D (s # ps) = (fst s, D (snd s)) # stored D ps"
  "stored D (ps @ qs) = stored D ps @ stored D qs"
  "length (stored D ps) = length ps"
  "map fst (stored D ps) = map fst ps"
  by (simp_all add: stored_def)

lemma stored_ids [simp]: "fst ` set (stored D ps) = fst ` set ps"
  by (simp add: stored_def image_image)

lemma stored_nth: "k < length ps \<Longrightarrow> stored D ps ! k = (fst (ps ! k), D (snd (ps ! k)))"
  by (simp add: stored_def)

lemma stored_update: "(stored D ps)[k := (i, D p)] = stored D (ps[k := (i, p)])"
  by (simp add: stored_def map_update)

lemma filter_stored:
  "filter P (stored D ps) = stored D (filter (\<lambda>s. P (fst s, D (snd s))) ps)"
  by (induction ps) simp_all

lemma collect_stored:
  assumes "\<And>s. conv (fst s, D (snd s)) = Inr (R s)"
  shows "collect conv (stored D ps) = Inr (map R ps)"
  by (induction ps) (simp_all add: assms)

lemma delete_one_stored:
  "\<exists>ps'. snd (delete_one (stored D ps) i) = stored D ps' \<and> set ps' \<subseteq> set ps"
proof (induction ps)
  case Nil
  have "snd (delete_one (stored D []) i) = stored D [] \<and> set [] \<subseteq> set ([] :: (oid \<times> 'a) list)"
    by simp
  then show ?case by blast
next
  case (Cons s ps)
  then obtain ps' where ps': "snd (delete_one (stored D ps) i) = stored D ps'" "set ps' \<subseteq> set ps"
    by blast
  show ?case
  proof (cases "fst s = i")
    case True
    then have "snd (delete_one (stored D (s # ps)) i) = stored D ps \<and> set ps \<subseteq> set (s # ps)"
      by auto
    then show ?thesis by blast
  next
    case False
    with ps' have "snd (delete_one (stored D (s # ps)) i) = stored D (s # ps')
        \<and> set (s # ps') \<subseteq> set (s # ps)"
      by (auto split: prod.splits)
    then show ?thesis by blast
  qed
qed

lemma delete_by_id_stored:
  "\<exists>ps'. snd (delete_by_id nf ok (stored D ps) ident) = stored D ps'"
proof (cases "ObjectId ident")
  case (Inl e)
  then have "snd (delete_by_id nf ok (stored D ps) ident) = stored D ps"
    by (simp add: delete_by_id_def)
  then show ?thesis ..
next
  case (Inr i)
  from delete_one_stored [of D ps i] obtain ps'
    where ps': "snd (delete_one (stored D ps) i) = stored D ps'"
    by blast
  obtain k c' where d: "delete_one (stored D ps) i = (k, c')"
    by (cases "delete_one (stored D ps) i")
  with ps' have "c' = stored D ps'"
    by simp
  with Inr d have "snd (delete_by_id nf ok (stored D ps) ident) = stored D ps'"
    by (simp add: delete_by_id_def)
  then show ?thesis ..
qed

lemma run_search_from:
  assumes "run_search pcre c conv q = Inr rs" and "r \<in> set rs"
  shows "\<exists>doc \<in> set c. conv doc = Inr r"
proof -
  from assms(1) obtain query found where "find_all pcre c query = Inr found"
    and "collect conv found = Inr rs"
    by (auto simp: run_search_def split: sum.splits)
  from this(1) have "set found \<subseteq> set c"
    by (auto simp: find_all_def split: option.splits)
  with collect_Inr_from [OF \<open>collect conv found = Inr rs\<close> assms(2)] show ?thesis
    by auto
qed

subsection \<open>Chats and employees\<close>

lemma ChatResponse_id_payload:
  "ChatResponse_id s ((ChatCreate_dict p)(''_id'' \<mapsto> a)) =
     Inr \<lparr>resp_id = s, resp_message = chat_message p, resp_sender = chat_sender p,
      resp_timestamp = chat_timestamp p\<rparr>"
  by (simp add: ChatResponse_id_def ChatResponse_init_def ChatCreate_dict_def get_str_def)

lemma chat_response_id:
  "chat_response doc = Inr r \<Longrightarrow> resp_id r = str_oid (fst doc)"
  by (auto simp: chat_response_def ChatResponse_id_def ChatResponse_init_def get_str_def
      split: option.splits bson.splits if_splits)

lemma update_chat_invalid:
  "ObjectId ident = Inl e \<Longrightarrow>
   update_chat c ident p = (Inl (HTTPException 500 (Str (InvalidId ident))), c)"
  by (frule ObjectId_Inl) (simp add: update_chat_def)

lemma update_chat_missing:
  "ObjectId ident = Inr i \<Longrightarrow> i \<notin> fst ` set c \<Longrightarrow>
   update_chat c ident p =
     (Inl (HTTPException 500 (Str (HTTPException 404 (Detail ''Chat not found'')))), c)"
  by (simp add: update_chat_def update_one_unmatched)

lemma update_chat_found:
  "ObjectId ident = Inr i \<Longrightarrow> update_one c i (ChatCreate_dict p) = (1, c') \<Longrightarrow>
   update_chat c ident p =
     (Inr \<lparr>detail = ''Chat updated successfully.'',
          data = Some \<lparr>resp_id = ident, resp_message = chat_message p,
            resp_sender = chat_sender p, resp_timestamp = chat_timestamp p\<rparr>\<rparr>, c')"
  by (simp add: update_chat_def ChatResponse_id_payload)

lemma update_chat_success:
  assumes "update_chat c ident p = (Inr resp, c')"
  shows "\<exists>i k. ObjectId ident = Inr i \<and> k < length c \<and> fst (c ! k) = i \<and>
           (\<forall>j < k. fst (c ! j) \<noteq> i) \<and>
           c' = c[k := (i, snd (c ! k) ++ ChatCreate_dict p)] \<and>
           data resp = Some \<lparr>resp_id = ident, resp_message = chat_message p,
             resp_sender = chat_sender p, resp_timestamp = chat_timestamp p\<rparr>"
proof (cases "ObjectId ident")
  case (Inl e)
  with assms show ?thesis by (simp add: update_chat_invalid)
next
  case (Inr i)
  show ?thesis
  proof (cases "i \<in> fst ` set c")
    case False
    with Inr assms show ?thesis by (simp add: update_chat_missing)
  next
    case True
    from update_one_matched [OF True, of "ChatCreate_dict p"]
    obtain k where k: "k < length c" "fst (c ! k) = i" "\<forall>j < k. fst (c ! j) \<noteq> i"
      "update_one c i (ChatCreate_dict p) = (1, c[k := (i, snd (c ! k) ++ ChatCreate_dict p)])"
      by blast
    from update_chat_found [OF Inr k(4)] assms
    have "c' = c[k := (i, snd (c ! k) ++ ChatCreate_dict p)]"
      and "data resp = Some \<lparr>resp_id = ident, resp_message = chat_message p,
             resp_sender = chat_sender p, resp_timestamp = chat_timestamp p\<rparr>"
      by auto
    with Inr k show ?thesis by blast
  qed
qed

lemma create_chat_fresh:
  assumes "n \<notin> fst ` set c"
  shows "create_chat c n p =
     (Inr \<lparr>detail = ''Chat created successfully.'',
          data = Some \<lparr>resp_id = str_oid n, resp_message = chat_message p,
            resp_sender = chat_sender p, resp_timestamp = chat_timestamp p\<rparr>\<rparr>,
      c @ [(n, ChatCreate_dict p)])"
  using assms by (simp add: create_chat_def insert_one_def ChatResponse_id_payload)

lemma search_chats_message:
  "plain f \<Longrightarrow> f \<noteq> [] \<Longrightarrow>
   search_chats pcre c (Some f) None None =
     except_Exception (collect chat_response
       (filter (\<lambda>doc. case snd doc ''message'' of Some (VStr v) \<Rightarrow> icontains f v
          | _ \<Rightarrow> False) c))"
  by (simp add: search_chats_def search_chats_query_def filter_simps run_search_def
      find_all_Regex_plain as_dict_other)

lemma search_chats_sender:
  "f \<noteq> [] \<Longrightarrow>
   search_chats pcre c None (Some f) None =
     except_Exception (collect chat_response
       (filter (\<lambda>doc. snd doc ''sender'' = Some (VStr f)) c))"
  by (simp add: search_chats_def search_chats_query_def filter_simps run_search_def
      find_all_Eq as_dict_other)

lemma search_chats_timestamp:
  "f \<noteq> [] \<Longrightarrow>
   search_chats pcre c None None (Some f) =
     except_Exception (collect chat_response
       (filter (\<lambda>doc. snd doc ''timestamp'' = Some (VStr f)) c))"
  by (simp add: search_chats_def search_chats_query_def filter_simps run_search_def
      find_all_Eq as_dict_other)

lemma search_chats_falsy:
  "search_chats pcre c (Some []) q1 q2 = search_chats pcre c None q1 q2"
  "search_chats pcre c q0 (Some []) q2 = search_chats pcre c q0 None q2"
  "search_chats pcre c q0 q1 (Some []) = search_chats pcre c q0 q1 None"
  by (simp_all add: search_chats_def search_chats_query_def filter_simps)

lemma delete_chat_invalid:
  "ObjectId ident = Inl e \<Longrightarrow>
   delete_chat c ident = (Inl (HTTPException 500 (Str (InvalidId ident))), c)"
  by (simp add: delete_chat_def delete_by_id_invalid)

lemma delete_chat_missing:
  "ObjectId ident = Inr i \<Longrightarrow> i \<notin> fst ` set c \<Longrightarrow>
   delete_chat c ident =
     (Inl (HTTPException 500 (Str (HTTPException 404 (Detail ''Chat not found'')))), c)"
  by (simp add: delete_chat_def delete_by_id_missing)

lemma Employee_init_payload:
  "Employee_init fl ((EmployeeBase_dict p)(''_id'' \<mapsto> a)) = Inl (ValidationError ''Employee'')"
  by (simp add: Employee_init_def EmployeeBase_dict_def get_str_def get_float_def)

lemma update_employee_invalid:
  "ObjectId ident = Inl e \<Longrightarrow>
   update_employee fl c ident p = (Inl (HTTPException 500 (Str (InvalidId ident))), c)"
  by (frule ObjectId_Inl) (simp add: update_employee_def)

lemma update_employee_missing:
  "ObjectId ident = Inr i \<Longrightarrow> i \<notin> fst ` set c \<Longrightarrow>
   update_employee fl c ident p =
     (Inl (HTTPException 500 (Str (HTTPException 404 (Detail ''Employee not found'')))), c)"
  by (simp add: update_employee_def update_one_unmatched)

lemma update_employee_found:
  "ObjectId ident = Inr i \<Longrightarrow> update_one c i (EmployeeBase_dict p) = (1, c') \<Longrightarrow>
   update_employee fl c ident p =
     (Inl (HTTPException 500 (Str (ValidationError ''Employee''))), c')"
  by (simp add: update_employee_def Employee_init_payload)

lemma update_employee_never_returns: "\<exists>e c'. update_employee fl c ident p = (Inl e, c')"
proof (cases "ObjectId ident")
  case (Inl e)
  then show ?thesis by (simp add: update_employee_invalid)
next
  case (Inr i)
  show ?thesis
  proof (cases "i \<in> fst ` set c")
    case False
    with Inr show ?thesis by (simp add: update_employee_missing)
  next
    case True
    from update_one_matched [OF True, of "EmployeeBase_dict p"]
    obtain c' where "update_one c i (EmployeeBase_dict p) = (1, c')" by blast
    from update_employee_found [OF Inr this] show ?thesis by simp
  qed
qed

lemma find_one_employee_key:
  "find_one c [(''name'', VStr (emp_name p))] = None \<longleftrightarrow>
     \<not> (\<exists>doc \<in> set c. snd doc ''name'' = Some (VStr (emp_name p)))"
  by (simp add: find_one_None_iff as_dict_other)

lemma create_employee_duplicate:
  assumes "doc \<in> set c" "snd doc ''name'' = Some (VStr (emp_name p))"
  shows "create_employee fl c n p =
     (Inl (HTTPException 500
        (Str (HTTPException 400 (Detail ''Employee with this name already exists'')))), c)"
proof -
  from assms have "find_one c [(''name'', VStr (emp_name p))] \<noteq> None"
    unfolding find_one_employee_key by blast
  then show ?thesis by (auto simp: create_employee_def)
qed

lemma create_employee_fresh:
  assumes "\<not> (\<exists>doc \<in> set c. snd doc ''name'' = Some (VStr (emp_name p)))"
    and "n \<notin> fst ` set c"
  shows "create_employee fl c n p =
     (Inl (HTTPException 500 (Str (ValidationError ''Employee''))),
      c @ [(n, EmployeeBase_dict p)])"
proof -
  from assms(1) have "find_one c [(''name'', VStr (emp_name p))] = None"
    unfolding find_one_employee_key by blast
  with assms(2) show ?thesis
    by (simp add: create_employee_def insert_one_def Employee_init_payload)
qed

lemma create_employee_never_returns: "\<exists>e c'. create_employee fl c n p = (Inl e, c')"
proof (cases "find_one c [(''name'', VStr (emp_name p))]")
  case (Some doc)
  then show ?thesis by (simp add: create_employee_def)
next
  case None
  then show ?thesis
    by (cases "n \<in> fst ` set c")
      (simp_all add: create_employee_def insert_one_def Employee_init_payload)
qed

lemma search_employees_invalid:
  "ident \<noteq> [] \<Longrightarrow> ObjectId ident = Inl e \<Longrightarrow>
   search_employees fl pcre c (Some ident) q1 q2 q3 =
     Inl (HTTPException 500 (Str (InvalidId ident)))"
  by (simp add: search_employees_def search_employees_query_def id_filter_simps filter_simps
      run_search_def)

lemma search_employees_id:
  "ObjectId ident = Inr i \<Longrightarrow>
   search_employees fl pcre c (Some ident) None None None =
     except_Exception (collect (employee_record fl) (filter (\<lambda>doc. fst doc = i) c))"
  by (simp add: search_employees_def search_employees_query_def id_filter_simps filter_simps
      run_search_def find_all_Eq)

lemma search_employees_name:
  "plain f \<Longrightarrow> f \<noteq> [] \<Longrightarrow>
   search_employees fl pcre c None (Some f) None None =
     except_Exception (collect (employee_record fl)
       (filter (\<lambda>doc. case snd doc ''name'' of Some (VStr v) \<Rightarrow> icontains f v
          | _ \<Rightarrow> False) c))"
  by (simp add: search_employees_def search_employees_query_def id_filter_simps filter_simps
      run_search_def find_all_Regex_plain as_dict_other)

lemma search_employees_position:
  "f \<noteq> [] \<Longrightarrow>
   search_employees fl pcre c None None (Some f) None =
     except_Exception (collect (employee_record fl)
       (filter (\<lambda>doc. snd doc ''position'' = Some (VStr f)) c))"
  by (simp add: search_employees_def search_employees_query_def id_filter_simps filter_simps
      run_search_def find_all_Eq as_dict_other)

lemma search_employees_salary:
  "x \<noteq> 0 \<Longrightarrow>
   search_employees fl pcre c None None None (Some x) =
     except_Exception (collect (employee_record fl)
       (filter (\<lambda>doc. snd doc ''salary'' = Some (VNum x)) c))"
  by (simp add: search_employees_def search_employees_query_def id_filter_simps filter_simps
      run_search_def find_all_Eq as_dict_other)

lemma search_employees_falsy:
  "search_employees fl pcre c (Some []) q1 q2 q3 = search_employees fl pcre c None q1 q2 q3"
  "search_employees fl pcre c q0 (Some []) q2 q3 = search_employees fl pcre c q0 None q2 q3"
  "search_employees fl pcre c q0 q1 (Some []) q3 = search_employees fl pcre c q0 q1 None q3"
  "search_employees fl pcre c q0 q1 q2 (Some 0) = search_employees fl pcre c q0 q1 q2 None"
  by (simp_all add: search_employees_def search_employees_query_def id_filter_simps
      filter_simps cong: sum.case_cong)

lemma delete_employee_invalid:
  "ObjectId ident = Inl e \<Longrightarrow>
   delete_employee c ident = (Inl (HTTPException 500 (Str (InvalidId ident))), c)"
  by (simp add: delete_employee_def delete_by_id_invalid)

lemma delete_employee_missing:
  "ObjectId ident = Inr i \<Longrightarrow> i \<notin> fst ` set c \<Longrightarrow>
   delete_employee c ident =
     (Inl (HTTPException 500 (Str (HTTPException 404 (Detail ''Employee not found'')))), c)"
  by (simp add: delete_employee_def delete_by_id_missing)

lemma create_employee_400_iff:
  "fst (create_employee fl c n p)
     = Inl (HTTPException 500
         (Str (HTTPException 400 (Detail ''Employee with this name already exists''))))
     \<longleftrightarrow> (\<exists>d \<in> set c. snd d ''name'' = Some (VStr (emp_name p)))"
proof (cases "find_one c [(''name'', VStr (emp_name p))]")
  case None
  then have "\<not> (\<exists>d \<in> set c. snd d ''name'' = Some (VStr (emp_name p)))"
    unfolding find_one_employee_key .
  moreover from None have "fst (create_employee fl c n p)
     \<noteq> Inl (HTTPException 500
         (Str (HTTPException 400 (Detail ''Employee with this name already exists''))))"
    by (cases "n \<in> fst ` set c")
      (simp_all add: create_employee_def insert_one_def Employee_init_payload)
  ultimately show ?thesis
    by simp
next
  case (Some doc)
  then have "\<exists>d \<in> set c. snd d ''name'' = Some (VStr (emp_name p))"
    using find_one_employee_key [of c p] by simp
  moreover from Some have "fst (create_employee fl c n p)
     = Inl (HTTPException 500
         (Str (HTTPException 400 (Detail ''Employee with this name already exists''))))"
    by (simp add: create_employee_def)
  ultimately show ?thesis
    by simp
qed

subsection \<open>Documents, expenses, meetings and projects\<close>

lemma Document_init_payload:
  "Document_init ((DocumentBase_dict p)(''_id'' \<mapsto> a, ''id'' \<mapsto> VStr s)) =
     Inr \<lparr>doc_title = doc_title p, doc_description = doc_description p,
         doc_uploaded_by = doc_uploaded_by p, doc_id = s\<rparr>"
  by (simp add: Document_init_def DocumentBase_dict_def get_str_def get_float_def
      get_list_def get_opt_str_def split: option.splits)

lemma document_record_stored:
  "document_record (i, d ++ DocumentBase_dict p) =
     Inr \<lparr>doc_title = doc_title p, doc_description = doc_description p,
         doc_uploaded_by = doc_uploaded_by p, doc_id = str_oid i\<rparr>"
  by (simp add: document_record_def Document_init_def DocumentBase_dict_def get_str_def
      get_float_def get_list_def get_opt_str_def
      as_dict_def map_add_def split: option.splits)

lemma document_record_id:
  "document_record doc = Inr r \<Longrightarrow> doc_id r = str_oid (fst doc)"
  by (auto simp: document_record_def Document_init_def get_str_def Let_def
      split: option.splits bson.splits)

lemma update_document_invalid:
  "ObjectId ident = Inl e \<Longrightarrow>
   update_document c ident p = (Inl (HTTPException 500 (Str (InvalidId ident))), c)"
  by (frule ObjectId_Inl) (simp add: update_document_def)

lemma update_document_missing:
  "ObjectId ident = Inr i \<Longrightarrow> i \<notin> fst ` set c \<Longrightarrow>
   update_document c ident p =
     (Inl (HTTPException 500 (Str (HTTPException 404 (Detail ''Document not found'')))), c)"
  by (simp add: update_document_def update_one_unmatched)

lemma update_document_found:
  "ObjectId ident = Inr i \<Longrightarrow> update_one c i (DocumentBase_dict p) = (1,
      c') \<Longrightarrow>
   update_document c ident p =
     (Inr \<lparr>detail = ''Document updated successfully.'',
          data = Some \<lparr>doc_title = doc_title p, doc_description = doc_description p,
              doc_uploaded_by = doc_uploaded_by p, doc_id = ident\<rparr>\<rparr>, c')"
  by (simp add: update_document_def Document_init_payload)

lemma update_document_success:
  assumes "update_document c ident p = (Inr resp, c')"
  shows "\<exists>i k. ObjectId ident = Inr i \<and> k < length c \<and> fst (c ! k) = i
      \<and>
           (\<forall>j < k. fst (c ! j) \<noteq> i) \<and>
           c' = c[k := (i, snd (c ! k) ++ DocumentBase_dict p)] \<and>
           data resp = Some \<lparr>doc_title = doc_title p,
               doc_description = doc_description p, doc_uploaded_by = doc_uploaded_by p,
               doc_id = ident\<rparr>"
proof (cases "ObjectId ident")
  case (Inl e)
  with assms show ?thesis by (simp add: update_document_invalid)
next
  case (Inr i)
  show ?thesis
  proof (cases "i \<in> fst ` set c")
    case False
    with Inr assms show ?thesis by (simp add: update_document_missing)
  next
    case True
    from update_one_matched [OF True, of "DocumentBase_dict p"]
    obtain k where k: "k < length c" "fst (c ! k) = i" "\<forall>j < k. fst (c ! j)
        \<noteq> i"
      "update_one c i (DocumentBase_dict p) = (1, c[k := (i,
          snd (c ! k) ++ DocumentBase_dict p)])"
      by blast
    from update_document_found [OF Inr k(4)] assms
    have "c' = c[k := (i, snd (c ! k) ++ DocumentBase_dict p)]"
      and "data resp = Some \<lparr>doc_title = doc_title p,
          doc_description = doc_description p, doc_uploaded_by = doc_uploaded_by p,
          doc_id = ident\<rparr>"
      by auto
    with Inr k show ?thesis by blast
  qed
qed

lemma find_one_document_key:
  "find_one c [(''title'', VStr (doc_title p))] = None \<longleftrightarrow>
     \<not> (\<exists>doc \<in> set c. snd doc ''title'' = Some (VStr (doc_title p)))"
  by (simp add: find_one_None_iff as_dict_other)

lemma create_document_duplicate:
  assumes "doc \<in> set c" "snd doc ''title'' = Some (VStr (doc_title p))"
  shows "create_document c n p =
     (Inl (HTTPException 400 (Detail ''Document with this title already exists'')), c)"
proof -
  from assms have "find_one c [(''title'', VStr (doc_title p))] \<noteq> None"
    unfolding find_one_document_key by blast
  then show ?thesis by (auto simp: create_document_def)
qed

lemma create_document_fresh:
  assumes "\<not> (\<exists>doc \<in> set c. snd doc ''title'' = Some (VStr (doc_title p)))"
    and "n \<notin> fst ` set c"
  shows "create_document c n p =
     (Inr \<lparr>detail = ''Document created successfully.'',
          data = Some \<lparr>doc_title = doc_title p, doc_description = doc_description p,
              doc_uploaded_by = doc_uploaded_by p, doc_id = str_oid n\<rparr>\<rparr>,
      c @ [(n, DocumentBase_dict p)])"
proof -
  from assms(1) have "find_one c [(''title'', VStr (doc_title p))] = None"
    unfolding find_one_document_key by blast
  with assms(2) show ?thesis
    by (simp add: create_document_def insert_one_def Document_init_payload)
qed

lemma search_documents_invalid:
  "ident \<noteq> [] \<Longrightarrow> ObjectId ident = Inl e \<Longrightarrow>
   search_documents pcre c (Some ident) q1 q2 =
     Inl (HTTPException 500 (Str (InvalidId ident)))"
  by (simp add: search_documents_def search_documents_query_def id_filter_simps
      filter_simps run_search_def)

lemma search_documents_id:
  "ObjectId ident = Inr i \<Longrightarrow>
   search_documents pcre c (Some ident) None None =
     except_Exception (collect document_record (filter (\<lambda>doc. fst doc = i) c))"
  by (simp add: search_documents_def search_documents_query_def id_filter_simps
      filter_simps run_search_def find_all_Eq)

lemma search_documents_title:
  "plain f \<Longrightarrow> f \<noteq> [] \<Longrightarrow>
   search_documents pcre c None (Some f) None =
     except_Exception (collect document_record
       (filter (\<lambda>doc. case snd doc ''title'' of Some (VStr v) \<Rightarrow>
           icontains f v | _ \<Rightarrow> False) c))"
  by (simp add: search_documents_def search_documents_query_def id_filter_simps
      filter_simps run_search_def find_all_Regex_plain as_dict_other)

lemma search_documents_uploaded_by:
  "plain f \<Longrightarrow> f \<noteq> [] \<Longrightarrow>
   search_documents pcre c None None (Some f) =
     except_Exception (collect document_record
       (filter (\<lambda>doc. case snd doc ''uploaded_by'' of Some (VStr v) \<Rightarrow>
           icontains f v | _ \<Rightarrow> False) c))"
  by (simp add: search_documents_def search_documents_query_def id_filter_simps
      filter_simps run_search_def find_all_Regex_plain as_dict_other)

lemma search_documents_falsy:
  "search_documents pcre c (Some []) q1 q2 = search_documents pcre c None q1 q2"
  "search_documents pcre c q0 (Some []) q2 = search_documents pcre c q0 None q2"
  "search_documents pcre c q0 q1 (Some []) = search_documents pcre c q0 q1 None"
  by (simp_all add: search_documents_def search_documents_query_def id_filter_simps
      filter_simps
        cong: sum.case_cong)

lemma delete_document_invalid:
  "ObjectId ident = Inl e \<Longrightarrow>
   delete_document c ident = (Inl (HTTPException 500 (Str (InvalidId ident))), c)"
  by (simp add: delete_document_def delete_by_id_invalid)

lemma delete_document_missing:
  "ObjectId ident = Inr i \<Longrightarrow> i \<notin> fst ` set c \<Longrightarrow>
   delete_document c ident =
     (Inl (HTTPException 500 (Str (HTTPException 404 (Detail ''Document not found'')))), c)"
  by (simp add: delete_document_def delete_by_id_missing)

lemma Expense_init_payload:
  "Expense_init fl ((ExpenseBase_dict p)(''_id'' \<mapsto> a, ''id'' \<mapsto> VStr s)) =
     Inr \<lparr>exp_title = exp_title p, exp_amount = exp_amount p,
         exp_category = exp_category p, exp_incurred_by = exp_incurred_by p,
         exp_date = exp_date p, exp_id = s\<rparr>"
  by (simp add: Expense_init_def ExpenseBase_dict_def get_str_def get_float_def
      get_list_def get_opt_str_def split: option.splits)

lemma expense_record_stored:
  "expense_record fl (i, d ++ ExpenseBase_dict p) =
     Inr \<lparr>exp_title = exp_title p, exp_amount = exp_amount p,
         exp_category = exp_category p, exp_incurred_by = exp_incurred_by p,
         exp_date = exp_date p, exp_id = str_oid i\<rparr>"
  by (simp add: expense_record_def Expense_init_def ExpenseBase_dict_def get_str_def
      get_float_def get_list_def get_opt_str_def
      as_dict_def map_add_def split: option.splits)

lemma expense_record_id:
  "expense_record fl doc = Inr r \<Longrightarrow> exp_id r = str_oid (fst doc)"
  by (auto simp: expense_record_def Expense_init_def get_str_def Let_def
      split: option.splits bson.splits)

lemma update_expense_invalid:
  "ObjectId ident = Inl e \<Longrightarrow>
   update_expense fl c ident p = (Inl (HTTPException 500 (Str (InvalidId ident))), c)"
  by (frule ObjectId_Inl) (simp add: update_expense_def)

lemma update_expense_missing:
  "ObjectId ident = Inr i \<Longrightarrow> i \<notin> fst ` set c \<Longrightarrow>
   update_expense fl c ident p =
     (Inl (HTTPException 500 (Str (HTTPException 404 (Detail ''Expense not found'')))), c)"
  by (simp add: update_expense_def update_one_unmatched)

lemma update_expense_found:
  "ObjectId ident = Inr i \<Longrightarrow> update_one c i (ExpenseBase_dict p) = (1,
      c') \<Longrightarrow>
   update_expense fl c ident p =
     (Inr \<lparr>detail = ''Expense updated successfully.'',
          data = Some \<lparr>exp_title = exp_title p, exp_amount = exp_amount p,
              exp_category = exp_category p, exp_incurred_by = exp_incurred_by p,
              exp_date = exp_date p, exp_id = ident\<rparr>\<rparr>, c')"
  by (simp add: update_expense_def Expense_init_payload)

lemma update_expense_success:
  assumes "update_expense fl c ident p = (Inr resp, c')"
  shows "\<exists>i k. ObjectId ident = Inr i \<and> k < length c \<and> fst (c ! k) = i
      \<and>
           (\<forall>j < k. fst (c ! j) \<noteq> i) \<and>
           c' = c[k := (i, snd (c ! k) ++ ExpenseBase_dict p)] \<and>
           data resp = Some \<lparr>exp_title = exp_title p, exp_amount = exp_amount p,
               exp_category = exp_category p, exp_incurred_by = exp_incurred_by p,
               exp_date = exp_date p, exp_id = ident\<rparr>"
proof (cases "ObjectId ident")
  case (Inl e)
  with assms show ?thesis by (simp add: update_expense_invalid)
next
  case (Inr i)
  show ?thesis
  proof (cases "i \<in> fst ` set c")
    case False
    with Inr assms show ?thesis by (simp add: update_expense_missing)
  next
    case True
    from update_one_matched [OF True, of "ExpenseBase_dict p"]
    obtain k where k: "k < length c" "fst (c ! k) = i" "\<forall>j < k. fst (c ! j)
        \<noteq> i"
      "update_one c i (ExpenseBase_dict p) = (1, c[k := (i,
          snd (c ! k) ++ ExpenseBase_dict p)])"
      by blast
    from update_expense_found [OF Inr k(4)] assms
    have "c' = c[k := (i, snd (c ! k) ++ ExpenseBase_dict p)]"
      and "data resp = Some \<lparr>exp_title = exp_title p, exp_amount = exp_amount p,
          exp_category = exp_category p, exp_incurred_by = exp_incurred_by p,
          exp_date = exp_date p, exp_id = ident\<rparr>"
      by auto
    with Inr k show ?thesis by blast
  qed
qed

lemma create_expense_fresh:
  assumes "n \<notin> fst ` set c"
  shows "create_expense fl c n p =
     (Inr \<lparr>detail = ''Expense created successfully.'',
          data = Some \<lparr>exp_title = exp_title p, exp_amount = exp_amount p,
              exp_category = exp_category p, exp_incurred_by = exp_incurred_by p,
              exp_date = exp_date p, exp_id = str_oid n\<rparr>\<rparr>,
      c @ [(n, ExpenseBase_dict p)])"
  using assms by (simp add: create_expense_def insert_one_def Expense_init_payload)

lemma search_expenses_invalid:
  "ident \<noteq> [] \<Longrightarrow> ObjectId ident = Inl e \<Longrightarrow>
   search_expenses fl pcre c (Some ident) q1 q2 q3 =
     Inl (HTTPException 500 (Str (InvalidId ident)))"
  by (simp add: search_expenses_def search_expenses_query_def id_filter_simps filter_simps
      run_search_def)

lemma search_expenses_id:
  "ObjectId ident = Inr i \<Longrightarrow>
   search_expenses fl pcre c (Some ident) None None None =
     except_Exception (collect (expense_record fl) (filter (\<lambda>doc. fst doc = i) c))"
  by (simp add: search_expenses_def search_expenses_query_def id_filter_simps filter_simps
      run_search_def find_all_Eq)

lemma search_expenses_title:
  "plain f \<Longrightarrow> f \<noteq> [] \<Longrightarrow>
   search_expenses fl pcre c None (Some f) None None =
     except_Exception (collect (expense_record fl)
       (filter (\<lambda>doc. case snd doc ''title'' of Some (VStr v) \<Rightarrow>
           icontains f v | _ \<Rightarrow> False) c))"
  by (simp add: search_expenses_def search_expenses_query_def id_filter_simps filter_simps
      run_search_def find_all_Regex_plain as_dict_other)

lemma search_expenses_category:
  "plain f \<Longrightarrow> f \<noteq> [] \<Longrightarrow>
   search_expenses fl pcre c None None (Some f) None =
     except_Exception (collect (expense_record fl)
       (filter (\<lambda>doc. case snd doc ''category'' of Some (VStr v) \<Rightarrow>
           icontains f v | _ \<Rightarrow> False) c))"
  by (simp add: search_expenses_def search_expenses_query_def id_filter_simps filter_simps
      run_search_def find_all_Regex_plain as_dict_other)

lemma search_expenses_incurred_by:
  "plain f \<Longrightarrow> f \<noteq> [] \<Longrightarrow>
   search_expenses fl pcre c None None None (Some f) =
     except_Exception (collect (expense_record fl)
       (filter (\<lambda>doc. case snd doc ''incurred_by'' of Some (VStr v) \<Rightarrow>
           icontains f v | _ \<Rightarrow> False) c))"
  by (simp add: search_expenses_def search_expenses_query_def id_filter_simps filter_simps
      run_search_def find_all_Regex_plain as_dict_other)

lemma search_expenses_falsy:
  "search_expenses fl pcre c (Some []) q1 q2 q3 = search_expenses fl pcre c None q1 q2 q3"
  "search_expenses fl pcre c q0 (Some []) q2 q3 = search_expenses fl pcre c q0 None q2 q3"
  "search_expenses fl pcre c q0 q1 (Some []) q3 = search_expenses fl pcre c q0 q1 None q3"
  "search_expenses fl pcre c q0 q1 q2 (Some []) = search_expenses fl pcre c q0 q1 q2 None"
  by (simp_all add: search_expenses_def search_expenses_query_def id_filter_simps
      filter_simps
        cong: sum.case_cong)

lemma delete_expense_invalid:
  "ObjectId ident = Inl e \<Longrightarrow>
   delete_expense c ident = (Inl (HTTPException 500 (Str (InvalidId ident))), c)"
  by (simp add: delete_expense_def delete_by_id_invalid)

lemma delete_expense_missing:
  "ObjectId ident = Inr i \<Longrightarrow> i \<notin> fst ` set c \<Longrightarrow>
   delete_expense c ident =
     (Inl (HTTPException 500 (Str (HTTPException 404 (Detail ''Expense not found'')))), c)"
  by (simp add: delete_expense_def delete_by_id_missing)

lemma Meeting_init_payload:
  "Meeting_init ((MeetingBase_dict p)(''_id'' \<mapsto> a, ''id'' \<mapsto> VStr s)) =
     Inr \<lparr>mtg_title = mtg_title p, mtg_description = mtg_description p,
         mtg_organizer = mtg_organizer p, mtg_date = mtg_date p,
         mtg_start_time = mtg_start_time p, mtg_end_time = mtg_end_time p,
         mtg_attendees = mtg_attendees p, mtg_id = s\<rparr>"
  by (simp add: Meeting_init_def MeetingBase_dict_def get_str_def get_float_def
      get_list_def get_opt_str_def split: option.splits)

lemma meeting_record_stored:
  "meeting_record (i, d ++ MeetingBase_dict p) =
     Inr \<lparr>mtg_title = mtg_title p, mtg_description = mtg_description p,
         mtg_organizer = mtg_organizer p, mtg_date = mtg_date p,
         mtg_start_time = mtg_start_time p, mtg_end_time = mtg_end_time p,
         mtg_attendees = mtg_attendees p, mtg_id = str_oid i\<rparr>"
  by (simp add: meeting_record_def Meeting_init_def MeetingBase_dict_def get_str_def
      get_float_def get_list_def get_opt_str_def
      as_dict_def map_add_def split: option.splits)

lemma meeting_record_id:
  "meeting_record doc = Inr r \<Longrightarrow> mtg_id r = str_oid (fst doc)"
  by (auto simp: meeting_record_def Meeting_init_def get_str_def Let_def
      split: option.splits bson.splits)

lemma update_meeting_invalid:
  "ObjectId ident = Inl e \<Longrightarrow>
   update_meeting c ident p = (Inl (HTTPException 500 (Str (InvalidId ident))), c)"
  by (frule ObjectId_Inl) (simp add: update_meeting_def)

lemma update_meeting_missing:
  "ObjectId ident = Inr i \<Longrightarrow> i \<notin> fst ` set c \<Longrightarrow>
   update_meeting c ident p =
     (Inl (HTTPException 500 (Str (HTTPException 404 (Detail ''Meeting not found'')))), c)"
  by (simp add: update_meeting_def update_one_unmatched)

lemma update_meeting_found:
  "ObjectId ident = Inr i \<Longrightarrow> update_one c i (MeetingBase_dict p) = (1,
      c') \<Longrightarrow>
   update_meeting c ident p =
     (Inr \<lparr>detail = ''Meeting updated successfully.'',
          data = Some \<lparr>mtg_title = mtg_title p, mtg_description = mtg_description p,
              mtg_organizer = mtg_organizer p, mtg_date = mtg_date p,
              mtg_start_time = mtg_start_time p, mtg_end_time = mtg_end_time p,
              mtg_attendees = mtg_attendees p, mtg_id = ident\<rparr>\<rparr>, c')"
  by (simp add: update_meeting_def Meeting_init_payload)

lemma update_meeting_success:
  assumes "update_meeting c ident p = (Inr resp, c')"
  shows "\<exists>i k. ObjectId ident = Inr i \<and> k < length c \<and> fst (c ! k) = i
      \<and>
           (\<forall>j < k. fst (c ! j) \<noteq> i) \<and>
           c' = c[k := (i, snd (c ! k) ++ MeetingBase_dict p)] \<and>
           data resp = Some \<lparr>mtg_title = mtg_title p,
               mtg_description = mtg_description p, mtg_organizer = mtg_organizer p,
               mtg_date = mtg_date p, mtg_start_time = mtg_start_time p,
               mtg_end_time = mtg_end_time p, mtg_attendees = mtg_attendees p,
               mtg_id = ident\<rparr>"
proof (cases "ObjectId ident")
  case (Inl e)
  with assms show ?thesis by (simp add: update_meeting_invalid)
next
  case (Inr i)
  show ?thesis
  proof (cases "i \<in> fst ` set c")
    case False
    with Inr assms show ?thesis by (simp add: update_meeting_missing)
  next
    case True
    from update_one_matched [OF True, of "MeetingBase_dict p"]
    obtain k where k: "k < length c" "fst (c ! k) = i" "\<forall>j < k. fst (c ! j)
        \<noteq> i"
      "update_one c i (MeetingBase_dict p) = (1, c[k := (i,
          snd (c ! k) ++ MeetingBase_dict p)])"
      by blast
    from update_meeting_found [OF Inr k(4)] assms
    have "c' = c[k := (i, snd (c ! k) ++ MeetingBase_dict p)]"
      and "data resp = Some \<lparr>mtg_title = mtg_title p,
          mtg_description = mtg_description p, mtg_organizer = mtg_organizer p,
          mtg_date = mtg_date p, mtg_start_time = mtg_start_time p,
          mtg_end_time = mtg_end_time p, mtg_attendees = mtg_attendees p,
          mtg_id = ident\<rparr>"
      by auto
    with Inr k show ?thesis by blast
  qed
qed

lemma find_one_meeting_key:
  "find_one c [(''title'', VStr (mtg_title p)), (''date'',
      VStr (mtg_date p))] = None \<longleftrightarrow>
     \<not> (\<exists>doc \<in> set c. snd doc ''title'' = Some (VStr (mtg_title p))
         \<and> snd doc ''date'' = Some (VStr (mtg_date p)))"
  by (simp add: find_one_None_iff as_dict_other)

lemma create_meeting_duplicate:
  assumes "doc \<in> set c" "snd doc ''title'' = Some (VStr (mtg_title p))" "snd doc
      ''date'' = Some (VStr (mtg_date p))"
  shows "create_meeting c n p =
     (Inl (HTTPException 400 (Detail
         ''Meeting with this title on the same date already exists'')), c)"
proof -
  from assms have "find_one c [(''title'', VStr (mtg_title p)), (''date'',
      VStr (mtg_date p))] \<noteq> None"
    unfolding find_one_meeting_key by blast
  then show ?thesis by (auto simp: create_meeting_def)
qed

lemma create_meeting_fresh:
  assumes "\<not> (\<exists>doc \<in> set c. snd doc ''title'' = Some (VStr (mtg_title p))
      \<and> snd doc ''date'' = Some (VStr (mtg_date p)))"
    and "n \<notin> fst ` set c"
  shows "create_meeting c n p =
     (Inr \<lparr>detail = ''Meeting created successfully.'',
          data = Some \<lparr>mtg_title = mtg_title p, mtg_description = mtg_description p,
              mtg_organizer = mtg_organizer p, mtg_date = mtg_date p,
              mtg_start_time = mtg_start_time p, mtg_end_time = mtg_end_time p,
              mtg_attendees = mtg_attendees p, mtg_id = str_oid n\<rparr>\<rparr>,
      c @ [(n, MeetingBase_dict p)])"
proof -
  from assms(1) have "find_one c [(''title'', VStr (mtg_title p)), (''date'',
      VStr (mtg_date p))] = None"
    unfolding find_one_meeting_key by blast
  with assms(2) show ?thesis
    by (simp add: create_meeting_def insert_one_def Meeting_init_payload)
qed

lemma search_meetings_invalid:
  "ident \<noteq> [] \<Longrightarrow> ObjectId ident = Inl e \<Longrightarrow>
   search_meetings pcre c (Some ident) q1 q2 q3 =
     Inl (HTTPException 500 (Str (InvalidId ident)))"
  by (simp add: search_meetings_def search_meetings_query_def id_filter_simps filter_simps
      run_search_def)

lemma search_meetings_id:
  "ObjectId ident = Inr i \<Longrightarrow>
   search_meetings pcre c (Some ident) None None None =
     except_Exception (collect meeting_record (filter (\<lambda>doc. fst doc = i) c))"
  by (simp add: search_meetings_def search_meetings_query_def id_filter_simps filter_simps
      run_search_def find_all_Eq)

lemma search_meetings_title:
  "plain f \<Longrightarrow> f \<noteq> [] \<Longrightarrow>
   search_meetings pcre c None (Some f) None None =
     except_Exception (collect meeting_record
       (filter (\<lambda>doc. case snd doc ''title'' of Some (VStr v) \<Rightarrow>
           icontains f v | _ \<Rightarrow> False) c))"
  by (simp add: search_meetings_def search_meetings_query_def id_filter_simps filter_simps
      run_search_def find_all_Regex_plain as_dict_other)

lemma search_meetings_organizer:
  "plain f \<Longrightarrow> f \<noteq> [] \<Longrightarrow>
   search_meetings pcre c None None (Some f) None =
     except_Exception (collect meeting_record
       (filter (\<lambda>doc. case snd doc ''organizer'' of Some (VStr v) \<Rightarrow>
           icontains f v | _ \<Rightarrow> False) c))"
  by (simp add: search_meetings_def search_meetings_query_def id_filter_simps filter_simps
      run_search_def find_all_Regex_plain as_dict_other)

lemma search_meetings_date:
  "f \<noteq> [] \<Longrightarrow>
   search_meetings pcre c None None None (Some f) =
     except_Exception (collect meeting_record
       (filter (\<lambda>doc. snd doc ''date'' = Some (VStr f)) c))"
  by (simp add: search_meetings_def search_meetings_query_def id_filter_simps filter_simps
      run_search_def find_all_Eq as_dict_other)

lemma search_meetings_falsy:
  "search_meetings pcre c (Some []) q1 q2 q3 = search_meetings pcre c None q1 q2 q3"
  "search_meetings pcre c q0 (Some []) q2 q3 = search_meetings pcre c q0 None q2 q3"
  "search_meetings pcre c q0 q1 (Some []) q3 = search_meetings pcre c q0 q1 None q3"
  "search_meetings pcre c q0 q1 q2 (Some []) = search_meetings pcre c q0 q1 q2 None"
  by (simp_all add: search_meetings_def search_meetings_query_def id_filter_simps
      filter_simps
        cong: sum.case_cong)

lemma delete_meeting_invalid:
  "ObjectId ident = Inl e \<Longrightarrow>
   delete_meeting c ident = (Inl (HTTPException 500 (Str (InvalidId ident))), c)"
  by (simp add: delete_meeting_def delete_by_id_invalid)

lemma delete_meeting_missing:
  "ObjectId ident = Inr i \<Longrightarrow> i \<notin> fst ` set c \<Longrightarrow>
   delete_meeting c ident =
     (Inl (HTTPException 500 (Str (HTTPException 404 (Detail ''Meeting not found'')))), c)"
  by (simp add: delete_meeting_def delete_by_id_missing)

lemma Project_init_payload:
  "Project_init ((ProjectBase_dict p)(''_id'' \<mapsto> a, ''id'' \<mapsto> VStr s)) =
     Inr \<lparr>prj_name = prj_name p, prj_description = prj_description p,
         prj_start_date = prj_start_date p, prj_end_date = prj_end_date p,
         prj_status = prj_status p, prj_members = prj_members p, prj_id = s\<rparr>"
  by (simp add: Project_init_def ProjectBase_dict_def get_str_def get_float_def
      get_list_def get_opt_str_def split: option.splits)

lemma project_record_stored:
  "project_record (i, d ++ ProjectBase_dict p) =
     Inr \<lparr>prj_name = prj_name p, prj_description = prj_description p,
         prj_start_date = prj_start_date p, prj_end_date = prj_end_date p,
         prj_status = prj_status p, prj_members = prj_members p, prj_id = str_oid i\<rparr>"
  by (simp add: project_record_def Project_init_def ProjectBase_dict_def get_str_def
      get_float_def get_list_def get_opt_str_def
      as_dict_def map_add_def split: option.splits)

lemma project_record_id:
  "project_record doc = Inr r \<Longrightarrow> prj_id r = str_oid (fst doc)"
  by (auto simp: project_record_def Project_init_def get_str_def Let_def
      split: option.splits bson.splits)

lemma update_project_invalid:
  "ObjectId ident = Inl e \<Longrightarrow>
   update_project c ident p = (Inl (HTTPException 500 (Str (InvalidId ident))), c)"
  by (frule ObjectId_Inl) (simp add: update_project_def)

lemma update_project_missing:
  "ObjectId ident = Inr i \<Longrightarrow> i \<notin> fst ` set c \<Longrightarrow>
   update_project c ident p =
     (Inl (HTTPException 500 (Str (HTTPException 404 (Detail ''Project not found'')))), c)"
  by (simp add: update_project_def update_one_unmatched)

lemma update_project_found:
  "ObjectId ident = Inr i \<Longrightarrow> update_one c i (ProjectBase_dict p) = (1,
      c') \<Longrightarrow>
   update_project c ident p =
     (Inr \<lparr>detail = ''Project updated successfully.'',
          data = Some \<lparr>prj_name = prj_name p, prj_description = prj_description p,
              prj_start_date = prj_start_date p, prj_end_date = prj_end_date p,
              prj_status = prj_status p, prj_members = prj_members p,
              prj_id = ident\<rparr>\<rparr>, c')"
  by (simp add: update_project_def Project_init_payload)

lemma update_project_success:
  assumes "update_project c ident p = (Inr resp, c')"
  shows "\<exists>i k. ObjectId ident = Inr i \<and> k < length c \<and> fst (c ! k) = i
      \<and>
           (\<forall>j < k. fst (c ! j) \<noteq> i) \<and>
           c' = c[k := (i, snd (c ! k) ++ ProjectBase_dict p)] \<and>
           data resp = Some \<lparr>prj_name = prj_name p,
               prj_description = prj_description p, prj_start_date = prj_start_date p,
               prj_end_date = prj_end_date p, prj_status = prj_status p,
               prj_members = prj_members p, prj_id = ident\<rparr>"
proof (cases "ObjectId ident")
  case (Inl e)
  with assms show ?thesis by (simp add: update_project_invalid)
next
  case (Inr i)
  show ?thesis
  proof (cases "i \<in> fst ` set c")
    case False
    with Inr assms show ?thesis by (simp add: update_project_missing)
  next
    case True
    from update_one_matched [OF True, of "ProjectBase_dict p"]
    obtain k where k: "k < length c" "fst (c ! k) = i" "\<forall>j < k. fst (c ! j)
        \<noteq> i"
      "update_one c i (ProjectBase_dict p) = (1, c[k := (i,
          snd (c ! k) ++ ProjectBase_dict p)])"
      by blast
    from update_project_found [OF Inr k(4)] assms
    have "c' = c[k := (i, snd (c ! k) ++ ProjectBase_dict p)]"
      and "data resp = Some \<lparr>prj_name = prj_name p,
          prj_description = prj_description p, prj_start_date = prj_start_date p,
          prj_end_date = prj_end_date p, prj_status = prj_status p,
          prj_members = prj_members p, prj_id = ident\<rparr>"
      by auto
    with Inr k show ?thesis by blast
  qed
qed

lemma find_one_project_key:
  "find_one c [(''name'', VStr (prj_name p))] = None \<longleftrightarrow>
     \<not> (\<exists>doc \<in> set c. snd doc ''name'' = Some (VStr (prj_name p)))"
  by (simp add: find_one_None_iff as_dict_other)

lemma create_project_duplicate:
  assumes "doc \<in> set c" "snd doc ''name'' = Some (VStr (prj_name p))"
  shows "create_project c n p =
     (Inl (HTTPException 400 (Detail ''Project with this name already exists'')), c)"
proof -
  from assms have "find_one c [(''name'', VStr (prj_name p))] \<noteq> None"
    unfolding find_one_project_key by blast
  then show ?thesis by (auto simp: create_project_def)
qed

lemma create_project_fresh:
  assumes "\<not> (\<exists>doc \<in> set c. snd doc ''name'' = Some (VStr (prj_name p)))"
    and "n \<notin> fst ` set c"
  shows "create_project c n p =
     (Inr \<lparr>detail = ''Project created successfully.'',
          data = Some \<lparr>prj_name = prj_name p, prj_description = prj_description p,
              prj_start_date = prj_start_date p, prj_end_date = prj_end_date p,
              prj_status = prj_status p, prj_members = prj_members p,
              prj_id = str_oid n\<rparr>\<rparr>,
      c @ [(n, ProjectBase_dict p)])"
proof -
  from assms(1) have "find_one c [(''name'', VStr (prj_name p))] = None"
    unfolding find_one_project_key by blast
  with assms(2) show ?thesis
    by (simp add: create_project_def insert_one_def Project_init_payload)
qed

lemma search_projects_invalid:
  "ident \<noteq> [] \<Longrightarrow> ObjectId ident = Inl e \<Longrightarrow>
   search_projects pcre c (Some ident) q1 q2 =
     Inl (HTTPException 500 (Str (InvalidId ident)))"
  by (simp add: search_projects_def search_projects_query_def id_filter_simps filter_simps
      run_search_def)

lemma search_projects_id:
  "ObjectId ident = Inr i \<Longrightarrow>
   search_projects pcre c (Some ident) None None =
     except_Exception (collect project_record (filter (\<lambda>doc. fst doc = i) c))"
  by (simp add: search_projects_def search_projects_query_def id_filter_simps filter_simps
      run_search_def find_all_Eq)

lemma search_projects_name:
  "plain f \<Longrightarrow> f \<noteq> [] \<Longrightarrow>
   search_projects pcre c None (Some f) None =
     except_Exception (collect project_record
       (filter (\<lambda>doc. case snd doc ''name'' of Some (VStr v) \<Rightarrow>
           icontains f v | _ \<Rightarrow> False) c))"
  by (simp add: search_projects_def search_projects_query_def id_filter_simps filter_simps
      run_search_def find_all_Regex_plain as_dict_other)

lemma search_projects_status:
  "plain f \<Longrightarrow> f \<noteq> [] \<Longrightarrow>
   search_projects pcre c None None (Some f) =
     except_Exception (collect project_record
       (filter (\<lambda>doc. case snd doc ''status'' of Some (VStr v) \<Rightarrow>
           icontains f v | _ \<Rightarrow> False) c))"
  by (simp add: search_projects_def search_projects_query_def id_filter_simps filter_simps
      run_search_def find_all_Regex_plain as_dict_other)

lemma search_projects_falsy:
  "search_projects pcre c (Some []) q1 q2 = search_projects pcre c None q1 q2"
  "search_projects pcre c q0 (Some []) q2 = search_projects pcre c q0 None q2"
  "search_projects pcre c q0 q1 (Some []) = search_projects pcre c q0 q1 None"
  by (simp_all add: search_projects_def search_projects_query_def id_filter_simps
      filter_simps
        cong: sum.case_cong)

lemma delete_project_invalid:
  "ObjectId ident = Inl e \<Longrightarrow>
   delete_project c ident = (Inl (HTTPException 500 (Str (InvalidId ident))), c)"
  by (simp add: delete_project_def delete_by_id_invalid)

lemma delete_project_missing:
  "ObjectId ident = Inr i \<Longrightarrow> i \<notin> fst ` set c \<Longrightarrow>
   delete_project c ident =
     (Inl (HTTPException 500 (Str (HTTPException 404 (Detail ''Project not found'')))), c)"
  by (simp add: delete_project_def delete_by_id_missing)

subsection \<open>The handlers on collections that hold payloads\<close>

lemma starts_with_refl [simp]: "starts_with p p"
  by (induction p) simp_all

lemma contains_refl [simp]: "contains p p"
  by (cases p) simp_all

lemma icontains_same_lower:
  "map lower a = map lower b \<Longrightarrow> icontains a b"
  "map lower a = map lower b \<Longrightarrow> icontains b a"
  "icontains a a"
  by (simp_all add: icontains_def)

lemma chat_record_written: "chat_response (fst s,
    ChatCreate_dict (snd s)) = Inr (Chat_of s)"
  by (simp add: chat_response_def ChatResponse_id_def ChatResponse_init_def
      ChatCreate_dict_def
      get_str_def as_dict_def Chat_of_def)

lemma collect_chat_written: "collect chat_response (stored ChatCreate_dict ps) = Inr (map
    Chat_of ps)"
  by (rule collect_stored) (rule chat_record_written)

lemma get_chats_written: "get_chats (stored ChatCreate_dict ps) = Inr (map Chat_of ps)"
  by (simp add: get_chats_def collect_chat_written)

lemma ChatCreate_dict_overwrite: "ChatCreate_dict q ++ ChatCreate_dict p = ChatCreate_dict
    p"
  by (simp add: fun_eq_iff map_add_def ChatCreate_dict_def)

lemma search_chats_message_written:
  "plain f \<Longrightarrow> f \<noteq> [] \<Longrightarrow>
   search_chats pcre (stored ChatCreate_dict ps) (Some f) None None =
     Inr (map Chat_of (filter (\<lambda>s. icontains f (chat_message (snd s))) ps))"
  by (simp add: search_chats_message filter_stored collect_chat_written ChatCreate_dict_def)

lemma search_chats_sender_written:
  "g \<noteq> [] \<Longrightarrow>
   search_chats pcre (stored ChatCreate_dict ps) None (Some g) None =
     Inr (map Chat_of (filter (\<lambda>s. chat_sender (snd s) = g) ps))"
  by (simp add: search_chats_sender filter_stored collect_chat_written ChatCreate_dict_def)

lemma search_chats_timestamp_written:
  "g \<noteq> [] \<Longrightarrow>
   search_chats pcre (stored ChatCreate_dict ps) None None (Some g) =
     Inr (map Chat_of (filter (\<lambda>s. chat_timestamp (snd s) = g) ps))"
  by (simp add: search_chats_timestamp filter_stored collect_chat_written
      ChatCreate_dict_def)

lemma create_chat_written:
  assumes "n \<notin> fst ` set ps"
  shows "create_chat (stored ChatCreate_dict ps) n p =
     (Inr \<lparr>detail = ''Chat created successfully.'', data = Some (Chat_of (n,
         p))\<rparr>,
      stored ChatCreate_dict (ps @ [(n, p)]))"
proof -
  from assms have "n \<notin> fst ` set (stored ChatCreate_dict ps)"
    by simp
  then show ?thesis
    by (simp add: create_chat_fresh Chat_of_def)
qed

lemma update_chat_written:
  assumes "ObjectId ident = Inr i" and "i \<in> fst ` set ps"
  shows "\<exists>k < length ps. fst (ps ! k) = i
      \<and> (\<forall>j < k. fst (ps ! j) \<noteq> i) \<and>
      update_chat (stored ChatCreate_dict ps) ident p =
        (Inr \<lparr>detail = ''Chat updated successfully.'',
               data = Some \<lparr>resp_id = ident, resp_message = chat_message p,
                   resp_sender = chat_sender p,
                   resp_timestamp = chat_timestamp p\<rparr>\<rparr>,
         stored ChatCreate_dict (ps[k := (i, p)]))"
proof -
  let ?c = "stored ChatCreate_dict ps"
  from assms(2) have "i \<in> fst ` set ?c"
    by simp
  from update_one_matched [OF this, of "ChatCreate_dict p"]
  obtain k where k: "k < length ?c" "fst (?c ! k) = i" "\<forall>j < k. fst (?c ! j)
      \<noteq> i"
    "update_one ?c i (ChatCreate_dict p) = (1, ?c[k := (i,
        snd (?c ! k) ++ ChatCreate_dict p)])"
    by blast
  from k(1) have len: "k < length ps"
    by simp
  from k(2) len have first: "fst (ps ! k) = i"
    by (simp add: stored_nth)
  from k(3) len have before: "\<forall>j < k. fst (ps ! j) \<noteq> i"
    by (simp add: stored_nth)
  from len have "?c[k := (i,
      snd (?c ! k) ++ ChatCreate_dict p)] = stored ChatCreate_dict (ps[k := (i, p)])"
    by (simp add: stored_nth ChatCreate_dict_overwrite stored_update)
  with k(4) have "update_one ?c i (ChatCreate_dict p) = (1,
      stored ChatCreate_dict (ps[k := (i, p)]))"
    by simp
  from update_chat_found [OF assms(1) this]
  have "update_chat (stored ChatCreate_dict ps) ident p =
        (Inr \<lparr>detail = ''Chat updated successfully.'',
               data = Some \<lparr>resp_id = ident, resp_message = chat_message p,
                   resp_sender = chat_sender p,
                   resp_timestamp = chat_timestamp p\<rparr>\<rparr>,
         stored ChatCreate_dict (ps[k := (i, p)]))" .
  with len first before show ?thesis
    by blast
qed

lemma create_chat_keeps_written:
  "\<exists>ps'. snd (create_chat (stored ChatCreate_dict ps) n p) = stored ChatCreate_dict
      ps'"
proof -
  have "snd (create_chat (stored ChatCreate_dict ps) n p) = stored ChatCreate_dict ps
      \<or> snd (create_chat (stored ChatCreate_dict ps) n p) = stored ChatCreate_dict (ps
          @ [(n, p)])"
    by (cases "n \<in> fst ` set ps")
      (auto simp: create_chat_def insert_one_def ChatResponse_id_payload Let_def split:
          option.splits)
  then show ?thesis
    by blast
qed

lemma update_chat_keeps_written:
  "\<exists>ps'. snd (update_chat (stored ChatCreate_dict ps) ident p) = stored
      ChatCreate_dict ps'"
proof (cases "ObjectId ident")
  case (Inl e)
  then have "snd (update_chat (stored ChatCreate_dict ps) ident p) = stored ChatCreate_dict
      ps"
    by (simp add: update_chat_invalid)
  then show ?thesis ..
next
  case (Inr i)
  show ?thesis
  proof (cases "i \<in> fst ` set ps")
    case False
    with Inr have "snd (update_chat (stored ChatCreate_dict ps) ident p) = stored
        ChatCreate_dict ps"
      by (simp add: update_chat_missing)
    then show ?thesis ..
  next
    case True
    from update_chat_written [OF Inr True, of p] obtain k
      where "snd (update_chat (stored ChatCreate_dict ps) ident p) = stored ChatCreate_dict
          (ps[k := (i, p)])"
      by auto
    then show ?thesis ..
  qed
qed

lemma delete_chat_keeps_written:
  "\<exists>ps'. snd (delete_chat (stored ChatCreate_dict ps) ident) = stored
      ChatCreate_dict ps'"
  unfolding delete_chat_def by (rule delete_by_id_stored)

lemma document_record_written: "document_record (fst s,
    DocumentBase_dict (snd s)) = Inr (Document_of s)"
  using document_record_stored [of "fst s" Map.empty "snd s"] by (simp add: Document_of_def)

lemma collect_document_written: "collect document_record (stored DocumentBase_dict ps) =
    Inr (map Document_of ps)"
  by (rule collect_stored) (rule document_record_written)

lemma get_documents_written: "get_documents (stored DocumentBase_dict ps) = Inr (map
    Document_of ps)"
  by (simp add: get_documents_def collect_document_written)

lemma DocumentBase_dict_overwrite: "DocumentBase_dict q ++ DocumentBase_dict p =
    DocumentBase_dict p"
  by (simp add: fun_eq_iff map_add_def DocumentBase_dict_def)

lemma search_documents_id_written:
  "ObjectId ident = Inr i \<Longrightarrow>
   search_documents pcre (stored DocumentBase_dict ps) (Some ident) None None =
     Inr (map Document_of (filter (\<lambda>s. fst s = i) ps))"
  by (simp add: search_documents_id filter_stored collect_document_written)

lemma search_documents_title_written:
  "plain f \<Longrightarrow> f \<noteq> [] \<Longrightarrow>
   search_documents pcre (stored DocumentBase_dict ps) None (Some f) None =
     Inr (map Document_of (filter (\<lambda>s. icontains f (doc_title (snd s))) ps))"
  by (simp add: search_documents_title filter_stored collect_document_written
      DocumentBase_dict_def)

lemma search_documents_uploaded_by_written:
  "plain f \<Longrightarrow> f \<noteq> [] \<Longrightarrow>
   search_documents pcre (stored DocumentBase_dict ps) None None (Some f) =
     Inr (map Document_of (filter (\<lambda>s. icontains f (doc_uploaded_by (snd s))) ps))"
  by (simp add: search_documents_uploaded_by filter_stored collect_document_written
      DocumentBase_dict_def)

lemma create_document_written:
  assumes "\<not> (\<exists>s \<in> set ps. doc_title (snd s) = doc_title p)"
    and "n \<notin> fst ` set ps"
  shows "create_document (stored DocumentBase_dict ps) n p =
     (Inr \<lparr>detail = ''Document created successfully.'', data = Some (Document_of (n,
         p))\<rparr>,
      stored DocumentBase_dict (ps @ [(n, p)]))"
proof -
  from assms(1) have "\<not> (\<exists>doc \<in> set (stored DocumentBase_dict ps). snd doc
      ''title'' = Some (VStr (doc_title p)))"
    by (auto simp: stored_def DocumentBase_dict_def)
  moreover from assms(2) have "n \<notin> fst ` set (stored DocumentBase_dict ps)"
    by simp
  ultimately show ?thesis
    by (simp add: create_document_fresh Document_of_def)
qed

lemma update_document_written:
  assumes "ObjectId ident = Inr i" and "i \<in> fst ` set ps"
  shows "\<exists>k < length ps. fst (ps ! k) = i
      \<and> (\<forall>j < k. fst (ps ! j) \<noteq> i) \<and>
      update_document (stored DocumentBase_dict ps) ident p =
        (Inr \<lparr>detail = ''Document updated successfully.'',
               data = Some \<lparr>doc_title = doc_title p,
                   doc_description = doc_description p,
                   doc_uploaded_by = doc_uploaded_by p, doc_id = ident\<rparr>\<rparr>,
         stored DocumentBase_dict (ps[k := (i, p)]))"
proof -
  let ?c = "stored DocumentBase_dict ps"
  from assms(2) have "i \<in> fst ` set ?c"
    by simp
  from update_one_matched [OF this, of "DocumentBase_dict p"]
  obtain k where k: "k < length ?c" "fst (?c ! k) = i" "\<forall>j < k. fst (?c ! j)
      \<noteq> i"
    "update_one ?c i (DocumentBase_dict p) = (1, ?c[k := (i,
        snd (?c ! k) ++ DocumentBase_dict p)])"
    by blast
  from k(1) have len: "k < length ps"
    by simp
  from k(2) len have first: "fst (ps ! k) = i"
    by (simp add: stored_nth)
  from k(3) len have before: "\<forall>j < k. fst (ps ! j) \<noteq> i"
    by (simp add: stored_nth)
  from len have "?c[k := (i,
      snd (?c ! k) ++ DocumentBase_dict p)] = stored DocumentBase_dict (ps[k := (i, p)])"
    by (simp add: stored_nth DocumentBase_dict_overwrite stored_update)
  with k(4) have "update_one ?c i (DocumentBase_dict p) = (1,
      stored DocumentBase_dict (ps[k := (i, p)]))"
    by simp
  from update_document_found [OF assms(1) this]
  have "update_document (stored DocumentBase_dict ps) ident p =
        (Inr \<lparr>detail = ''Document updated successfully.'',
               data = Some \<lparr>doc_title = doc_title p,
                   doc_description = doc_description p,
                   doc_uploaded_by = doc_uploaded_by p, doc_id = ident\<rparr>\<rparr>,
         stored DocumentBase_dict (ps[k := (i, p)]))" .
  with len first before show ?thesis
    by blast
qed

lemma create_document_keeps_written:
  "\<exists>ps'. snd (create_document (stored DocumentBase_dict ps) n p) = stored
      DocumentBase_dict ps'"
proof -
  have "snd (create_document (stored DocumentBase_dict ps) n p) = stored DocumentBase_dict
      ps
      \<or> snd (create_document (stored DocumentBase_dict ps) n p) = stored
          DocumentBase_dict (ps @ [(n, p)])"
    by (cases "n \<in> fst ` set ps")
      (auto simp: create_document_def insert_one_def Document_init_payload Let_def split:
          option.splits)
  then show ?thesis
    by blast
qed

lemma update_document_keeps_written:
  "\<exists>ps'. snd (update_document (stored DocumentBase_dict ps) ident p) = stored
      DocumentBase_dict ps'"
proof (cases "ObjectId ident")
  case (Inl e)
  then have "snd (update_document (stored DocumentBase_dict ps) ident p) = stored
      DocumentBase_dict ps"
    by (simp add: update_document_invalid)
  then show ?thesis ..
next
  case (Inr i)
  show ?thesis
  proof (cases "i \<in> fst ` set ps")
    case False
    with Inr have "snd (update_document (stored DocumentBase_dict ps) ident p) = stored
        DocumentBase_dict ps"
      by (simp add: update_document_missing)
    then show ?thesis ..
  next
    case True
    from update_document_written [OF Inr True, of p] obtain k
      where "snd (update_document (stored DocumentBase_dict ps) ident p) = stored
          DocumentBase_dict (ps[k := (i, p)])"
      by auto
    then show ?thesis ..
  qed
qed

lemma delete_document_keeps_written:
  "\<exists>ps'. snd (delete_document (stored DocumentBase_dict ps) ident) = stored
      DocumentBase_dict ps'"
  unfolding delete_document_def by (rule delete_by_id_stored)

lemma expense_record_written: "expense_record fl (fst s,
    ExpenseBase_dict (snd s)) = Inr (Expense_of s)"
  using expense_record_stored [of fl "fst s" Map.empty "snd s"] by (simp add:
      Expense_of_def)

lemma collect_expense_written: "collect (expense_record fl) (stored ExpenseBase_dict ps) =
    Inr (map Expense_of ps)"
  by (rule collect_stored) (rule expense_record_written)

lemma get_expenses_written: "get_expenses fl (stored ExpenseBase_dict ps) = Inr (map
    Expense_of ps)"
  by (simp add: get_expenses_def collect_expense_written)

lemma ExpenseBase_dict_overwrite: "ExpenseBase_dict q ++ ExpenseBase_dict p =
    ExpenseBase_dict p"
  by (simp add: fun_eq_iff map_add_def ExpenseBase_dict_def)

lemma search_expenses_id_written:
  "ObjectId ident = Inr i \<Longrightarrow>
   search_expenses fl pcre (stored ExpenseBase_dict ps) (Some ident) None None None =
     Inr (map Expense_of (filter (\<lambda>s. fst s = i) ps))"
  by (simp add: search_expenses_id filter_stored collect_expense_written)

lemma search_expenses_title_written:
  "plain f \<Longrightarrow> f \<noteq> [] \<Longrightarrow>
   search_expenses fl pcre (stored ExpenseBase_dict ps) None (Some f) None None =
     Inr (map Expense_of (filter (\<lambda>s. icontains f (exp_title (snd s))) ps))"
  by (simp add: search_expenses_title filter_stored collect_expense_written
      ExpenseBase_dict_def)

lemma search_expenses_category_written:
  "plain f \<Longrightarrow> f \<noteq> [] \<Longrightarrow>
   search_expenses fl pcre (stored ExpenseBase_dict ps) None None (Some f) None =
     Inr (map Expense_of (filter (\<lambda>s. icontains f (exp_category (snd s))) ps))"
  by (simp add: search_expenses_category filter_stored collect_expense_written
      ExpenseBase_dict_def)

lemma search_expenses_incurred_by_written:
  "plain f \<Longrightarrow> f \<noteq> [] \<Longrightarrow>
   search_expenses fl pcre (stored ExpenseBase_dict ps) None None None (Some f) =
     Inr (map Expense_of (filter (\<lambda>s. icontains f (exp_incurred_by (snd s))) ps))"
  by (simp add: search_expenses_incurred_by filter_stored collect_expense_written
      ExpenseBase_dict_def)

lemma create_expense_written:
  assumes "n \<notin> fst ` set ps"
  shows "create_expense fl (stored ExpenseBase_dict ps) n p =
     (Inr \<lparr>detail = ''Expense created successfully.'', data = Some (Expense_of (n,
         p))\<rparr>,
      stored ExpenseBase_dict (ps @ [(n, p)]))"
proof -
  from assms have "n \<notin> fst ` set (stored ExpenseBase_dict ps)"
    by simp
  then show ?thesis
    by (simp add: create_expense_fresh Expense_of_def)
qed

lemma update_expense_written:
  assumes "ObjectId ident = Inr i" and "i \<in> fst ` set ps"
  shows "\<exists>k < length ps. fst (ps ! k) = i
      \<and> (\<forall>j < k. fst (ps ! j) \<noteq> i) \<and>
      update_expense fl (stored ExpenseBase_dict ps) ident p =
        (Inr \<lparr>detail = ''Expense updated successfully.'',
               data = Some \<lparr>exp_title = exp_title p, exp_amount = exp_amount p,
                   exp_category = exp_category p, exp_incurred_by = exp_incurred_by p,
                   exp_date = exp_date p, exp_id = ident\<rparr>\<rparr>,
         stored ExpenseBase_dict (ps[k := (i, p)]))"
proof -
  let ?c = "stored ExpenseBase_dict ps"
  from assms(2) have "i \<in> fst ` set ?c"
    by simp
  from update_one_matched [OF this, of "ExpenseBase_dict p"]
  obtain k where k: "k < length ?c" "fst (?c ! k) = i" "\<forall>j < k. fst (?c ! j)
      \<noteq> i"
    "update_one ?c i (ExpenseBase_dict p) = (1, ?c[k := (i,
        snd (?c ! k) ++ ExpenseBase_dict p)])"
    by blast
  from k(1) have len: "k < length ps"
    by simp
  from k(2) len have first: "fst (ps ! k) = i"
    by (simp add: stored_nth)
  from k(3) len have before: "\<forall>j < k. fst (ps ! j) \<noteq> i"
    by (simp add: stored_nth)
  from len have "?c[k := (i,
      snd (?c ! k) ++ ExpenseBase_dict p)] = stored ExpenseBase_dict (ps[k := (i, p)])"
    by (simp add: stored_nth ExpenseBase_dict_overwrite stored_update)
  with k(4) have "update_one ?c i (ExpenseBase_dict p) = (1,
      stored ExpenseBase_dict (ps[k := (i, p)]))"
    by simp
  from update_expense_found [OF assms(1) this]
  have "update_expense fl (stored ExpenseBase_dict ps) ident p =
        (Inr \<lparr>detail = ''Expense updated successfully.'',
               data = Some \<lparr>exp_title = exp_title p, exp_amount = exp_amount p,
                   exp_category = exp_category p, exp_incurred_by = exp_incurred_by p,
                   exp_date = exp_date p, exp_id = ident\<rparr>\<rparr>,
         stored ExpenseBase_dict (ps[k := (i, p)]))" .
  with len first before show ?thesis
    by blast
qed

lemma create_expense_keeps_written:
  "\<exists>ps'. snd (create_expense fl (stored ExpenseBase_dict ps) n p) = stored
      ExpenseBase_dict ps'"
proof -
  have "snd (create_expense fl (stored ExpenseBase_dict ps) n p) = stored ExpenseBase_dict
      ps
      \<or> snd (create_expense fl (stored ExpenseBase_dict ps) n p) = stored
          ExpenseBase_dict (ps @ [(n, p)])"
    by (cases "n \<in> fst ` set ps")
      (auto simp: create_expense_def insert_one_def Expense_init_payload Let_def split:
          option.splits)
  then show ?thesis
    by blast
qed

lemma update_expense_keeps_written:
  "\<exists>ps'. snd (update_expense fl (stored ExpenseBase_dict ps) ident p) = stored
      ExpenseBase_dict ps'"
proof (cases "ObjectId ident")
  case (Inl e)
  then have "snd (update_expense fl (stored ExpenseBase_dict ps) ident p) = stored
      ExpenseBase_dict ps"
    by (simp add: update_expense_invalid)
  then show ?thesis ..
next
  case (Inr i)
  show ?thesis
  proof (cases "i \<in> fst ` set ps")
    case False
    with Inr have "snd (update_expense fl (stored ExpenseBase_dict ps) ident p) = stored
        ExpenseBase_dict ps"
      by (simp add: update_expense_missing)
    then show ?thesis ..
  next
    case True
    from update_expense_written [OF Inr True, of fl p] obtain k
      where "snd (update_expense fl (stored ExpenseBase_dict ps) ident p) = stored
          ExpenseBase_dict (ps[k := (i, p)])"
      by auto
    then show ?thesis ..
  qed
qed

lemma delete_expense_keeps_written:
  "\<exists>ps'. snd (delete_expense (stored ExpenseBase_dict ps) ident) = stored
      ExpenseBase_dict ps'"
  unfolding delete_expense_def by (rule delete_by_id_stored)

lemma meeting_record_written: "meeting_record (fst s,
    MeetingBase_dict (snd s)) = Inr (Meeting_of s)"
  using meeting_record_stored [of "fst s" Map.empty "snd s"] by (simp add: Meeting_of_def)

lemma collect_meeting_written: "collect meeting_record (stored MeetingBase_dict ps) = Inr
    (map Meeting_of ps)"
  by (rule collect_stored) (rule meeting_record_written)

lemma get_meetings_written: "get_meetings (stored MeetingBase_dict ps) = Inr (map
    Meeting_of ps)"
  by (simp add: get_meetings_def collect_meeting_written)

lemma MeetingBase_dict_overwrite: "MeetingBase_dict q ++ MeetingBase_dict p =
    MeetingBase_dict p"
  by (simp add: fun_eq_iff map_add_def MeetingBase_dict_def)

lemma search_meetings_id_written:
  "ObjectId ident = Inr i \<Longrightarrow>
   search_meetings pcre (stored MeetingBase_dict ps) (Some ident) None None None =
     Inr (map Meeting_of (filter (\<lambda>s. fst s = i) ps))"
  by (simp add: search_meetings_id filter_stored collect_meeting_written)

lemma search_meetings_title_written:
  "plain f \<Longrightarrow> f \<noteq> [] \<Longrightarrow>
   search_meetings pcre (stored MeetingBase_dict ps) None (Some f) None None =
     Inr (map Meeting_of (filter (\<lambda>s. icontains f (mtg_title (snd s))) ps))"
  by (simp add: search_meetings_title filter_stored collect_meeting_written
      MeetingBase_dict_def)

lemma search_meetings_organizer_written:
  "plain f \<Longrightarrow> f \<noteq> [] \<Longrightarrow>
   search_meetings pcre (stored MeetingBase_dict ps) None None (Some f) None =
     Inr (map Meeting_of (filter (\<lambda>s. icontains f (mtg_organizer (snd s))) ps))"
  by (simp add: search_meetings_organizer filter_stored collect_meeting_written
      MeetingBase_dict_def)

lemma search_meetings_date_written:
  "g \<noteq> [] \<Longrightarrow>
   search_meetings pcre (stored MeetingBase_dict ps) None None None (Some g) =
     Inr (map Meeting_of (filter (\<lambda>s. mtg_date (snd s) = g) ps))"
  by (simp add: search_meetings_date filter_stored collect_meeting_written
      MeetingBase_dict_def)

lemma create_meeting_written:
  assumes "\<not> (\<exists>s \<in> set ps. mtg_title (snd s) = mtg_title p
      \<and> mtg_date (snd s) = mtg_date p)"
    and "n \<notin> fst ` set ps"
  shows "create_meeting (stored MeetingBase_dict ps) n p =
     (Inr \<lparr>detail = ''Meeting created successfully.'', data = Some (Meeting_of (n,
         p))\<rparr>,
      stored MeetingBase_dict (ps @ [(n, p)]))"
proof -
  from assms(1) have "\<not> (\<exists>doc \<in> set (stored MeetingBase_dict ps). snd doc
      ''title'' = Some (VStr (mtg_title p))
      \<and> snd doc ''date'' = Some (VStr (mtg_date p)))"
    by (auto simp: stored_def MeetingBase_dict_def)
  moreover from assms(2) have "n \<notin> fst ` set (stored MeetingBase_dict ps)"
    by simp
  ultimately show ?thesis
    by (simp add: create_meeting_fresh Meeting_of_def)
qed

lemma update_meeting_written:
  assumes "ObjectId ident = Inr i" and "i \<in> fst ` set ps"
  shows "\<exists>k < length ps. fst (ps ! k) = i
      \<and> (\<forall>j < k. fst (ps ! j) \<noteq> i) \<and>
      update_meeting (stored MeetingBase_dict ps) ident p =
        (Inr \<lparr>detail = ''Meeting updated successfully.'',
               data = Some \<lparr>mtg_title = mtg_title p,
                   mtg_description = mtg_description p, mtg_organizer = mtg_organizer p,
                   mtg_date = mtg_date p, mtg_start_time = mtg_start_time p,
                   mtg_end_time = mtg_end_time p, mtg_attendees = mtg_attendees p,
                   mtg_id = ident\<rparr>\<rparr>,
         stored MeetingBase_dict (ps[k := (i, p)]))"
proof -
  let ?c = "stored MeetingBase_dict ps"
  from assms(2) have "i \<in> fst ` set ?c"
    by simp
  from update_one_matched [OF this, of "MeetingBase_dict p"]
  obtain k where k: "k < length ?c" "fst (?c ! k) = i" "\<forall>j < k. fst (?c ! j)
      \<noteq> i"
    "update_one ?c i (MeetingBase_dict p) = (1, ?c[k := (i,
        snd (?c ! k) ++ MeetingBase_dict p)])"
    by blast
  from k(1) have len: "k < length ps"
    by simp
  from k(2) len have first: "fst (ps ! k) = i"
    by (simp add: stored_nth)
  from k(3) len have before: "\<forall>j < k. fst (ps ! j) \<noteq> i"
    by (simp add: stored_nth)
  from len have "?c[k := (i,
      snd (?c ! k) ++ MeetingBase_dict p)] = stored MeetingBase_dict (ps[k := (i, p)])"
    by (simp add: stored_nth MeetingBase_dict_overwrite stored_update)
  with k(4) have "update_one ?c i (MeetingBase_dict p) = (1,
      stored MeetingBase_dict (ps[k := (i, p)]))"
    by simp
  from update_meeting_found [OF assms(1) this]
  have "update_meeting (stored MeetingBase_dict ps) ident p =
        (Inr \<lparr>detail = ''Meeting updated successfully.'',
               data = Some \<lparr>mtg_title = mtg_title p,
                   mtg_description = mtg_description p, mtg_organizer = mtg_organizer p,
                   mtg_date = mtg_date p, mtg_start_time = mtg_start_time p,
                   mtg_end_time = mtg_end_time p, mtg_attendees = mtg_attendees p,
                   mtg_id = ident\<rparr>\<rparr>,
         stored MeetingBase_dict (ps[k := (i, p)]))" .
  with len first before show ?thesis
    by blast
qed

lemma create_meeting_keeps_written:
  "\<exists>ps'. snd (create_meeting (stored MeetingBase_dict ps) n p) = stored
      MeetingBase_dict ps'"
proof -
  have "snd (create_meeting (stored MeetingBase_dict ps) n p) = stored MeetingBase_dict ps
      \<or> snd (create_meeting (stored MeetingBase_dict ps) n p) = stored MeetingBase_dict
          (ps @ [(n, p)])"
    by (cases "n \<in> fst ` set ps")
      (auto simp: create_meeting_def insert_one_def Meeting_init_payload Let_def split:
          option.splits)
  then show ?thesis
    by blast
qed

lemma update_meeting_keeps_written:
  "\<exists>ps'. snd (update_meeting (stored MeetingBase_dict ps) ident p) = stored
      MeetingBase_dict ps'"
proof (cases "ObjectId ident")
  case (Inl e)
  then have "snd (update_meeting (stored MeetingBase_dict ps) ident p) = stored
      MeetingBase_dict ps"
    by (simp add: update_meeting_invalid)
  then show ?thesis ..
next
  case (Inr i)
  show ?thesis
  proof (cases "i \<in> fst ` set ps")
    case False
    with Inr have "snd (update_meeting (stored MeetingBase_dict ps) ident p) = stored
        MeetingBase_dict ps"
      by (simp add: update_meeting_missing)
    then show ?thesis ..
  next
    case True
    from update_meeting_written [OF Inr True, of p] obtain k
      where "snd (update_meeting (stored MeetingBase_dict ps) ident p) = stored
          MeetingBase_dict (ps[k := (i, p)])"
      by auto
    then show ?thesis ..
  qed
qed

lemma delete_meeting_keeps_written:
  "\<exists>ps'. snd (delete_meeting (stored MeetingBase_dict ps) ident) = stored
      MeetingBase_dict ps'"
  unfolding delete_meeting_def by (rule delete_by_id_stored)

lemma project_record_written: "project_record (fst s,
    ProjectBase_dict (snd s)) = Inr (Project_of s)"
  using project_record_stored [of "fst s" Map.empty "snd s"] by (simp add: Project_of_def)

lemma collect_project_written: "collect project_record (stored ProjectBase_dict ps) = Inr
    (map Project_of ps)"
  by (rule collect_stored) (rule project_record_written)

lemma get_projects_written: "get_projects (stored ProjectBase_dict ps) = Inr (map
    Project_of ps)"
  by (simp add: get_projects_def collect_project_written)

lemma ProjectBase_dict_overwrite: "ProjectBase_dict q ++ ProjectBase_dict p =
    ProjectBase_dict p"
  by (simp add: fun_eq_iff map_add_def ProjectBase_dict_def)

lemma search_projects_id_written:
  "ObjectId ident = Inr i \<Longrightarrow>
   search_projects pcre (stored ProjectBase_dict ps) (Some ident) None None =
     Inr (map Project_of (filter (\<lambda>s. fst s = i) ps))"
  by (simp add: search_projects_id filter_stored collect_project_written)

lemma search_projects_name_written:
  "plain f \<Longrightarrow> f \<noteq> [] \<Longrightarrow>
   search_projects pcre (stored ProjectBase_dict ps) None (Some f) None =
     Inr (map Project_of (filter (\<lambda>s. icontains f (prj_name (snd s))) ps))"
  by (simp add: search_projects_name filter_stored collect_project_written
      ProjectBase_dict_def)

lemma search_projects_status_written:
  "plain f \<Longrightarrow> f \<noteq> [] \<Longrightarrow>
   search_projects pcre (stored ProjectBase_dict ps) None None (Some f) =
     Inr (map Project_of (filter (\<lambda>s. icontains f (prj_status (snd s))) ps))"
  by (simp add: search_projects_status filter_stored collect_project_written
      ProjectBase_dict_def)

lemma create_project_written:
  assumes "\<not> (\<exists>s \<in> set ps. prj_name (snd s) = prj_name p)"
    and "n \<notin> fst ` set ps"
  shows "create_project (stored ProjectBase_dict ps) n p =
     (Inr \<lparr>detail = ''Project created successfully.'', data = Some (Project_of (n,
         p))\<rparr>,
      stored ProjectBase_dict (ps @ [(n, p)]))"
proof -
  from assms(1) have "\<not> (\<exists>doc \<in> set (stored ProjectBase_dict ps). snd doc
      ''name'' = Some (VStr (prj_name p)))"
    by (auto simp: stored_def ProjectBase_dict_def)
  moreover from assms(2) have "n \<notin> fst ` set (stored ProjectBase_dict ps)"
    by simp
  ultimately show ?thesis
    by (simp add: create_project_fresh Project_of_def)
qed

lemma update_project_written:
  assumes "ObjectId ident = Inr i" and "i \<in> fst ` set ps"
  shows "\<exists>k < length ps. fst (ps ! k) = i
      \<and> (\<forall>j < k. fst (ps ! j) \<noteq> i) \<and>
      update_project (stored ProjectBase_dict ps) ident p =
        (Inr \<lparr>detail = ''Project updated successfully.'',
               data = Some \<lparr>prj_name = prj_name p,
                   prj_description = prj_description p, prj_start_date = prj_start_date p,
                   prj_end_date = prj_end_date p, prj_status = prj_status p,
                   prj_members = prj_members p, prj_id = ident\<rparr>\<rparr>,
         stored ProjectBase_dict (ps[k := (i, p)]))"
proof -
  let ?c = "stored ProjectBase_dict ps"
  from assms(2) have "i \<in> fst ` set ?c"
    by simp
  from update_one_matched [OF this, of "ProjectBase_dict p"]
  obtain k where k: "k < length ?c" "fst (?c ! k) = i" "\<forall>j < k. fst (?c ! j)
      \<noteq> i"
    "update_one ?c i (ProjectBase_dict p) = (1, ?c[k := (i,
        snd (?c ! k) ++ ProjectBase_dict p)])"
    by blast
  from k(1) have len: "k < length ps"
    by simp
  from k(2) len have first: "fst (ps ! k) = i"
    by (simp add: stored_nth)
  from k(3) len have before: "\<forall>j < k. fst (ps ! j) \<noteq> i"
    by (simp add: stored_nth)
  from len have "?c[k := (i,
      snd (?c ! k) ++ ProjectBase_dict p)] = stored ProjectBase_dict (ps[k := (i, p)])"
    by (simp add: stored_nth ProjectBase_dict_overwrite stored_update)
  with k(4) have "update_one ?c i (ProjectBase_dict p) = (1,
      stored ProjectBase_dict (ps[k := (i, p)]))"
    by simp
  from update_project_found [OF assms(1) this]
  have "update_project (stored ProjectBase_dict ps) ident p =
        (Inr \<lparr>detail = ''Project updated successfully.'',
               data = Some \<lparr>prj_name = prj_name p,
                   prj_description = prj_description p, prj_start_date = prj_start_date p,
                   prj_end_date = prj_end_date p, prj_status = prj_status p,
                   prj_members = prj_members p, prj_id = ident\<rparr>\<rparr>,
         stored ProjectBase_dict (ps[k := (i, p)]))" .
  with len first before show ?thesis
    by blast
qed

lemma create_project_keeps_written:
  "\<exists>ps'. snd (create_project (stored ProjectBase_dict ps) n p) = stored
      ProjectBase_dict ps'"
proof -
  have "snd (create_project (stored ProjectBase_dict ps) n p) = stored ProjectBase_dict ps
      \<or> snd (create_project (stored ProjectBase_dict ps) n p) = stored ProjectBase_dict
          (ps @ [(n, p)])"
    by (cases "n \<in> fst ` set ps")
      (auto simp: create_project_def insert_one_def Project_init_payload Let_def split:
          option.splits)
  then show ?thesis
    by blast
qed

lemma update_project_keeps_written:
  "\<exists>ps'. snd (update_project (stored ProjectBase_dict ps) ident p) = stored
      ProjectBase_dict ps'"
proof (cases "ObjectId ident")
  case (Inl e)
  then have "snd (update_project (stored ProjectBase_dict ps) ident p) = stored
      ProjectBase_dict ps"
    by (simp add: update_project_invalid)
  then show ?thesis ..
next
  case (Inr i)
  show ?thesis
  proof (cases "i \<in> fst ` set ps")
    case False
    with Inr have "snd (update_project (stored ProjectBase_dict ps) ident p) = stored
        ProjectBase_dict ps"
      by (simp add: update_project_missing)
    then show ?thesis ..
  next
    case True
    from update_project_written [OF Inr True, of p] obtain k
      where "snd (update_project (stored ProjectBase_dict ps) ident p) = stored
          ProjectBase_dict (ps[k := (i, p)])"
      by auto
    then show ?thesis ..
  qed
qed

lemma delete_project_keeps_written:
  "\<exists>ps'. snd (delete_project (stored ProjectBase_dict ps) ident) = stored
      ProjectBase_dict ps'"
  unfolding delete_project_def by (rule delete_by_id_stored)

lemma employee_record_written:
  "employee_record fl (fst s,
      EmployeeBase_dict (snd s)) = Inl (ValidationError ''Employee'')"
  by (simp add: employee_record_def as_dict_def Employee_init_def EmployeeBase_dict_def
      get_str_def get_float_def)

lemma collect_employee_written:
  "collect (employee_record fl) (stored EmployeeBase_dict ps) =
     (if ps = [] then Inr [] else Inl (ValidationError ''Employee''))"
  by (cases ps) (simp_all add: employee_record_written)

lemma get_employees_written:
  "get_employees fl (stored EmployeeBase_dict ps) =
     (if ps = [] then Inr [] else Inl (HTTPException 500 (Str (ValidationError
         ''Employee''))))"
  by (simp add: get_employees_def collect_employee_written)

lemma EmployeeBase_dict_overwrite: "EmployeeBase_dict q ++ EmployeeBase_dict p =
    EmployeeBase_dict p"
  by (simp add: fun_eq_iff map_add_def EmployeeBase_dict_def)

lemma search_employees_name_written:
  "plain f \<Longrightarrow> f \<noteq> [] \<Longrightarrow>
   search_employees fl pcre (stored EmployeeBase_dict ps) None (Some f) None None =
     except_Exception (collect (employee_record fl)
       (stored EmployeeBase_dict (filter (\<lambda>s. icontains f (emp_name (snd s))) ps)))"
  by (simp add: search_employees_name filter_stored EmployeeBase_dict_def)

lemma create_employee_written:
  assumes "\<not> (\<exists>s \<in> set ps. emp_name (snd s) = emp_name p)"
    and "n \<notin> fst ` set ps"
  shows "create_employee fl (stored EmployeeBase_dict ps) n p =
     (Inl (HTTPException 500 (Str (ValidationError ''Employee''))),
      stored EmployeeBase_dict (ps @ [(n, p)]))"
proof -
  from assms(1)
  have "\<not> (\<exists>doc \<in> set (stored EmployeeBase_dict ps). snd doc ''name'' =
      Some (VStr (emp_name p)))"
    by (auto simp: stored_def EmployeeBase_dict_def)
  moreover from assms(2) have "n \<notin> fst ` set (stored EmployeeBase_dict ps)"
    by simp
  ultimately show ?thesis
    by (simp add: create_employee_fresh)
qed

lemma update_employee_written:
  assumes "ObjectId ident = Inr i" and "i \<in> fst ` set ps"
  shows "\<exists>k < length ps. fst (ps ! k) = i
      \<and> (\<forall>j < k. fst (ps ! j) \<noteq> i) \<and>
      update_employee fl (stored EmployeeBase_dict ps) ident p =
        (Inl (HTTPException 500 (Str (ValidationError ''Employee''))),
         stored EmployeeBase_dict (ps[k := (i, p)]))"
proof -
  let ?c = "stored EmployeeBase_dict ps"
  from assms(2) have "i \<in> fst ` set ?c"
    by simp
  from update_one_matched [OF this, of "EmployeeBase_dict p"]
  obtain k where k: "k < length ?c" "fst (?c ! k) = i" "\<forall>j < k. fst (?c ! j)
      \<noteq> i"
    "update_one ?c i (EmployeeBase_dict p)
       = (1, ?c[k := (i, snd (?c ! k) ++ EmployeeBase_dict p)])"
    by blast
  from k(1) have len: "k < length ps"
    by simp
  from k(2) len have first: "fst (ps ! k) = i"
    by (simp add: stored_nth)
  from k(3) len have before: "\<forall>j < k. fst (ps ! j) \<noteq> i"
    by (simp add: stored_nth)
  from len have "?c[k := (i, snd (?c ! k) ++ EmployeeBase_dict p)]
      = stored EmployeeBase_dict (ps[k := (i, p)])"
    by (simp add: stored_nth EmployeeBase_dict_overwrite stored_update)
  with k(4)
  have "update_one ?c i (EmployeeBase_dict p) = (1, stored EmployeeBase_dict (ps[k := (i,
      p)]))"
    by simp
  from update_employee_found [OF assms(1) this]
  have "update_employee fl (stored EmployeeBase_dict ps) ident p =
        (Inl (HTTPException 500 (Str (ValidationError ''Employee''))),
         stored EmployeeBase_dict (ps[k := (i, p)]))" .
  with len first before show ?thesis
    by blast
qed

lemma create_employee_keeps_written:
  "\<exists>ps'. snd (create_employee fl (stored EmployeeBase_dict ps) n p) = stored
      EmployeeBase_dict ps'"
proof -
  have "snd (create_employee fl (stored EmployeeBase_dict ps) n p) = stored
      EmployeeBase_dict ps
      \<or> snd (create_employee fl (stored EmployeeBase_dict ps) n p) = stored
          EmployeeBase_dict (ps @ [(n, p)])"
    by (cases "n \<in> fst ` set ps")
      (auto simp: create_employee_def insert_one_def Employee_init_payload Let_def split:
          option.splits)
  then show ?thesis
    by blast
qed

lemma update_employee_keeps_written:
  "\<exists>ps'. snd (update_employee fl (stored EmployeeBase_dict ps) ident p) = stored
      EmployeeBase_dict ps'"
proof (cases "ObjectId ident")
  case (Inl e)
  then have "snd (update_employee fl (stored EmployeeBase_dict ps) ident p) = stored
      EmployeeBase_dict ps"
    by (simp add: update_employee_invalid)
  then show ?thesis ..
next
  case (Inr i)
  show ?thesis
  proof (cases "i \<in> fst ` set ps")
    case False
    with Inr have "snd (update_employee fl (stored EmployeeBase_dict ps) ident p) = stored
        EmployeeBase_dict ps"
      by (simp add: update_employee_missing)
    then show ?thesis ..
  next
    case True
    from update_employee_written [OF Inr True, of fl p] obtain k
      where "snd (update_employee fl (stored EmployeeBase_dict ps) ident p) = stored
          EmployeeBase_dict (ps[k := (i, p)])"
      by auto
    then show ?thesis ..
  qed
qed

lemma delete_employee_keeps_written:
  "\<exists>ps'. snd (delete_employee (stored EmployeeBase_dict ps) ident) = stored
      EmployeeBase_dict ps'"
  unfolding delete_employee_def by (rule delete_by_id_stored)

subsection \<open>The identifiers of returned records\<close>

lemma create_chat_returns:
  assumes "create_chat c n p = (Inr resp, c')"
  shows "data resp = Some \<lparr>resp_id = str_oid n, resp_message = chat_message p,
      resp_sender = chat_sender p, resp_timestamp = chat_timestamp p\<rparr>
    \<and> c' = c @ [(n, ChatCreate_dict p)]"
  using assms
  by (cases "n \<in> fst ` set c")
    (auto simp: create_chat_def insert_one_def ChatResponse_id_payload)

lemma get_chats_ids:
  assumes "get_chats c = Inr rs" and "r \<in> set rs"
  shows "\<exists>doc \<in> set c. resp_id r = str_oid (fst doc)"
proof -
  from assms(1) have "collect chat_response c = Inr rs"
    by (simp add: get_chats_def)
  from collect_Inr_from [OF this assms(2)] show ?thesis
    by (auto dest: chat_response_id)
qed

lemma search_chats_ids:
  assumes "search_chats pcre c q0 q1 q2 = Inr rs" and "r \<in> set rs"
  shows "\<exists>doc \<in> set c. resp_id r = str_oid (fst doc)"
proof -
  from assms(1) obtain q where "run_search pcre c chat_response q = Inr rs"
    by (auto simp: search_chats_def)
  from run_search_from [OF this assms(2)] show ?thesis
    by (auto dest: chat_response_id)
qed

lemma create_document_returns:
  assumes "create_document c n p = (Inr resp, c')"
  shows "data resp = Some \<lparr>doc_title = doc_title p,
      doc_description = doc_description p, doc_uploaded_by = doc_uploaded_by p,
      doc_id = str_oid n\<rparr>
    \<and> c' = c @ [(n, DocumentBase_dict p)]"
proof (cases "find_one c [(''title'', VStr (doc_title p))]")
  case (Some doc)
  with assms show ?thesis
    by (simp add: create_document_def)
next
  case None
  with assms show ?thesis
    by (cases "n \<in> fst ` set c")
      (auto simp: create_document_def insert_one_def Document_init_payload)
qed

lemma get_documents_ids:
  assumes "get_documents c = Inr rs" and "r \<in> set rs"
  shows "\<exists>doc \<in> set c. doc_id r = str_oid (fst doc)"
proof -
  from assms(1) have "collect document_record c = Inr rs"
    by (simp add: get_documents_def)
  from collect_Inr_from [OF this assms(2)] show ?thesis
    by (auto dest: document_record_id)
qed

lemma search_documents_ids:
  assumes "search_documents pcre c q0 q1 q2 = Inr rs" and "r \<in> set rs"
  shows "\<exists>doc \<in> set c. doc_id r = str_oid (fst doc)"
proof -
  from assms(1) obtain q where "run_search pcre c document_record q = Inr rs"
    by (auto simp: search_documents_def)
  from run_search_from [OF this assms(2)] show ?thesis
    by (auto dest: document_record_id)
qed

lemma create_expense_returns:
  assumes "create_expense fl c n p = (Inr resp, c')"
  shows "data resp = Some \<lparr>exp_title = exp_title p, exp_amount = exp_amount p,
      exp_category = exp_category p, exp_incurred_by = exp_incurred_by p,
      exp_date = exp_date p, exp_id = str_oid n\<rparr>
    \<and> c' = c @ [(n, ExpenseBase_dict p)]"
  using assms
  by (cases "n \<in> fst ` set c")
    (auto simp: create_expense_def insert_one_def Expense_init_payload)

lemma get_expenses_ids:
  assumes "get_expenses fl c = Inr rs" and "r \<in> set rs"
  shows "\<exists>doc \<in> set c. exp_id r = str_oid (fst doc)"
proof -
  from assms(1) have "collect (expense_record fl) c = Inr rs"
    by (simp add: get_expenses_def)
  from collect_Inr_from [OF this assms(2)] show ?thesis
    by (auto dest: expense_record_id)
qed

lemma search_expenses_ids:
  assumes "search_expenses fl pcre c q0 q1 q2 q3 = Inr rs" and "r \<in> set rs"
  shows "\<exists>doc \<in> set c. exp_id r = str_oid (fst doc)"
proof -
  from assms(1) obtain q where "run_search pcre c (expense_record fl) q = Inr rs"
    by (auto simp: search_expenses_def)
  from run_search_from [OF this assms(2)] show ?thesis
    by (auto dest: expense_record_id)
qed

lemma create_meeting_returns:
  assumes "create_meeting c n p = (Inr resp, c')"
  shows "data resp = Some \<lparr>mtg_title = mtg_title p,
      mtg_description = mtg_description p, mtg_organizer = mtg_organizer p,
      mtg_date = mtg_date p, mtg_start_time = mtg_start_time p,
      mtg_end_time = mtg_end_time p, mtg_attendees = mtg_attendees p,
      mtg_id = str_oid n\<rparr>
    \<and> c' = c @ [(n, MeetingBase_dict p)]"
proof (cases "find_one c [(''title'', VStr (mtg_title p)), (''date'', VStr (mtg_date p))]")
  case (Some doc)
  with assms show ?thesis
    by (simp add: create_meeting_def)
next
  case None
  with assms show ?thesis
    by (cases "n \<in> fst ` set c")
      (auto simp: create_meeting_def insert_one_def Meeting_init_payload)
qed

lemma get_meetings_ids:
  assumes "get_meetings c = Inr rs" and "r \<in> set rs"
  shows "\<exists>doc \<in> set c. mtg_id r = str_oid (fst doc)"
proof -
  from assms(1) have "collect meeting_record c = Inr rs"
    by (simp add: get_meetings_def)
  from collect_Inr_from [OF this assms(2)] show ?thesis
    by (auto dest: meeting_record_id)
qed

lemma search_meetings_ids:
  assumes "search_meetings pcre c q0 q1 q2 q3 = Inr rs" and "r \<in> set rs"
  shows "\<exists>doc \<in> set c. mtg_id r = str_oid (fst doc)"
proof -
  from assms(1) obtain q where "run_search pcre c meeting_record q = Inr rs"
    by (auto simp: search_meetings_def)
  from run_search_from [OF this assms(2)] show ?thesis
    by (auto dest: meeting_record_id)
qed

lemma create_project_returns:
  assumes "create_project c n p = (Inr resp, c')"
  shows "data resp = Some \<lparr>prj_name = prj_name p,
      prj_description = prj_description p, prj_start_date = prj_start_date p,
      prj_end_date = prj_end_date p, prj_status = prj_status p,
      prj_members = prj_members p, prj_id = str_oid n\<rparr>
    \<and> c' = c @ [(n, ProjectBase_dict p)]"
proof (cases "find_one c [(''name'', VStr (prj_name p))]")
  case (Some doc)
  with assms show ?thesis
    by (simp add: create_project_def)
next
  case None
  with assms show ?thesis
    by (cases "n \<in> fst ` set c")
      (auto simp: create_project_def insert_one_def Project_init_payload)
qed

lemma get_projects_ids:
  assumes "get_projects c = Inr rs" and "r \<in> set rs"
  shows "\<exists>doc \<in> set c. prj_id r = str_oid (fst doc)"
proof -
  from assms(1) have "collect project_record c = Inr rs"
    by (simp add: get_projects_def)
  from collect_Inr_from [OF this assms(2)] show ?thesis
    by (auto dest: project_record_id)
qed

lemma search_projects_ids:
  assumes "search_projects pcre c q0 q1 q2 = Inr rs" and "r \<in> set rs"
  shows "\<exists>doc \<in> set c. prj_id r = str_oid (fst doc)"
proof -
  from assms(1) obtain q where "run_search pcre c project_record q = Inr rs"
    by (auto simp: search_projects_def)
  from run_search_from [OF this assms(2)] show ?thesis
    by (auto dest: project_record_id)
qed

subsection \<open>What update leaves in the collection\<close>

lemma update_chat_replaces:
  assumes "update_chat c ident p = (Inr resp, c')"
  shows "(\<exists>i k. ObjectId ident = Inr i \<and> k < length c \<and> fst (c ! k) = i
           \<and> (\<forall>j < k. fst (c ! j) \<noteq> i)
           \<and> length c' = length c \<and> fst (c' ! k) = i
           \<and> snd (c' ! k) ''message'' = Some (VStr (chat_message p))
           \<and> snd (c' ! k) ''sender'' = Some (VStr (chat_sender p))
           \<and> snd (c' ! k) ''timestamp'' = Some (VStr (chat_timestamp p))
           \<and> (\<forall>f. ChatCreate_dict p f = None
                \<longrightarrow> snd (c' ! k) f = snd (c ! k) f)
           \<and> (\<forall>j < length c. j \<noteq> k \<longrightarrow> c' ! j = c ! j)
           \<and> data resp = Some \<lparr>resp_id = ident, resp_message = chat_message p,
               resp_sender = chat_sender p, resp_timestamp = chat_timestamp p\<rparr>)"
proof -
  from update_chat_success [OF assms]
  obtain i k where ik: "ObjectId ident = Inr i" "k < length c" "fst (c ! k) = i"
    "\<forall>j < k. fst (c ! j) \<noteq> i" "c' = c[k := (i,
        snd (c ! k) ++ ChatCreate_dict p)]"
    "data resp = Some \<lparr>resp_id = ident, resp_message = chat_message p,
        resp_sender = chat_sender p, resp_timestamp = chat_timestamp p\<rparr>"
    by blast
  from ik(2,5) have new: "c' ! k = (i,
      snd (c ! k) ++ ChatCreate_dict p)" "length c' = length c"
    and others: "\<forall>j < length c. j \<noteq> k \<longrightarrow> c' ! j = c ! j"
    by simp_all
  have kept: "\<forall>f. ChatCreate_dict p f = None
      \<longrightarrow> snd (c' ! k) f = snd (c ! k) f"
    by (simp add: new map_add_def)
  have fields: "snd (c' ! k) ''message'' = Some (VStr (chat_message p))
      \<and> snd (c' ! k) ''sender'' = Some (VStr (chat_sender p))
      \<and> snd (c' ! k) ''timestamp'' = Some (VStr (chat_timestamp p))"
    by (simp add: new ChatCreate_dict_def)
  have same_id: "fst (c' ! k) = i"
    by (simp add: new(1))
  show ?thesis
    by (rule exI [of _ i], rule exI [of _ k])
      (simp add: ik(1-4,6) new(2) same_id fields kept others)
qed

lemma update_chat_succeeds_iff:
  "(\<exists>resp c'. update_chat c ident p = (Inr resp, c'))
     \<longleftrightarrow> (\<exists>i. ObjectId ident = Inr i \<and> i \<in> fst ` set c)"
proof
  assume "\<exists>resp c'. update_chat c ident p = (Inr resp, c')"
  then obtain resp c' where "update_chat c ident p = (Inr resp, c')"
    by blast
  from update_chat_success [OF this] obtain i k where "ObjectId ident = Inr i"
    "k < length c" "fst (c ! k) = i"
    by blast
  then have "ObjectId ident = Inr i \<and> i \<in> fst ` set c"
    using nth_mem [of k c] by force
  then show "\<exists>i. ObjectId ident = Inr i \<and> i \<in> fst ` set c" ..
next
  assume "\<exists>i. ObjectId ident = Inr i \<and> i \<in> fst ` set c"
  then obtain i where i: "ObjectId ident = Inr i" "i \<in> fst ` set c"
    by blast
  from update_one_matched [OF i(2), of "ChatCreate_dict p"]
  obtain c' where "update_one c i (ChatCreate_dict p) = (1, c')"
    by blast
  from update_chat_found [OF i(1) this]
  show "\<exists>resp c'. update_chat c ident p = (Inr resp, c')"
    by blast
qed

lemma update_document_replaces:
  assumes "update_document c ident p = (Inr resp, c')"
  shows "(\<exists>i k. ObjectId ident = Inr i \<and> k < length c \<and> fst (c ! k) = i
           \<and> (\<forall>j < k. fst (c ! j) \<noteq> i)
           \<and> length c' = length c \<and> fst (c' ! k) = i
           \<and> snd (c' ! k) ''title'' = Some (VStr (doc_title p))
           \<and> snd (c' ! k) ''description'' = Some (VStr (doc_description p))
           \<and> snd (c' ! k) ''uploaded_by'' = Some (VStr (doc_uploaded_by p))
           \<and> (\<forall>f. DocumentBase_dict p f = None
                \<longrightarrow> snd (c' ! k) f = snd (c ! k) f)
           \<and> (\<forall>j < length c. j \<noteq> k \<longrightarrow> c' ! j = c ! j)
           \<and> data resp = Some \<lparr>doc_title = doc_title p,
               doc_description = doc_description p, doc_uploaded_by = doc_uploaded_by p,
               doc_id = ident\<rparr>)"
proof -
  from update_document_success [OF assms]
  obtain i k where ik: "ObjectId ident = Inr i" "k < length c" "fst (c ! k) = i"
    "\<forall>j < k. fst (c ! j) \<noteq> i" "c' = c[k := (i,
        snd (c ! k) ++ DocumentBase_dict p)]"
    "data resp = Some \<lparr>doc_title = doc_title p, doc_description = doc_description p,
        doc_uploaded_by = doc_uploaded_by p, doc_id = ident\<rparr>"
    by blast
  from ik(2,5) have new: "c' ! k = (i,
      snd (c ! k) ++ DocumentBase_dict p)" "length c' = length c"
    and others: "\<forall>j < length c. j \<noteq> k \<longrightarrow> c' ! j = c ! j"
    by simp_all
  have kept: "\<forall>f. DocumentBase_dict p f = None
      \<longrightarrow> snd (c' ! k) f = snd (c ! k) f"
    by (simp add: new map_add_def)
  have fields: "snd (c' ! k) ''title'' = Some (VStr (doc_title p))
      \<and> snd (c' ! k) ''description'' = Some (VStr (doc_description p))
      \<and> snd (c' ! k) ''uploaded_by'' = Some (VStr (doc_uploaded_by p))"
    by (simp add: new DocumentBase_dict_def)
  have same_id: "fst (c' ! k) = i"
    by (simp add: new(1))
  show ?thesis
    by (rule exI [of _ i], rule exI [of _ k])
      (simp add: ik(1-4,6) new(2) same_id fields kept others)
qed

lemma update_document_succeeds_iff:
  "(\<exists>resp c'. update_document c ident p = (Inr resp, c'))
     \<longleftrightarrow> (\<exists>i. ObjectId ident = Inr i \<and> i \<in> fst ` set c)"
proof
  assume "\<exists>resp c'. update_document c ident p = (Inr resp, c')"
  then obtain resp c' where "update_document c ident p = (Inr resp, c')"
    by blast
  from update_document_success [OF this] obtain i k where "ObjectId ident = Inr i"
    "k < length c" "fst (c ! k) = i"
    by blast
  then have "ObjectId ident = Inr i \<and> i \<in> fst ` set c"
    using nth_mem [of k c] by force
  then show "\<exists>i. ObjectId ident = Inr i \<and> i \<in> fst ` set c" ..
next
  assume "\<exists>i. ObjectId ident = Inr i \<and> i \<in> fst ` set c"
  then obtain i where i: "ObjectId ident = Inr i" "i \<in> fst ` set c"
    by blast
  from update_one_matched [OF i(2), of "DocumentBase_dict p"]
  obtain c' where "update_one c i (DocumentBase_dict p) = (1, c')"
    by blast
  from update_document_found [OF i(1) this]
  show "\<exists>resp c'. update_document c ident p = (Inr resp, c')"
    by blast
qed

lemma update_expense_replaces:
  assumes "update_expense fl c ident p = (Inr resp, c')"
  shows "(\<exists>i k. ObjectId ident = Inr i \<and> k < length c \<and> fst (c ! k) = i
           \<and> (\<forall>j < k. fst (c ! j) \<noteq> i)
           \<and> length c' = length c \<and> fst (c' ! k) = i
           \<and> snd (c' ! k) ''title'' = Some (VStr (exp_title p))
           \<and> snd (c' ! k) ''amount'' = Some (VNum (exp_amount p))
           \<and> snd (c' ! k) ''category'' = Some (VStr (exp_category p))
           \<and> snd (c' ! k) ''incurred_by'' = Some (VStr (exp_incurred_by p))
           \<and> snd (c' ! k) ''date'' = Some (VStr (exp_date p))
           \<and> (\<forall>f. ExpenseBase_dict p f = None
                \<longrightarrow> snd (c' ! k) f = snd (c ! k) f)
           \<and> (\<forall>j < length c. j \<noteq> k \<longrightarrow> c' ! j = c ! j)
           \<and> data resp = Some \<lparr>exp_title = exp_title p,
               exp_amount = exp_amount p, exp_category = exp_category p,
               exp_incurred_by = exp_incurred_by p, exp_date = exp_date p,
               exp_id = ident\<rparr>)"
proof -
  from update_expense_success [OF assms]
  obtain i k where ik: "ObjectId ident = Inr i" "k < length c" "fst (c ! k) = i"
    "\<forall>j < k. fst (c ! j) \<noteq> i" "c' = c[k := (i,
        snd (c ! k) ++ ExpenseBase_dict p)]"
    "data resp = Some \<lparr>exp_title = exp_title p, exp_amount = exp_amount p,
        exp_category = exp_category p, exp_incurred_by = exp_incurred_by p,
        exp_date = exp_date p, exp_id = ident\<rparr>"
    by blast
  from ik(2,5) have new: "c' ! k = (i,
      snd (c ! k) ++ ExpenseBase_dict p)" "length c' = length c"
    and others: "\<forall>j < length c. j \<noteq> k \<longrightarrow> c' ! j = c ! j"
    by simp_all
  have kept: "\<forall>f. ExpenseBase_dict p f = None
      \<longrightarrow> snd (c' ! k) f = snd (c ! k) f"
    by (simp add: new map_add_def)
  have fields: "snd (c' ! k) ''title'' = Some (VStr (exp_title p))
      \<and> snd (c' ! k) ''amount'' = Some (VNum (exp_amount p))
      \<and> snd (c' ! k) ''category'' = Some (VStr (exp_category p))
      \<and> snd (c' ! k) ''incurred_by'' = Some (VStr (exp_incurred_by p))
      \<and> snd (c' ! k) ''date'' = Some (VStr (exp_date p))"
    by (simp add: new ExpenseBase_dict_def)
  have same_id: "fst (c' ! k) = i"
    by (simp add: new(1))
  show ?thesis
    by (rule exI [of _ i], rule exI [of _ k])
      (simp add: ik(1-4,6) new(2) same_id fields kept others)
qed

lemma update_expense_succeeds_iff:
  "(\<exists>resp c'. update_expense fl c ident p = (Inr resp, c'))
     \<longleftrightarrow> (\<exists>i. ObjectId ident = Inr i \<and> i \<in> fst ` set c)"
proof
  assume "\<exists>resp c'. update_expense fl c ident p = (Inr resp, c')"
  then obtain resp c' where "update_expense fl c ident p = (Inr resp, c')"
    by blast
  from update_expense_success [OF this] obtain i k where "ObjectId ident = Inr i"
    "k < length c" "fst (c ! k) = i"
    by blast
  then have "ObjectId ident = Inr i \<and> i \<in> fst ` set c"
    using nth_mem [of k c] by force
  then show "\<exists>i. ObjectId ident = Inr i \<and> i \<in> fst ` set c" ..
next
  assume "\<exists>i. ObjectId ident = Inr i \<and> i \<in> fst ` set c"
  then obtain i where i: "ObjectId ident = Inr i" "i \<in> fst ` set c"
    by blast
  from update_one_matched [OF i(2), of "ExpenseBase_dict p"]
  obtain c' where "update_one c i (ExpenseBase_dict p) = (1, c')"
    by blast
  from update_expense_found [OF i(1) this]
  show "\<exists>resp c'. update_expense fl c ident p = (Inr resp, c')"
    by blast
qed

lemma update_meeting_replaces:
  assumes "update_meeting c ident p = (Inr resp, c')"
  shows "(\<exists>i k. ObjectId ident = Inr i \<and> k < length c \<and> fst (c ! k) = i
           \<and> (\<forall>j < k. fst (c ! j) \<noteq> i)
           \<and> length c' = length c \<and> fst (c' ! k) = i
           \<and> snd (c' ! k) ''title'' = Some (VStr (mtg_title p))
           \<and> snd (c' ! k) ''description'' = Some (VStr (mtg_description p))
           \<and> snd (c' ! k) ''organizer'' = Some (VStr (mtg_organizer p))
           \<and> snd (c' ! k) ''date'' = Some (VStr (mtg_date p))
           \<and> snd (c' ! k) ''start_time'' = Some (VStr (mtg_start_time p))
           \<and> snd (c' ! k) ''end_time'' = Some (VStr (mtg_end_time p))
           \<and> snd (c' ! k) ''attendees'' = Some (VList (mtg_attendees p))
           \<and> (\<forall>f. MeetingBase_dict p f = None
                \<longrightarrow> snd (c' ! k) f = snd (c ! k) f)
           \<and> (\<forall>j < length c. j \<noteq> k \<longrightarrow> c' ! j = c ! j)
           \<and> data resp = Some \<lparr>mtg_title = mtg_title p,
               mtg_description = mtg_description p, mtg_organizer = mtg_organizer p,
               mtg_date = mtg_date p, mtg_start_time = mtg_start_time p,
               mtg_end_time = mtg_end_time p, mtg_attendees = mtg_attendees p,
               mtg_id = ident\<rparr>)"
proof -
  from update_meeting_success [OF assms]
  obtain i k where ik: "ObjectId ident = Inr i" "k < length c" "fst (c ! k) = i"
    "\<forall>j < k. fst (c ! j) \<noteq> i" "c' = c[k := (i,
        snd (c ! k) ++ MeetingBase_dict p)]"
    "data resp = Some \<lparr>mtg_title = mtg_title p, mtg_description = mtg_description p,
        mtg_organizer = mtg_organizer p, mtg_date = mtg_date p,
        mtg_start_time = mtg_start_time p, mtg_end_time = mtg_end_time p,
        mtg_attendees = mtg_attendees p, mtg_id = ident\<rparr>"
    by blast
  from ik(2,5) have new: "c' ! k = (i,
      snd (c ! k) ++ MeetingBase_dict p)" "length c' = length c"
    and others: "\<forall>j < length c. j \<noteq> k \<longrightarrow> c' ! j = c ! j"
    by simp_all
  have kept: "\<forall>f. MeetingBase_dict p f = None
      \<longrightarrow> snd (c' ! k) f = snd (c ! k) f"
    by (simp add: new map_add_def)
  have fields: "snd (c' ! k) ''title'' = Some (VStr (mtg_title p))
      \<and> snd (c' ! k) ''description'' = Some (VStr (mtg_description p))
      \<and> snd (c' ! k) ''organizer'' = Some (VStr (mtg_organizer p))
      \<and> snd (c' ! k) ''date'' = Some (VStr (mtg_date p))
      \<and> snd (c' ! k) ''start_time'' = Some (VStr (mtg_start_time p))
      \<and> snd (c' ! k) ''end_time'' = Some (VStr (mtg_end_time p))
      \<and> snd (c' ! k) ''attendees'' = Some (VList (mtg_attendees p))"
    by (simp add: new MeetingBase_dict_def)
  have same_id: "fst (c' ! k) = i"
    by (simp add: new(1))
  show ?thesis
    by (rule exI [of _ i], rule exI [of _ k])
      (simp add: ik(1-4,6) new(2) same_id fields kept others)
qed

lemma update_meeting_succeeds_iff:
  "(\<exists>resp c'. update_meeting c ident p = (Inr resp, c'))
     \<longleftrightarrow> (\<exists>i. ObjectId ident = Inr i \<and> i \<in> fst ` set c)"
proof
  assume "\<exists>resp c'. update_meeting c ident p = (Inr resp, c')"
  then obtain resp c' where "update_meeting c ident p = (Inr resp, c')"
    by blast
  from update_meeting_success [OF this] obtain i k where "ObjectId ident = Inr i"
    "k < length c" "fst (c ! k) = i"
    by blast
  then have "ObjectId ident = Inr i \<and> i \<in> fst ` set c"
    using nth_mem [of k c] by force
  then show "\<exists>i. ObjectId ident = Inr i \<and> i \<in> fst ` set c" ..
next
  assume "\<exists>i. ObjectId ident = Inr i \<and> i \<in> fst ` set c"
  then obtain i where i: "ObjectId ident = Inr i" "i \<in> fst ` set c"
    by blast
  from update_one_matched [OF i(2), of "MeetingBase_dict p"]
  obtain c' where "update_one c i (MeetingBase_dict p) = (1, c')"
    by blast
  from update_meeting_found [OF i(1) this]
  show "\<exists>resp c'. update_meeting c ident p = (Inr resp, c')"
    by blast
qed

lemma update_project_replaces:
  assumes "update_project c ident p = (Inr resp, c')"
  shows "(\<exists>i k. ObjectId ident = Inr i \<and> k < length c \<and> fst (c ! k) = i
           \<and> (\<forall>j < k. fst (c ! j) \<noteq> i)
           \<and> length c' = length c \<and> fst (c' ! k) = i
           \<and> snd (c' ! k) ''name'' = Some (VStr (prj_name p))
           \<and> snd (c' ! k) ''description'' = Some (VStr (prj_description p))
           \<and> snd (c' ! k) ''start_date'' = Some (VStr (prj_start_date p))
           \<and> snd (c' ! k) ''end_date'' = Some ((case prj_end_date p of None
               \<Rightarrow> VNone | Some s \<Rightarrow> VStr s))
           \<and> snd (c' ! k) ''status'' = Some (VStr (prj_status p))
           \<and> snd (c' ! k) ''members'' = Some (VList (prj_members p))
           \<and> (\<forall>f. ProjectBase_dict p f = None
                \<longrightarrow> snd (c' ! k) f = snd (c ! k) f)
           \<and> (\<forall>j < length c. j \<noteq> k \<longrightarrow> c' ! j = c ! j)
           \<and> data resp = Some \<lparr>prj_name = prj_name p,
               prj_description = prj_description p, prj_start_date = prj_start_date p,
               prj_end_date = prj_end_date p, prj_status = prj_status p,
               prj_members = prj_members p, prj_id = ident\<rparr>)"
proof -
  from update_project_success [OF assms]
  obtain i k where ik: "ObjectId ident = Inr i" "k < length c" "fst (c ! k) = i"
    "\<forall>j < k. fst (c ! j) \<noteq> i" "c' = c[k := (i,
        snd (c ! k) ++ ProjectBase_dict p)]"
    "data resp = Some \<lparr>prj_name = prj_name p, prj_description = prj_description p,
        prj_start_date = prj_start_date p, prj_end_date = prj_end_date p,
        prj_status = prj_status p, prj_members = prj_members p, prj_id = ident\<rparr>"
    by blast
  from ik(2,5) have new: "c' ! k = (i,
      snd (c ! k) ++ ProjectBase_dict p)" "length c' = length c"
    and others: "\<forall>j < length c. j \<noteq> k \<longrightarrow> c' ! j = c ! j"
    by simp_all
  have kept: "\<forall>f. ProjectBase_dict p f = None
      \<longrightarrow> snd (c' ! k) f = snd (c ! k) f"
    by (simp add: new map_add_def)
  have fields: "snd (c' ! k) ''name'' = Some (VStr (prj_name p))
      \<and> snd (c' ! k) ''description'' = Some (VStr (prj_description p))
      \<and> snd (c' ! k) ''start_date'' = Some (VStr (prj_start_date p))
      \<and> snd (c' ! k) ''end_date'' = Some ((case prj_end_date p of None \<Rightarrow>
          VNone | Some s \<Rightarrow> VStr s))
      \<and> snd (c' ! k) ''status'' = Some (VStr (prj_status p))
      \<and> snd (c' ! k) ''members'' = Some (VList (prj_members p))"
    by (simp add: new ProjectBase_dict_def)
  have same_id: "fst (c' ! k) = i"
    by (simp add: new(1))
  show ?thesis
    by (rule exI [of _ i], rule exI [of _ k])
      (simp add: ik(1-4,6) new(2) same_id fields kept others)
qed

lemma update_project_succeeds_iff:
  "(\<exists>resp c'. update_project c ident p = (Inr resp, c'))
     \<longleftrightarrow> (\<exists>i. ObjectId ident = Inr i \<and> i \<in> fst ` set c)"
proof
  assume "\<exists>resp c'. update_project c ident p = (Inr resp, c')"
  then obtain resp c' where "update_project c ident p = (Inr resp, c')"
    by blast
  from update_project_success [OF this] obtain i k where "ObjectId ident = Inr i"
    "k < length c" "fst (c ! k) = i"
    by blast
  then have "ObjectId ident = Inr i \<and> i \<in> fst ` set c"
    using nth_mem [of k c] by force
  then show "\<exists>i. ObjectId ident = Inr i \<and> i \<in> fst ` set c" ..
next
  assume "\<exists>i. ObjectId ident = Inr i \<and> i \<in> fst ` set c"
  then obtain i where i: "ObjectId ident = Inr i" "i \<in> fst ` set c"
    by blast
  from update_one_matched [OF i(2), of "ProjectBase_dict p"]
  obtain c' where "update_one c i (ProjectBase_dict p) = (1, c')"
    by blast
  from update_project_found [OF i(1) this]
  show "\<exists>resp c'. update_project c ident p = (Inr resp, c')"
    by blast
qed

subsection \<open>Keys that differ in letter case\<close>

lemma create_document_400_iff:
  "fst (create_document c n p) = Inl (HTTPException 400 (Detail
      ''Document with this title already exists''))
     \<longleftrightarrow> (\<exists>d \<in> set c. snd d ''title'' = Some (VStr (doc_title
         p)))"
proof (cases "find_one c [(''title'', VStr (doc_title p))]")
  case None
  then have "\<not> (\<exists>d \<in> set c. snd d ''title'' = Some (VStr (doc_title p)))"
    unfolding find_one_document_key .
  moreover from None have "fst (create_document c n p) \<noteq> Inl (HTTPException 400
      (Detail ''Document with this title already exists''))"
    by (cases "n \<in> fst ` set c")
      (simp_all add: create_document_def insert_one_def Document_init_payload)
  ultimately show ?thesis
    by simp
next
  case (Some doc)
  then have "\<exists>d \<in> set c. snd d ''title'' = Some (VStr (doc_title p))"
    using find_one_document_key [of c p] by simp
  moreover from Some have "fst (create_document c n p) = Inl (HTTPException 400 (Detail
      ''Document with this title already exists''))"
    by (simp add: create_document_def)
  ultimately show ?thesis
    by simp
qed

lemma search_documents_case_variant:
  assumes held: "(n1, q1) \<in> set ps"
    and low: "map lower (doc_title q1) = map lower (doc_title p)"
    and pl: "plain (doc_title q1)" "plain (doc_title p)" and ne: "doc_title p \<noteq> []"
    and which: "t = doc_title q1 \<or> t = doc_title p"
  shows "\<exists>rs. search_documents pcre (stored DocumentBase_dict (ps @ [(n,
      p)])) None (Some t) None = Inr rs
       \<and> Document_of (n1, q1) \<in> set rs \<and> Document_of (n, p) \<in> set rs"
proof -
  let ?sel = "filter (\<lambda>s. icontains t (doc_title (snd s))) (ps @ [(n, p)])"
  from low have "length (doc_title q1) = length (doc_title p)"
    using length_map [of lower "doc_title q1"] length_map [of lower "doc_title p"] by simp
  with ne have "doc_title q1 \<noteq> []"
    by auto
  with pl ne which have t: "plain t" "t \<noteq> []"
    by auto
  from low which have ic: "icontains t (doc_title q1)" "icontains t (doc_title p)"
    by (auto simp: icontains_same_lower)
  from held ic have mem: "(n1, q1) \<in> set ?sel" "(n, p) \<in> set ?sel"
    by simp_all
  have "search_documents pcre (stored DocumentBase_dict (ps @ [(n,
      p)])) None (Some t) None = Inr (map Document_of ?sel)"
    by (rule search_documents_title_written [OF t])
  moreover from mem have "Document_of (n1, q1) \<in> set (map Document_of ?sel)"
    "Document_of (n, p) \<in> set (map Document_of ?sel)"
    by (simp_all only: set_map image_eqI [OF refl])
  ultimately show ?thesis
    by blast
qed

lemma create_meeting_400_iff:
  "fst (create_meeting c n p) = Inl (HTTPException 400 (Detail
      ''Meeting with this title on the same date already exists''))
     \<longleftrightarrow> (\<exists>d \<in> set c. snd d ''title'' = Some (VStr (mtg_title
         p)) \<and> snd d ''date'' = Some (VStr (mtg_date p)))"
proof (cases "find_one c [(''title'', VStr (mtg_title p)), (''date'', VStr (mtg_date p))]")
  case None
  then have "\<not> (\<exists>d \<in> set c. snd d ''title'' = Some (VStr (mtg_title p))
      \<and> snd d ''date'' = Some (VStr (mtg_date p)))"
    unfolding find_one_meeting_key .
  moreover from None have "fst (create_meeting c n p) \<noteq> Inl (HTTPException 400
      (Detail ''Meeting with this title on the same date already exists''))"
    by (cases "n \<in> fst ` set c")
      (simp_all add: create_meeting_def insert_one_def Meeting_init_payload)
  ultimately show ?thesis
    by simp
next
  case (Some doc)
  then have "\<exists>d \<in> set c. snd d ''title'' = Some (VStr (mtg_title p))
      \<and> snd d ''date'' = Some (VStr (mtg_date p))"
    using find_one_meeting_key [of c p] by simp
  moreover from Some have "fst (create_meeting c n p) = Inl (HTTPException 400 (Detail
      ''Meeting with this title on the same date already exists''))"
    by (simp add: create_meeting_def)
  ultimately show ?thesis
    by simp
qed

lemma search_meetings_case_variant:
  assumes held: "(n1, q1) \<in> set ps"
    and low: "map lower (mtg_title q1) = map lower (mtg_title p)"
    and pl: "plain (mtg_title q1)" "plain (mtg_title p)" and ne: "mtg_title p \<noteq> []"
    and which: "t = mtg_title q1 \<or> t = mtg_title p"
  shows "\<exists>rs. search_meetings pcre (stored MeetingBase_dict (ps @ [(n,
      p)])) None (Some t) None None = Inr rs
       \<and> Meeting_of (n1, q1) \<in> set rs \<and> Meeting_of (n, p) \<in> set rs"
proof -
  let ?sel = "filter (\<lambda>s. icontains t (mtg_title (snd s))) (ps @ [(n, p)])"
  from low have "length (mtg_title q1) = length (mtg_title p)"
    using length_map [of lower "mtg_title q1"] length_map [of lower "mtg_title p"] by simp
  with ne have "mtg_title q1 \<noteq> []"
    by auto
  with pl ne which have t: "plain t" "t \<noteq> []"
    by auto
  from low which have ic: "icontains t (mtg_title q1)" "icontains t (mtg_title p)"
    by (auto simp: icontains_same_lower)
  from held ic have mem: "(n1, q1) \<in> set ?sel" "(n, p) \<in> set ?sel"
    by simp_all
  have "search_meetings pcre (stored MeetingBase_dict (ps @ [(n,
      p)])) None (Some t) None None = Inr (map Meeting_of ?sel)"
    by (rule search_meetings_title_written [OF t])
  moreover from mem have "Meeting_of (n1, q1) \<in> set (map Meeting_of ?sel)"
    "Meeting_of (n, p) \<in> set (map Meeting_of ?sel)"
    by (simp_all only: set_map image_eqI [OF refl])
  ultimately show ?thesis
    by blast
qed

lemma create_project_400_iff:
  "fst (create_project c n p) = Inl (HTTPException 400 (Detail
      ''Project with this name already exists''))
     \<longleftrightarrow> (\<exists>d \<in> set c. snd d ''name'' = Some (VStr (prj_name
         p)))"
proof (cases "find_one c [(''name'', VStr (prj_name p))]")
  case None
  then have "\<not> (\<exists>d \<in> set c. snd d ''name'' = Some (VStr (prj_name p)))"
    unfolding find_one_project_key .
  moreover from None have "fst (create_project c n p) \<noteq> Inl (HTTPException 400
      (Detail ''Project with this name already exists''))"
    by (cases "n \<in> fst ` set c")
      (simp_all add: create_project_def insert_one_def Project_init_payload)
  ultimately show ?thesis
    by simp
next
  case (Some doc)
  then have "\<exists>d \<in> set c. snd d ''name'' = Some (VStr (prj_name p))"
    using find_one_project_key [of c p] by simp
  moreover from Some have "fst (create_project c n p) = Inl (HTTPException 400 (Detail
      ''Project with this name already exists''))"
    by (simp add: create_project_def)
  ultimately show ?thesis
    by simp
qed

lemma search_projects_case_variant:
  assumes held: "(n1, q1) \<in> set ps"
    and low: "map lower (prj_name q1) = map lower (prj_name p)"
    and pl: "plain (prj_name q1)" "plain (prj_name p)" and ne: "prj_name p \<noteq> []"
    and which: "t = prj_name q1 \<or> t = prj_name p"
  shows "\<exists>rs. search_projects pcre (stored ProjectBase_dict (ps @ [(n,
      p)])) None (Some t) None = Inr rs
       \<and> Project_of (n1, q1) \<in> set rs \<and> Project_of (n, p) \<in> set rs"
proof -
  let ?sel = "filter (\<lambda>s. icontains t (prj_name (snd s))) (ps @ [(n, p)])"
  from low have "length (prj_name q1) = length (prj_name p)"
    using length_map [of lower "prj_name q1"] length_map [of lower "prj_name p"] by simp
  with ne have "prj_name q1 \<noteq> []"
    by auto
  with pl ne which have t: "plain t" "t \<noteq> []"
    by auto
  from low which have ic: "icontains t (prj_name q1)" "icontains t (prj_name p)"
    by (auto simp: icontains_same_lower)
  from held ic have mem: "(n1, q1) \<in> set ?sel" "(n, p) \<in> set ?sel"
    by simp_all
  have "search_projects pcre (stored ProjectBase_dict (ps @ [(n,
      p)])) None (Some t) None = Inr (map Project_of ?sel)"
    by (rule search_projects_name_written [OF t])
  moreover from mem have "Project_of (n1, q1) \<in> set (map Project_of ?sel)"
    "Project_of (n, p) \<in> set (map Project_of ?sel)"
    by (simp_all only: set_map image_eqI [OF refl])
  ultimately show ?thesis
    by blast
qed

lemma search_employees_case_variant:
  assumes held: "(n1, q1) \<in> set ps"
    and low: "map lower (emp_name q1) = map lower (emp_name p)"
    and pl: "plain (emp_name q1)" "plain (emp_name p)" and ne: "emp_name p \<noteq> []"
    and which: "t = emp_name q1 \<or> t = emp_name p"
  shows "\<exists>sel. search_employees fl pcre (stored EmployeeBase_dict (ps @ [(n, p)]))
           None (Some t) None None
         = except_Exception (collect (employee_record fl) (stored EmployeeBase_dict sel))
       \<and> sel = filter (\<lambda>s. icontains t (emp_name (snd s))) (ps @ [(n, p)])
       \<and> (n1, q1) \<in> set sel \<and> (n, p) \<in> set sel"
proof -
  let ?sel = "filter (\<lambda>s. icontains t (emp_name (snd s))) (ps @ [(n, p)])"
  from low have "length (emp_name q1) = length (emp_name p)"
    using length_map [of lower "emp_name q1"] length_map [of lower "emp_name p"] by simp
  with ne have "emp_name q1 \<noteq> []"
    by auto
  with pl ne which have t: "plain t" "t \<noteq> []"
    by auto
  from low which have ic: "icontains t (emp_name q1)" "icontains t (emp_name p)"
    by (auto simp: icontains_same_lower)
  from held ic have mem: "(n1, q1) \<in> set ?sel" "(n, p) \<in> set ?sel"
    by simp_all
  have "search_employees fl pcre (stored EmployeeBase_dict (ps @ [(n, p)]))
           None (Some t) None None
         = except_Exception (collect (employee_record fl) (stored EmployeeBase_dict ?sel))"
    by (rule search_employees_name_written [OF t])
  with mem show ?thesis
    by blast
qed

section \<open>The claims\<close>

subsection \<open>C1: update and delete of an identifier that matches no record\<close>

text \<open>
  Claim C1: for every resource, update or delete with a well-formed identifier that
  matches no stored record fails with NotFound, surfaced as HTTP 404, and leaves the
  store unchanged.

  Every update and delete handler raises \<^verbatim>\<open>HTTPException(status_code=404)\<close> inside
  its \<^verbatim>\<open>try\<close> block, and the \<^verbatim>\<open>except Exception\<close> clause of the same block
  catches it and raises status 500 in its place (lemmas \<open>update_chat_missing\<close>,
  \<open>delete_chat_missing\<close> and their siblings for the other five resources). The store
  is unchanged, the status is 500. The theorem evaluates \<^verbatim>\<open>update_employee\<close> and
  \<^verbatim>\<open>delete_chat\<close> on a collection whose only document has the identifier
  \<^verbatim>\<open>000000000000000000000001\<close>, with the identifier
  \<^verbatim>\<open>000000000000000000000002\<close>.
\<close>

theorem C1_missing_target_is_answered_500:
  "update_employee fl
     [(oid_1, EmployeeBase_dict
            \<lparr>emp_name = ''Asha'', emp_position = ''Engineer'', emp_salary = 95000\<rparr>)]
     ''000000000000000000000002''
     \<lparr>emp_name = ''Ravi'', emp_position = ''Analyst'', emp_salary = 70000\<rparr>
   = (Inl (HTTPException 500 (Str (HTTPException 404 (Detail ''Employee not found'')))),
      [(oid_1, EmployeeBase_dict
             \<lparr>emp_name = ''Asha'', emp_position = ''Engineer'', emp_salary = 95000\<rparr>)])
   \<and> delete_chat
     [(oid_1, ChatCreate_dict
            \<lparr>chat_message = ''hello'', chat_sender = ''Alice'', chat_timestamp = ''10:00''\<rparr>)]
     ''000000000000000000000002''
   = (Inl (HTTPException 500 (Str (HTTPException 404 (Detail ''Chat not found'')))),
      [(oid_1, ChatCreate_dict
             \<lparr>chat_message = ''hello'', chat_sender = ''Alice'', chat_timestamp = ''10:00''\<rparr>)])
   \<and> http_status 204
        (Inl (HTTPException 500 (Str (HTTPException 404 (Detail ''Chat not found'')))) :: exn + unit)
      = 500"
proof -
  have "oid_2 \<notin> fst ` set [(oid_1, d)]" for d :: dict
    by simp
  then show ?thesis
    by (simp add: update_employee_missing [OF ObjectId_2] delete_chat_missing [OF ObjectId_2]
        http_status_def)
qed

subsection \<open>C2: create with a key that already exists\<close>

text \<open>
  Claim C2: for every resource with a uniqueness rule (document title, employee name,
  meeting title and date, project name), create with a key that already exists fails
  with DuplicateKey mapped to HTTP 400 and inserts nothing.

  \<^verbatim>\<open>create_document\<close>, \<^verbatim>\<open>create_meeting\<close> and \<^verbatim>\<open>create_project\<close> check
  the key before their \<^verbatim>\<open>try\<close> block and answer 400 (lemmas
  \<open>create_document_duplicate\<close>, \<open>create_meeting_duplicate\<close>,
  \<open>create_project_duplicate\<close>). \<^verbatim>\<open>create_employee\<close> makes the same check inside
  its \<^verbatim>\<open>try\<close> block, so its 400 is caught and answered as 500 (lemma
  \<open>create_employee_duplicate\<close>). The theorem evaluates \<^verbatim>\<open>create_employee\<close> with
  the name of a stored employee.
\<close>

theorem C2_duplicate_employee_is_answered_500:
  "create_employee fl
     [(oid_1, EmployeeBase_dict
            \<lparr>emp_name = ''Asha'', emp_position = ''Engineer'', emp_salary = 95000\<rparr>)]
     oid_2
     \<lparr>emp_name = ''Asha'', emp_position = ''Manager'', emp_salary = 120000\<rparr>
   = (Inl (HTTPException 500
            (Str (HTTPException 400 (Detail ''Employee with this name already exists'')))),
      [(oid_1, EmployeeBase_dict
             \<lparr>emp_name = ''Asha'', emp_position = ''Engineer'', emp_salary = 95000\<rparr>)])
   \<and> http_status 201
        (Inl (HTTPException 500
               (Str (HTTPException 400 (Detail ''Employee with this name already exists''))))
          :: exn + Employee Response)
      = 500"
  by (simp add: create_employee_def find_one_def as_dict_def EmployeeBase_dict_def
      http_status_def)

subsection \<open>C3: the identifier of a returned record\<close>

text \<open>
  Claim C3: every record returned by create, list, search or update of any resource
  carries a non-empty string identifier; a successful create returns the payload's
  fields with the store-generated identifier.

  The chat, document, expense, meeting and project routers pass the identifier to the
  response model under the key \<^verbatim>\<open>id\<close>, and every record they return has the text
  of a stored \<^verbatim>\<open>_id\<close> as its identifier (two hexadecimal digits for each byte,
  twenty-four characters for an identifier of the driver), or for update the identifier
  as given, of twenty-four characters (lemmas \<open>create_document_returns\<close>,
  \<open>get_documents_ids\<close>, \<open>search_documents_ids\<close>, \<open>update_document_success\<close> and
  their siblings, with \<open>length_str_oid\<close> and \<open>ObjectId_Inr_length\<close>). The
  employee router leaves it under the key \<^verbatim>\<open>_id\<close>: \<^verbatim>\<open>Employee(**employee_dict)\<close>
  has no value for the required field \<^verbatim>\<open>id\<close>, pydantic raises, and the handler
  answers 500 after the insert has been done. The theorem evaluates
  \<^verbatim>\<open>create_employee\<close> on the empty collection, and \<^verbatim>\<open>get_employees\<close> on the
  collection it leaves.
\<close>

theorem C3_employee_create_returns_no_record:
  "create_employee fl [] oid_1
     \<lparr>emp_name = ''Asha'', emp_position = ''Engineer'', emp_salary = 95000\<rparr>
   = (Inl (HTTPException 500 (Str (ValidationError ''Employee''))),
      [(oid_1, EmployeeBase_dict
             \<lparr>emp_name = ''Asha'', emp_position = ''Engineer'', emp_salary = 95000\<rparr>)])
   \<and> get_employees fl
     [(oid_1, EmployeeBase_dict
            \<lparr>emp_name = ''Asha'', emp_position = ''Engineer'', emp_salary = 95000\<rparr>)]
   = Inl (HTTPException 500 (Str (ValidationError ''Employee'')))"
  by (simp add: create_employee_def find_one_def insert_one_def Employee_init_def get_str_def
      get_float_def EmployeeBase_dict_def get_employees_def employee_record_def as_dict_def)

subsection \<open>C4: an identifier that is not an ObjectId\<close>

text \<open>
  Claim C4: for every operation that takes an identifier (search with an id filter,
  update, delete), a string that cannot be parsed into an ObjectId fails cleanly with
  InvalidIdentifier, surfaced as HTTP 400, and never crashes the process.

  No handler maps the failure to 400: \<^verbatim>\<open>ObjectId(...)\<close> stands inside the \<^verbatim>\<open>try\<close>
  block, and its \<^verbatim>\<open>InvalidId\<close> is answered as 500 like every other exception. The
  counterexample is \<^verbatim>\<open>delete_document\<close> with the identifier \<^verbatim>\<open>not-an-id\<close>.
\<close>

theorem C4_invalid_identifier_is_not_400:
  "ObjectId ''not-an-id'' = Inl (InvalidId ''not-an-id'')
   \<and> delete_document [] ''not-an-id''
       = (Inl (HTTPException 500 (Str (InvalidId ''not-an-id''))), [])
   \<and> http_status 200 (fst (delete_document [] ''not-an-id'')) \<noteq> 400"
  by (simp add: delete_document_def delete_by_id_def ObjectId_def http_status_def)

text \<open>
  Claim C4 as amended: an identifier for which \<^verbatim>\<open>ObjectId\<close> raises \<^verbatim>\<open>InvalidId\<close> (a
  string that has not 24 characters, or one that \<^verbatim>\<open>bytes.fromhex\<close> rejects) makes
  every update and every delete handler, and every search handler that is given it as a
  non-empty \<^verbatim>\<open>id\<close> filter, answer HTTP 500 with the \<^verbatim>\<open>InvalidId\<close> exception as
  detail; the handler returns that response (it does not crash) and the store is
  unchanged. A search that is given the empty string as \<^verbatim>\<open>id\<close> filter answers as the
  same search without an \<^verbatim>\<open>id\<close> filter. (The chat search has no \<^verbatim>\<open>id\<close> filter. A
  string of 24 characters that \<^verbatim>\<open>bytes.fromhex\<close> accepts is an identifier for the
  handlers, also when it holds whitespace: lemma \<open>ObjectId_skips_whitespace\<close>.)
\<close>

theorem C4_invalid_identifier_is_answered_500:
  "(ObjectId ident = Inl e \<longrightarrow>
      update_chat c ident p_chat = (Inl (HTTPException 500 (Str (InvalidId ident))), c)
    \<and> update_document c ident p_doc = (Inl (HTTPException 500 (Str (InvalidId ident))), c)
    \<and> update_employee fl c ident p_emp = (Inl (HTTPException 500 (Str (InvalidId ident))), c)
    \<and> update_expense fl c ident p_exp = (Inl (HTTPException 500 (Str (InvalidId ident))), c)
    \<and> update_meeting c ident p_mtg = (Inl (HTTPException 500 (Str (InvalidId ident))), c)
    \<and> update_project c ident p_prj = (Inl (HTTPException 500 (Str (InvalidId ident))), c)
    \<and> delete_chat c ident = (Inl (HTTPException 500 (Str (InvalidId ident))), c)
    \<and> delete_document c ident = (Inl (HTTPException 500 (Str (InvalidId ident))), c)
    \<and> delete_employee c ident = (Inl (HTTPException 500 (Str (InvalidId ident))), c)
    \<and> delete_expense c ident = (Inl (HTTPException 500 (Str (InvalidId ident))), c)
    \<and> delete_meeting c ident = (Inl (HTTPException 500 (Str (InvalidId ident))), c)
    \<and> delete_project c ident = (Inl (HTTPException 500 (Str (InvalidId ident))), c)
    \<and> (ident \<noteq> [] \<longrightarrow>
         search_documents pcre c (Some ident) d1 d2
           = Inl (HTTPException 500 (Str (InvalidId ident)))
       \<and> search_employees fl pcre c (Some ident) e1 e2 e3
           = Inl (HTTPException 500 (Str (InvalidId ident)))
       \<and> search_expenses fl pcre c (Some ident) x1 x2 x3
           = Inl (HTTPException 500 (Str (InvalidId ident)))
       \<and> search_meetings pcre c (Some ident) m1 m2 m3
           = Inl (HTTPException 500 (Str (InvalidId ident)))
       \<and> search_projects pcre c (Some ident) j1 j2
           = Inl (HTTPException 500 (Str (InvalidId ident))))
    \<and> http_status declared (Inl (HTTPException 500 (Str (InvalidId ident))) :: exn + unit)
        = 500)
   \<and> search_documents pcre c (Some []) d1 d2 = search_documents pcre c None d1 d2
   \<and> search_employees fl pcre c (Some []) e1 e2 e3 = search_employees fl pcre c None e1 e2 e3
   \<and> search_expenses fl pcre c (Some []) x1 x2 x3 = search_expenses fl pcre c None x1 x2 x3
   \<and> search_meetings pcre c (Some []) m1 m2 m3 = search_meetings pcre c None m1 m2 m3
   \<and> search_projects pcre c (Some []) j1 j2 = search_projects pcre c None j1 j2"
  (is "(_ \<longrightarrow> ?invalid) \<and> ?empty")
proof (rule conjI)
  show "ObjectId ident = Inl e \<longrightarrow> ?invalid"
  proof
    assume a: "ObjectId ident = Inl e"
    note upd = update_chat_invalid [OF a] update_document_invalid [OF a]
      update_employee_invalid [OF a] update_expense_invalid [OF a]
      update_meeting_invalid [OF a] update_project_invalid [OF a]
    note del = delete_chat_invalid [OF a] delete_document_invalid [OF a]
      delete_employee_invalid [OF a] delete_expense_invalid [OF a]
      delete_meeting_invalid [OF a] delete_project_invalid [OF a]
    have srch: "ident \<noteq> [] \<longrightarrow>
         search_documents pcre c (Some ident) d1 d2
           = Inl (HTTPException 500 (Str (InvalidId ident)))
       \<and> search_employees fl pcre c (Some ident) e1 e2 e3
           = Inl (HTTPException 500 (Str (InvalidId ident)))
       \<and> search_expenses fl pcre c (Some ident) x1 x2 x3
           = Inl (HTTPException 500 (Str (InvalidId ident)))
       \<and> search_meetings pcre c (Some ident) m1 m2 m3
           = Inl (HTTPException 500 (Str (InvalidId ident)))
       \<and> search_projects pcre c (Some ident) j1 j2
           = Inl (HTTPException 500 (Str (InvalidId ident)))"
      using a
      by (simp add: search_documents_invalid search_employees_invalid search_expenses_invalid
          search_meetings_invalid search_projects_invalid)
    have st: "http_status declared
        (Inl (HTTPException 500 (Str (InvalidId ident))) :: exn + unit) = 500"
      by (simp add: http_status_def)
    from srch st show ?invalid
      unfolding upd del by simp
  qed
  show ?empty
    by (intro conjI)
      (rule search_documents_falsy(1) search_employees_falsy(1) search_expenses_falsy(1)
        search_meetings_falsy(1) search_projects_falsy(1))+
qed

text \<open>
  Witness for C4: the identifier \<^verbatim>\<open>not-an-id\<close> is not an ObjectId, and neither is a
  string of twenty-four characters one of which is no hexadecimal digit; an update, a
  delete and a search with them are answered 500 and leave the collection as it was.
\<close>

theorem C4_invalid_identifier_witness:
  "ObjectId ''not-an-id'' = Inl (InvalidId ''not-an-id'')
   \<and> update_document
       [(oid_1, DocumentBase_dict
              \<lparr>doc_title = ''Report'', doc_description = ''Q1'', doc_uploaded_by = ''Asha''\<rparr>)]
       ''not-an-id''
       \<lparr>doc_title = ''Plan'', doc_description = ''Q2'', doc_uploaded_by = ''Ravi''\<rparr>
     = (Inl (HTTPException 500 (Str (InvalidId ''not-an-id''))),
        [(oid_1, DocumentBase_dict
               \<lparr>doc_title = ''Report'', doc_description = ''Q1'', doc_uploaded_by = ''Asha''\<rparr>)])
   \<and> delete_chat [] ''not-an-id'' = (Inl (HTTPException 500 (Str (InvalidId ''not-an-id''))), [])
   \<and> search_projects (\<lambda>p. None) [] (Some ''not-an-id'') None None
     = Inl (HTTPException 500 (Str (InvalidId ''not-an-id'')))
   \<and> ObjectId ''00000000000000000000000g'' = Inl (InvalidId ''00000000000000000000000g'')
   \<and> search_employees (\<lambda>s. None) (\<lambda>p. None) [] (Some ''00000000000000000000000g'') None None None
     = Inl (HTTPException 500 (Str (InvalidId ''00000000000000000000000g'')))"
proof -
  have h: "ObjectId ''not-an-id'' = Inl (InvalidId ''not-an-id'')"
    by (simp add: ObjectId_def)
  have g: "ObjectId ''00000000000000000000000g'' = Inl (InvalidId ''00000000000000000000000g'')"
    by (simp add: ObjectId_def hex_value_def is_space_def)
  note all_handlers = C4_invalid_identifier_is_answered_500 [THEN conjunct1, THEN mp, OF h]
  note updates = all_handlers [THEN conjunct2, THEN conjunct1]
  note deletes = all_handlers [THEN conjunct2, THEN conjunct2, THEN conjunct2, THEN conjunct2,
    THEN conjunct2, THEN conjunct2, THEN conjunct1]
  have "''not-an-id'' \<noteq> []"
    by simp
  note searches = all_handlers [THEN conjunct2, THEN conjunct2, THEN conjunct2,
    THEN conjunct2, THEN conjunct2, THEN conjunct2, THEN conjunct2, THEN conjunct2,
    THEN conjunct2, THEN conjunct2, THEN conjunct2, THEN conjunct2, THEN conjunct1,
    THEN mp, OF this, THEN conjunct2, THEN conjunct2, THEN conjunct2, THEN conjunct2]
  have "''00000000000000000000000g'' \<noteq> []"
    by simp
  note employees = C4_invalid_identifier_is_answered_500 [THEN conjunct1, THEN mp, OF g,
    THEN conjunct2, THEN conjunct2, THEN conjunct2,
    THEN conjunct2, THEN conjunct2, THEN conjunct2, THEN conjunct2, THEN conjunct2,
    THEN conjunct2, THEN conjunct2, THEN conjunct2, THEN conjunct2, THEN conjunct1,
    THEN mp, OF this, THEN conjunct2, THEN conjunct1]
  show ?thesis
    by (intro conjI) (rule h g updates deletes searches employees)+
qed

subsection \<open>C5: matching of the string filters\<close>





subsection \<open>C6: filters matched by equality\<close>




subsection \<open>C7: update replaces the base fields of one record\<close>

text \<open>
  Claim C7: update has full replacement semantics. On success every base field of the
  record with that identifier is overwritten with the payload's value, the identifier
  is preserved and returned unchanged in the response, and no other record of the
  collection is modified.

  For chats, documents, expenses, meetings and projects this is what the handler does.
  When the identifier denotes a stored payload, the update returns the record made of
  the new payload and the identifier as given, and the collection afterwards holds the
  new payload in the place of the first one with that identifier, under the same
  \<^verbatim>\<open>_id\<close>, and every other payload as before (lemmas \<open>update_chat_written\<close>,
  \<open>update_document_written\<close> and their siblings); the update returns a record for
  no other identifier (\<open>update_chat_succeeds_iff\<close> and siblings), and on a collection
  with documents of any shape a field outside the base schema is kept
  (\<open>update_chat_replaces\<close> and siblings). \<^verbatim>\<open>update_employee\<close> replaces the fields in
  the store in the same way (\<open>update_employee_written\<close>), and then builds its response
  with \<^verbatim>\<open>Employee(**employee_dict)\<close>, which has no value for the required field
  \<^verbatim>\<open>id\<close> (the defect of C3): the update that was applied is answered 500, and no
  record is returned. The theorem evaluates \<^verbatim>\<open>update_employee\<close> on two employees,
  giving the first a new position and salary, and \<^verbatim>\<open>update_document\<close> on two
  documents for comparison.
\<close>

theorem C7_employee_update_is_applied_and_answered_500:
  "update_employee fl
     [(oid_1, EmployeeBase_dict
            \<lparr>emp_name = ''Asha'', emp_position = ''Engineer'', emp_salary = 95000\<rparr>),
      (oid_2, EmployeeBase_dict
            \<lparr>emp_name = ''Ravi'', emp_position = ''Analyst'', emp_salary = 70000\<rparr>)]
     ''000000000000000000000001''
     \<lparr>emp_name = ''Asha'', emp_position = ''Lead Engineer'', emp_salary = 110000\<rparr>
   = (Inl (HTTPException 500 (Str (ValidationError ''Employee''))),
      [(oid_1, EmployeeBase_dict
             \<lparr>emp_name = ''Asha'', emp_position = ''Lead Engineer'', emp_salary = 110000\<rparr>),
       (oid_2, EmployeeBase_dict
             \<lparr>emp_name = ''Ravi'', emp_position = ''Analyst'', emp_salary = 70000\<rparr>)])
   \<and> http_status 200
        (Inl (HTTPException 500 (Str (ValidationError ''Employee''))) :: exn + Employee Response)
      = 500
   \<and> update_document
     [(oid_1, DocumentBase_dict
            \<lparr>doc_title = ''Report'', doc_description = ''Q1'', doc_uploaded_by = ''Asha''\<rparr>),
      (oid_2, DocumentBase_dict
            \<lparr>doc_title = ''Plan'', doc_description = ''Q2'', doc_uploaded_by = ''Ravi''\<rparr>)]
     ''000000000000000000000001''
     \<lparr>doc_title = ''Report'', doc_description = ''Q3'', doc_uploaded_by = ''Mina''\<rparr>
   = (Inr \<lparr>detail = ''Document updated successfully.'',
          data = Some \<lparr>doc_title = ''Report'', doc_description = ''Q3'',
                   doc_uploaded_by = ''Mina'', doc_id = ''000000000000000000000001''\<rparr>\<rparr>,
      [(oid_1, DocumentBase_dict
             \<lparr>doc_title = ''Report'', doc_description = ''Q3'', doc_uploaded_by = ''Mina''\<rparr>),
       (oid_2, DocumentBase_dict
             \<lparr>doc_title = ''Plan'', doc_description = ''Q2'', doc_uploaded_by = ''Ravi''\<rparr>)])"
  by (simp add: update_employee_def update_document_def ObjectId_1 Employee_init_payload
      Document_init_payload EmployeeBase_dict_overwrite DocumentBase_dict_overwrite
      http_status_def)

subsection \<open>C8: update and the uniqueness rule\<close>

text \<open>
  Claim C8: update never re-checks the uniqueness rule: for a resource with one,
  updating an existing record so that its key takes a value held by a different record
  succeeds (no DuplicateKey error on update) and leaves two records with the same key.

  No update handler looks the key up, and the update is applied. For documents,
  meetings and projects the handler then returns the updated record: the update
  succeeds exactly when the identifier denotes a stored record, whatever keys the
  other records hold (lemmas \<open>update_document_succeeds_iff\<close>,
  \<open>update_meeting_succeeds_iff\<close>, \<open>update_project_succeeds_iff\<close>).
  \<^verbatim>\<open>update_employee\<close> applies the update as well, and then builds its response with
  \<^verbatim>\<open>Employee(**employee_dict)\<close>, which has no value for the required field \<^verbatim>\<open>id\<close>
  (the defect of C3): the request is answered 500 although the store now holds two
  employees of the same name. The theorem evaluates \<^verbatim>\<open>update_employee\<close> on two
  employees, giving the second the name of the first.
\<close>

theorem C8_employee_update_to_taken_name_is_answered_500:
  "update_employee fl
     [(oid_1, EmployeeBase_dict
            \<lparr>emp_name = ''Asha'', emp_position = ''Engineer'', emp_salary = 95000\<rparr>),
      (oid_2, EmployeeBase_dict
            \<lparr>emp_name = ''Ravi'', emp_position = ''Analyst'', emp_salary = 70000\<rparr>)]
     ''000000000000000000000002''
     \<lparr>emp_name = ''Asha'', emp_position = ''Analyst'', emp_salary = 70000\<rparr>
   = (Inl (HTTPException 500 (Str (ValidationError ''Employee''))),
      [(oid_1, EmployeeBase_dict
             \<lparr>emp_name = ''Asha'', emp_position = ''Engineer'', emp_salary = 95000\<rparr>),
       (oid_2, EmployeeBase_dict
             \<lparr>emp_name = ''Asha'', emp_position = ''Analyst'', emp_salary = 70000\<rparr>)])"
proof -
  have "EmployeeBase_dict a ++ EmployeeBase_dict b = EmployeeBase_dict b" for a b
    by (simp add: fun_eq_iff map_add_def EmployeeBase_dict_def)
  then show ?thesis
    by (simp add: update_employee_def ObjectId_2 Employee_init_payload)
qed

subsection \<open>C9: filters with a false truth value\<close>

text \<open>
  Claim C9: a search filter given with a falsy value (the empty string for a string
  filter, 0 for the employee salary filter) is treated as absent: it adds no
  criterion, so that searching employees with salary 0 returns every employee instead
  of only those whose salary is exactly 0.

  Every filter is guarded by \<^verbatim>\<open>if v:\<close>, so a falsy value and an absent one give the
  same query and the same response (lemmas \<open>search_employees_falsy\<close>,
  \<open>search_chats_falsy\<close> and their siblings). For \<^verbatim>\<open>salary=0\<close> the query is empty
  and selects every employee; the handler then converts what it found with
  \<^verbatim>\<open>Employee(**emp)\<close>, which raises for every stored employee (the defect of C3), and
  the request is answered 500 instead of the list of all employees. The theorem
  evaluates the query and the search on two employees, one of salary 0.
\<close>

theorem C9_employee_search_salary_zero_is_answered_500:
  "search_employees_query None None None (Some 0) = Inr []
   \<and> search_employees fl (\<lambda>p. None)
     [(oid_1, EmployeeBase_dict
            \<lparr>emp_name = ''Asha'', emp_position = ''Intern'', emp_salary = 0\<rparr>),
      (oid_2, EmployeeBase_dict
            \<lparr>emp_name = ''Ravi'', emp_position = ''Analyst'', emp_salary = 70000\<rparr>)]
     None None None (Some 0)
   = Inl (HTTPException 500 (Str (ValidationError ''Employee'')))"
  by (simp add: search_employees_def search_employees_query_def id_filter_simps filter_simps
      run_search_def employee_record_def as_dict_def Employee_init_def get_str_def
      get_float_def EmployeeBase_dict_def)

subsection \<open>C10: the uniqueness check is exact, the search is not\<close>




end
